theory Spec2Isabelle
  imports Complex_Main
begin

section \<open>Numbers, errors and helper combinators\<close>

text \<open>
  The engine stores every number as a C++ \<open>double\<close>. The embedding idealises doubles as
  real numbers: arithmetic is exact, and there are no infinities and no NaN. Sizes and
  indices (\<open>size_t\<close>, 64 bits wide) are natural numbers; where the source subtracts
  from a \<open>size_t\<close> or computes a storage offset from indices a caller chose, the
  wrap-around modulo \<open>2 ^ 64\<close> is written out. Running out of memory is not modelled.
\<close>

type_synonym double = real

definition size_t_mod :: nat where
  "size_t_mod = 2 ^ 64"

text \<open>
  What a C++ call can end in besides a result: a \<open>RuntimeError\<close> (the engine's own
  exception class), a \<open>LexerError\<close> with its line and column, any other
  \<open>std::exception\<close>, or behaviour the language leaves undefined (an unchecked
  \<open>std::vector\<close> access out of range, a conversion of an out-of-range double
  to \<open>size_t\<close>).
\<close>

datatype error =
    RuntimeError string
  | LexerError string int int
  | StdException string
  | UndefinedBehaviour

fun mapM_err :: "('a \<Rightarrow> error + 'b) \<Rightarrow> 'a list \<Rightarrow> error + 'b list" where
  "mapM_err f [] = Inr []"
| "mapM_err f (x # xs) =
     (case f x of
        Inl e \<Rightarrow> Inl e
      | Inr y \<Rightarrow> (case mapM_err f xs of Inl e \<Rightarrow> Inl e | Inr ys \<Rightarrow> Inr (y # ys)))"

fun foldM_err :: "('s \<Rightarrow> 'a \<Rightarrow> error + 's) \<Rightarrow> 's \<Rightarrow> 'a list \<Rightarrow> error + 's" where
  "foldM_err f s [] = Inr s"
| "foldM_err f s (x # xs) =
     (case f s x of Inl e \<Rightarrow> Inl e | Inr s' \<Rightarrow> foldM_err f s' xs)"

text \<open>\<open>std::to_string\<close> on a \<open>size_t\<close>: the decimal digits.\<close>

definition digit_char :: "nat \<Rightarrow> char" where
  "digit_char d = ''0123456789'' ! d"

fun to_string :: "nat \<Rightarrow> string" where
  "to_string n = (if n < 10 then [digit_char n] else to_string (n div 10) @ [digit_char (n mod 10)])"

declare to_string.simps [simp del]

text \<open>An unchecked \<open>std::vector::operator[]\<close> read.\<close>

definition vec_at :: "'a list \<Rightarrow> nat \<Rightarrow> error + 'a" where
  "vec_at xs k = (if k < length xs then Inr (xs ! k) else Inl UndefinedBehaviour)"

section \<open>Matrix (value.h, value.cpp)\<close>

record Matrix =
  rows :: nat
  cols :: nat
  data :: "double list"

text \<open>The constructors \<open>Matrix()\<close>, \<open>Matrix(rows, cols)\<close> and \<open>Matrix(rows, cols, fill)\<close>.\<close>

definition Matrix_empty :: Matrix where
  "Matrix_empty = \<lparr>rows = 0, cols = 0, data = []\<rparr>"

definition Matrix_fill :: "nat \<Rightarrow> nat \<Rightarrow> double \<Rightarrow> Matrix" where
  "Matrix_fill r c v = \<lparr>rows = r, cols = c, data = replicate (r * c) v\<rparr>"

definition Matrix_new :: "nat \<Rightarrow> nat \<Rightarrow> Matrix" where
  "Matrix_new r c = Matrix_fill r c 0"

definition zeros :: "nat \<Rightarrow> nat \<Rightarrow> Matrix" where
  "zeros r c = Matrix_fill r c 0"

definition numel :: "Matrix \<Rightarrow> nat" where
  "numel m = length (data m)"

definition isEmpty :: "Matrix \<Rightarrow> bool" where
  "isEmpty m = (data m = [])"

definition isScalar :: "Matrix \<Rightarrow> bool" where
  "isScalar m = (rows m = 1 \<and> cols m = 1)"

text \<open>\<open>operator()(row, col)\<close> and \<open>operator()(idx)\<close>, reading and writing.\<close>

definition offset :: "Matrix \<Rightarrow> nat \<Rightarrow> nat \<Rightarrow> nat" where
  "offset m i j = (i * cols m + j) mod size_t_mod"

definition at2 :: "Matrix \<Rightarrow> nat \<Rightarrow> nat \<Rightarrow> error + double" where
  "at2 m i j = vec_at (data m) (offset m i j)"

definition at1 :: "Matrix \<Rightarrow> nat \<Rightarrow> error + double" where
  "at1 m k = vec_at (data m) k"

definition set2 :: "Matrix \<Rightarrow> nat \<Rightarrow> nat \<Rightarrow> double \<Rightarrow> error + Matrix" where
  "set2 m i j v =
     (if offset m i j < length (data m)
      then Inr (m\<lparr>data := (data m)[offset m i j := v]\<rparr>)
      else Inl UndefinedBehaviour)"

definition set1 :: "Matrix \<Rightarrow> nat \<Rightarrow> double \<Rightarrow> error + Matrix" where
  "set1 m k v =
     (if k < length (data m) then Inr (m\<lparr>data := (data m)[k := v]\<rparr>)
      else Inl UndefinedBehaviour)"

definition scalar :: "double \<Rightarrow> Matrix" where
  "scalar v = \<lparr>rows = 1, cols = 1, data = [v]\<rparr>"

definition scalarValue :: "Matrix \<Rightarrow> error + double" where
  "scalarValue m =
     (if \<not> isScalar m then Inl (RuntimeError ''Not a scalar'') else vec_at (data m) 0)"

text \<open>
  The pattern \<open>Matrix result(r, c); for i < r: for j < c: result(i, j) = f(i, j)\<close>:
  the cells are computed in row-major order, and the first failing read ends the loop.
\<close>

definition build :: "nat \<Rightarrow> nat \<Rightarrow> (nat \<Rightarrow> nat \<Rightarrow> error + double) \<Rightarrow> error + Matrix" where
  "build r c f =
     (case mapM_err (\<lambda>i. mapM_err (f i) [0..<c]) [0..<r] of
        Inl e \<Rightarrow> Inl e
      | Inr rs \<Rightarrow> Inr \<lparr>rows = r, cols = c, data = concat rs\<rparr>)"


text \<open>The scalar operations: one pass over \<open>data\<close>.\<close>

definition mat_scale :: "Matrix \<Rightarrow> double \<Rightarrow> Matrix" where
  "mat_scale m s = \<lparr>rows = rows m, cols = cols m, data = map (\<lambda>x. x * s) (data m)\<rparr>"

definition mat_div_scalar :: "Matrix \<Rightarrow> double \<Rightarrow> Matrix" where
  "mat_div_scalar m s = \<lparr>rows = rows m, cols = cols m, data = map (\<lambda>x. x / s) (data m)\<rparr>"

definition shape_string :: "Matrix \<Rightarrow> string" where
  "shape_string m = to_string (rows m) @ ''x'' @ to_string (cols m)"

text \<open>\<open>Matrix::operator*(const Matrix&)\<close>: the inner loop accumulates \<open>sum\<close> from 0.\<close>

definition dot_step :: "Matrix \<Rightarrow> Matrix \<Rightarrow> nat \<Rightarrow> nat \<Rightarrow> double \<Rightarrow> nat \<Rightarrow> error + double" where
  "dot_step a b i j acc k =
     (case at2 a i k of
        Inl e \<Rightarrow> Inl e
      | Inr x \<Rightarrow> (case at2 b k j of Inl e \<Rightarrow> Inl e | Inr y \<Rightarrow> Inr (acc + x * y)))"

definition mat_mul :: "Matrix \<Rightarrow> Matrix \<Rightarrow> error + Matrix" where
  "mat_mul a b =
     (if isScalar a then
        (case scalarValue a of Inl e \<Rightarrow> Inl e | Inr s \<Rightarrow> Inr (mat_scale b s))
      else if isScalar b then
        (case scalarValue b of Inl e \<Rightarrow> Inl e | Inr s \<Rightarrow> Inr (mat_scale a s))
      else if cols a \<noteq> rows b then
        Inl (RuntimeError (''Inner matrix dimensions must agree for multiplication ('' @
               shape_string a @ '' * '' @ shape_string b @ '')''))
      else build (rows a) (cols b)
             (\<lambda>i j. foldM_err (dot_step a b i j) 0 [0..<cols a]))"

text \<open>
  \<open>Matrix::broadcastCheck\<close>: the result shape of an elementwise operation, or the
  error naming both shapes.
\<close>

definition broadcastCheck :: "Matrix \<Rightarrow> Matrix \<Rightarrow> error + nat \<times> nat" where
  "broadcastCheck a b =
     (if rows a = rows b \<and> cols a = cols b then Inr (rows a, cols a)
      else if isScalar a then Inr (rows b, cols b)
      else if isScalar b then Inr (rows a, cols a)
      else if rows a = rows b \<and> (cols a = 1 \<or> cols b = 1) then
        Inr (rows a, max (cols a) (cols b))
      else if cols a = cols b \<and> (rows a = 1 \<or> rows b = 1) then
        Inr (max (rows a) (rows b), cols a)
      else Inl (RuntimeError (''Matrix dimensions must agree ('' @
                  shape_string a @ '' vs '' @ shape_string b @ '')'')))"

definition getWithBroadcast :: "Matrix \<Rightarrow> nat \<Rightarrow> nat \<Rightarrow> error + double" where
  "getWithBroadcast m r c =
     at2 m (if rows m = 1 then 0 else r) (if cols m = 1 then 0 else c)"

text \<open>
  The body shared by \<open>operator+\<close>, \<open>operator-\<close>, \<open>elementMul\<close>, \<open>elementDiv\<close>,
  \<open>elementPow\<close> and the six comparisons: check the shapes, then fill the result cell by cell.
\<close>

definition cell2 :: "(double \<Rightarrow> double \<Rightarrow> double) \<Rightarrow> Matrix \<Rightarrow> Matrix \<Rightarrow> nat \<Rightarrow> nat \<Rightarrow> error + double" where
  "cell2 f a b i j =
     (case getWithBroadcast a i j of
        Inl e \<Rightarrow> Inl e
      | Inr x \<Rightarrow> (case getWithBroadcast b i j of Inl e \<Rightarrow> Inl e | Inr y \<Rightarrow> Inr (f x y)))"

definition elementwise :: "(double \<Rightarrow> double \<Rightarrow> double) \<Rightarrow> Matrix \<Rightarrow> Matrix \<Rightarrow> error + Matrix" where
  "elementwise f a b =
     (case broadcastCheck a b of
        Inl e \<Rightarrow> Inl e
      | Inr (r, c) \<Rightarrow> build r c (cell2 f a b))"

text \<open>
  \<open>std::pow\<close> on idealised doubles: repeated multiplication for an integral exponent,
  the real power otherwise.
\<close>

definition std_pow :: "double \<Rightarrow> double \<Rightarrow> double" where
  "std_pow x y =
     (if y = of_int \<lfloor>y\<rfloor> then (if 0 \<le> y then x ^ nat \<lfloor>y\<rfloor> else 1 / x ^ nat \<lfloor>- y\<rfloor>)
      else x powr y)"

definition truth :: "bool \<Rightarrow> double" where
  "truth b = (if b then 1 else 0)"

definition mat_add :: "Matrix \<Rightarrow> Matrix \<Rightarrow> error + Matrix" where
  "mat_add = elementwise (\<lambda>x y. x + y)"

definition mat_sub :: "Matrix \<Rightarrow> Matrix \<Rightarrow> error + Matrix" where
  "mat_sub = elementwise (\<lambda>x y. x - y)"

definition elementMul :: "Matrix \<Rightarrow> Matrix \<Rightarrow> error + Matrix" where
  "elementMul = elementwise (\<lambda>x y. x * y)"

definition elementDiv :: "Matrix \<Rightarrow> Matrix \<Rightarrow> error + Matrix" where
  "elementDiv = elementwise (\<lambda>x y. x / y)"

definition elementPow :: "Matrix \<Rightarrow> Matrix \<Rightarrow> error + Matrix" where
  "elementPow = elementwise std_pow"

definition mat_eq :: "Matrix \<Rightarrow> Matrix \<Rightarrow> error + Matrix" where
  "mat_eq = elementwise (\<lambda>x y. truth (x = y))"

definition mat_ne :: "Matrix \<Rightarrow> Matrix \<Rightarrow> error + Matrix" where
  "mat_ne = elementwise (\<lambda>x y. truth (x \<noteq> y))"

definition mat_lt :: "Matrix \<Rightarrow> Matrix \<Rightarrow> error + Matrix" where
  "mat_lt = elementwise (\<lambda>x y. truth (x < y))"

definition mat_gt :: "Matrix \<Rightarrow> Matrix \<Rightarrow> error + Matrix" where
  "mat_gt = elementwise (\<lambda>x y. truth (x > y))"

definition mat_le :: "Matrix \<Rightarrow> Matrix \<Rightarrow> error + Matrix" where
  "mat_le = elementwise (\<lambda>x y. truth (x \<le> y))"

definition mat_ge :: "Matrix \<Rightarrow> Matrix \<Rightarrow> error + Matrix" where
  "mat_ge = elementwise (\<lambda>x y. truth (x \<ge> y))"

text \<open>Unary minus, \<open>power(double)\<close> and \<open>transpose\<close>.\<close>

definition mat_neg :: "Matrix \<Rightarrow> Matrix" where
  "mat_neg m = \<lparr>rows = rows m, cols = cols m, data = map (\<lambda>x. - x) (data m)\<rparr>"

definition mat_power :: "Matrix \<Rightarrow> double \<Rightarrow> Matrix" where
  "mat_power m s = \<lparr>rows = rows m, cols = cols m, data = map (\<lambda>x. std_pow x s) (data m)\<rparr>"

definition transpose_mat :: "Matrix \<Rightarrow> error + Matrix" where
  "transpose_mat m = build (cols m) (rows m) (\<lambda>j i. at2 m i j)"

text \<open>\<open>getCol\<close>, used by the for loop.\<close>

definition getCol :: "Matrix \<Rightarrow> nat \<Rightarrow> error + Matrix" where
  "getCol m col = build (rows m) 1 (\<lambda>i j. at2 m i col)"

text \<open>
  \<open>horzcat\<close> and \<open>vertcat\<close>: the shape check over all inputs first, then the copy.
  A cell no input covers keeps the zero the result was created with.
\<close>

definition copy_block :: "Matrix \<Rightarrow> nat \<Rightarrow> nat \<Rightarrow> Matrix \<Rightarrow> error + Matrix" where
  "copy_block m rowOffset colOffset result =
     foldM_err (\<lambda>res i.
        foldM_err (\<lambda>res' j.
           (case at2 m i j of Inl e \<Rightarrow> Inl e | Inr x \<Rightarrow> set2 res' (rowOffset + i) (colOffset + j) x))
          res [0..<cols m])
       result [0..<rows m]"

fun horzcat_copy :: "Matrix list \<Rightarrow> nat \<Rightarrow> Matrix \<Rightarrow> error + Matrix" where
  "horzcat_copy [] colOffset result = Inr result"
| "horzcat_copy (m # ms) colOffset result =
     (case copy_block m 0 colOffset result of
        Inl e \<Rightarrow> Inl e
      | Inr res \<Rightarrow> horzcat_copy ms (colOffset + cols m) res)"

fun vertcat_copy :: "Matrix list \<Rightarrow> nat \<Rightarrow> Matrix \<Rightarrow> error + Matrix" where
  "vertcat_copy [] rowOffset result = Inr result"
| "vertcat_copy (m # ms) rowOffset result =
     (case copy_block m rowOffset 0 result of
        Inl e \<Rightarrow> Inl e
      | Inr res \<Rightarrow> vertcat_copy ms (rowOffset + rows m) res)"

definition concat_error :: error where
  "concat_error = RuntimeError ''Dimensions of arrays being concatenated are not consistent''"

definition horzcat :: "Matrix list \<Rightarrow> error + Matrix" where
  "horzcat ms =
     (case ms of
        [] \<Rightarrow> Inr Matrix_empty
      | m0 # _ \<Rightarrow>
          if \<exists>m \<in> set ms. rows m \<noteq> rows m0 \<and> \<not> isEmpty m then Inl concat_error
          else horzcat_copy ms 0 (Matrix_new (rows m0) (sum_list (map cols ms))))"

definition vertcat :: "Matrix list \<Rightarrow> error + Matrix" where
  "vertcat ms =
     (case ms of
        [] \<Rightarrow> Inr Matrix_empty
      | m0 # _ \<Rightarrow>
          if \<exists>m \<in> set ms. cols m \<noteq> cols m0 \<and> \<not> isEmpty m then Inl concat_error
          else vertcat_copy ms 0 (Matrix_new (sum_list (map rows ms)) (cols m0)))"

section \<open>Tokens and syntax trees (token.h, ast.h)\<close>

datatype TokenType =
    NUMBER | STRING | IDENTIFIER
  | IF | ELSEIF | ELSE | END | FOR | WHILE | SWITCH | CASE | OTHERWISE | TRY | CATCH
  | FUNCTION | RETURN | BREAK | CONTINUE | GLOBAL | PERSISTENT
  | CLASSDEF | PROPERTIES | METHODS | EVENTS | ENUMERATION | TRUE_KW | FALSE_KW
  | PLUS | MINUS | STAR | SLASH | BACKSLASH | CARET
  | DOT_STAR | DOT_SLASH | DOT_BACKSLASH | DOT_CARET
  | TRANSPOSE | DOT_TRANSPOSE
  | EQ | NE | LT | GT | LE | GE
  | AND | OR | SHORT_AND | SHORT_OR | NOT
  | ASSIGN
  | LPAREN | RPAREN | LBRACKET | RBRACKET | LBRACE | RBRACE
  | COMMA | SEMICOLON | COLON | DOT | AT
  | NEWLINE | ELLIPSIS
  | EOF_TOKEN

text \<open>
  The nodes of \<open>ExprVariant\<close> and \<open>StmtVariant\<close>. A null \<open>ExprPtr\<close> (an absent range
  bound, the condition of an \<open>else\<close> branch, the value of \<open>otherwise\<close>) is \<open>None\<close>. The
  source position every node carries is left out: the interpreter never reads it.
\<close>

datatype Expr =
    NumberLiteral double double bool
  | StringLiteral string
  | BoolLiteral bool
  | Identifier string
  | UnaryExpr TokenType Expr bool
  | BinaryExpr TokenType Expr Expr
  | MatrixLiteral "Expr list list"
  | CellArrayLiteral "Expr list list"
  | CallExpr Expr "Expr list"
  | CellIndexExpr Expr "Expr list"
  | DotExpr Expr string
  | ColonExpr "Expr option" "Expr option" "Expr option"
  | EndExpr
  | AnonFuncExpr "string list" Expr
  | FuncHandleExpr string
  | CommandExpr string "string list"

datatype Stmt =
    ExprStmt Expr bool
  | AssignStmt Expr Expr bool
  | MultiAssignStmt "string list" Expr bool
  | IfStmt "(Expr option \<times> Stmt list) list"
  | ForStmt string Expr "Stmt list"
  | WhileStmt Expr "Stmt list"
  | SwitchStmt Expr "(Expr option \<times> Stmt list) list"
  | TryCatchStmt "Stmt list" string "Stmt list"
  | ReturnStmt
  | BreakStmt
  | ContinueStmt
  | GlobalStmt "string list"
  | PersistentStmt "string list"
  | FunctionDefStmt FunctionDef
  | ClassDefStmt string "string list" "(string \<times> Expr option) list" "FunctionDef list"
and FunctionDef =
    FunctionDef (fn_name: string) (params: "string list") (returns: "string list") (body: "Stmt list")

record Program =
  prog_statements :: "Stmt list"
  prog_functions :: "FunctionDef list"

section \<open>Value (value.h, value.cpp)\<close>

text \<open>
  A \<open>Value\<close> is a type tag with the payload of that tag. A function handle refers to a
  builtin by the name it is registered under, or carries the user function's definition.
  An entry of a cell array is a \<open>ValuePtr\<close> that may be null.
\<close>

datatype FuncImpl = BuiltinImpl string | UserImpl FunctionDef

datatype Value =
    VMatrix Matrix
  | VString string
  | VLogical Matrix
  | VCellArray nat nat "Value option list"
  | VStruct "(string \<times> Value) list"
  | VFuncHandle string FuncImpl
  | VEmpty

definition makeScalar :: "double \<Rightarrow> Value" where
  "makeScalar d = VMatrix (scalar d)"

definition makeBool :: "bool \<Rightarrow> Value" where
  "makeBool b = VLogical (scalar (if b then 1 else 0))"

fun isNumeric :: "Value \<Rightarrow> bool" where
  "isNumeric (VMatrix m) = True"
| "isNumeric (VLogical m) = True"
| "isNumeric v = False"

fun isEmptyValue :: "Value \<Rightarrow> bool" where
  "isEmptyValue VEmpty = True"
| "isEmptyValue v = False"

text \<open>\<open>Value::matrix()\<close>: the payload of a numeric or logical value.\<close>

fun matrix :: "Value \<Rightarrow> error + Matrix" where
  "matrix (VMatrix m) = Inr m"
| "matrix (VLogical m) = Inr m"
| "matrix v = Inl (RuntimeError ''Value is not a matrix'')"

fun isScalarValue :: "Value \<Rightarrow> bool" where
  "isScalarValue (VMatrix m) = isScalar m"
| "isScalarValue (VLogical m) = isScalar m"
| "isScalarValue v = False"

text \<open>
  \<open>Value::scalarDouble()\<close>. A value of another tag holds a default (0 by 0) matrix,
  which is not a scalar.
\<close>

fun scalarDouble :: "Value \<Rightarrow> error + double" where
  "scalarDouble (VString s) =
     (if length s = 1 then Inr (real (of_char (hd s) :: nat))
      else Inl (RuntimeError ''Cannot convert string to scalar''))"
| "scalarDouble (VMatrix m) = scalarValue m"
| "scalarDouble (VLogical m) = scalarValue m"
| "scalarDouble v = Inl (RuntimeError ''Not a scalar'')"

text \<open>\<open>Value::toBool()\<close>: every element nonzero and at least one element; a string is true when it is not empty.\<close>

fun toBool :: "Value \<Rightarrow> error + bool" where
  "toBool (VMatrix m) = Inr (if 0 \<in> set (data m) then False else numel m > 0)"
| "toBool (VLogical m) = Inr (if 0 \<in> set (data m) then False else numel m > 0)"
| "toBool (VString s) = Inr (s \<noteq> [])"
| "toBool v = Inl (RuntimeError ''Cannot convert value to logical'')"

text \<open>\<open>Value::toMatrix()\<close>: a string becomes the row of its character codes.\<close>

fun toMatrix :: "Value \<Rightarrow> error + Matrix" where
  "toMatrix (VMatrix m) = Inr m"
| "toMatrix (VLogical m) = Inr m"
| "toMatrix (VString s) =
     Inr \<lparr>rows = 1, cols = length s, data = map (\<lambda>c. real (of_char c :: nat)) s\<rparr>"
| "toMatrix v = Inl (RuntimeError ''Cannot convert to numeric matrix'')"

definition makeMatrixE :: "error + Matrix \<Rightarrow> error + Value" where
  "makeMatrixE r = (case r of Inl e \<Rightarrow> Inl e | Inr m \<Rightarrow> Inr (VMatrix m))"

section \<open>Operators on values (Interpreter::evalUnary, Interpreter::evalBinary)\<close>

text \<open>
  The part of \<open>evalBinary\<close> that runs once both operands are evaluated. The logical
  operators compute the result shape themselves, as the maximum of the two shapes, and
  read both operands through \<open>getWithBroadcast\<close>; \<open>&&\<close> and \<open>||\<close> inside a cell
  short-circuit as in C++.
\<close>

definition and_cell :: "Matrix \<Rightarrow> Matrix \<Rightarrow> nat \<Rightarrow> nat \<Rightarrow> error + double" where
  "and_cell lm rm i j =
     (case getWithBroadcast lm i j of
        Inl e \<Rightarrow> Inl e
      | Inr x \<Rightarrow>
          if x \<noteq> 0 then
            (case getWithBroadcast rm i j of Inl e \<Rightarrow> Inl e | Inr y \<Rightarrow> Inr (truth (y \<noteq> 0)))
          else Inr 0)"

definition or_cell :: "Matrix \<Rightarrow> Matrix \<Rightarrow> nat \<Rightarrow> nat \<Rightarrow> error + double" where
  "or_cell lm rm i j =
     (case getWithBroadcast lm i j of
        Inl e \<Rightarrow> Inl e
      | Inr x \<Rightarrow>
          if x \<noteq> 0 then Inr 1
          else (case getWithBroadcast rm i j of Inl e \<Rightarrow> Inl e | Inr y \<Rightarrow> Inr (truth (y \<noteq> 0))))"

definition logicalAnd :: "Matrix \<Rightarrow> Matrix \<Rightarrow> error + Matrix" where
  "logicalAnd lm rm = build (max (rows lm) (rows rm)) (max (cols lm) (cols rm)) (and_cell lm rm)"

definition logicalOr :: "Matrix \<Rightarrow> Matrix \<Rightarrow> error + Matrix" where
  "logicalOr lm rm = build (max (rows lm) (rows rm)) (max (cols lm) (cols rm)) (or_cell lm rm)"

definition numericBinary :: "TokenType \<Rightarrow> Matrix \<Rightarrow> Matrix \<Rightarrow> error + Matrix" where
  "numericBinary op lm rm =
     (case op of
        PLUS \<Rightarrow> mat_add lm rm
      | MINUS \<Rightarrow> mat_sub lm rm
      | STAR \<Rightarrow> mat_mul lm rm
      | SLASH \<Rightarrow>
          if isScalar rm then
            (case scalarValue rm of Inl e \<Rightarrow> Inl e | Inr s \<Rightarrow> Inr (mat_div_scalar lm s))
          else elementDiv lm rm
      | BACKSLASH \<Rightarrow>
          if isScalar lm then
            (case scalarValue lm of Inl e \<Rightarrow> Inl e | Inr s \<Rightarrow> Inr (mat_div_scalar rm s))
          else Inl (RuntimeError ''Matrix left division not yet fully implemented'')
      | CARET \<Rightarrow>
          if isScalar rm then
            (case scalarValue rm of Inl e \<Rightarrow> Inl e | Inr s \<Rightarrow> Inr (mat_power lm s))
          else Inl (RuntimeError ''Matrix power requires scalar exponent'')
      | DOT_STAR \<Rightarrow> elementMul lm rm
      | DOT_SLASH \<Rightarrow> elementDiv lm rm
      | DOT_CARET \<Rightarrow> elementPow lm rm
      | EQ \<Rightarrow> mat_eq lm rm
      | NE \<Rightarrow> mat_ne lm rm
      | LT \<Rightarrow> mat_lt lm rm
      | GT \<Rightarrow> mat_gt lm rm
      | LE \<Rightarrow> mat_le lm rm
      | GE \<Rightarrow> mat_ge lm rm
      | AND \<Rightarrow> logicalAnd lm rm
      | SHORT_AND \<Rightarrow> logicalAnd lm rm
      | OR \<Rightarrow> logicalOr lm rm
      | SHORT_OR \<Rightarrow> logicalOr lm rm
      | _ \<Rightarrow> Inl (RuntimeError ''Unknown binary operator''))"

definition unsupported_operands :: error where
  "unsupported_operands = RuntimeError ''Unsupported operand types for binary operation''"

definition evalBinaryValues :: "TokenType \<Rightarrow> Value \<Rightarrow> Value \<Rightarrow> error + Value" where
  "evalBinaryValues op left right =
     (if isNumeric left \<and> isNumeric right then
        (case matrix left of
           Inl e \<Rightarrow> Inl e
         | Inr lm \<Rightarrow>
             (case matrix right of
                Inl e \<Rightarrow> Inl e
              | Inr rm \<Rightarrow> makeMatrixE (numericBinary op lm rm)))
      else
        (case (left, right) of
           (VString a, VString b) \<Rightarrow>
             if op = EQ then Inr (makeBool (a = b))
             else if op = NE then Inr (makeBool (a \<noteq> b))
             else Inl unsupported_operands
         | _ \<Rightarrow> Inl unsupported_operands))"

definition mat_not :: "Matrix \<Rightarrow> Matrix" where
  "mat_not m = \<lparr>rows = rows m, cols = cols m,
                 data = map (\<lambda>x. if x = 0 then 1 else 0) (take (rows m * cols m) (data m))
                        @ replicate (rows m * cols m - length (data m)) 0\<rparr>"

definition evalUnaryValue :: "TokenType \<Rightarrow> Value \<Rightarrow> error + Value" where
  "evalUnaryValue op operand =
     (case op of
        MINUS \<Rightarrow>
          (if isNumeric operand then
             (case matrix operand of Inl e \<Rightarrow> Inl e | Inr m \<Rightarrow> Inr (VMatrix (mat_neg m)))
           else Inl (RuntimeError ''Unary minus requires numeric operand''))
      | PLUS \<Rightarrow> Inr operand
      | NOT \<Rightarrow>
          (if isNumeric operand then
             (case matrix operand of
                Inl e \<Rightarrow> Inl e
              | Inr m \<Rightarrow>
                  if length (data m) \<le> rows m * cols m then Inr (VMatrix (mat_not m))
                  else Inl UndefinedBehaviour)
           else Inl (RuntimeError ''Logical NOT requires numeric operand''))
      | TRANSPOSE \<Rightarrow>
          (if isNumeric operand then
             (case matrix operand of Inl e \<Rightarrow> Inl e | Inr m \<Rightarrow> makeMatrixE (transpose_mat m))
           else Inl (RuntimeError ''Transpose requires numeric operand''))
      | DOT_TRANSPOSE \<Rightarrow>
          (if isNumeric operand then
             (case matrix operand of Inl e \<Rightarrow> Inl e | Inr m \<Rightarrow> makeMatrixE (transpose_mat m))
           else Inl (RuntimeError ''Transpose requires numeric operand''))
      | _ \<Rightarrow> Inl (RuntimeError ''Unknown unary operator''))"

section \<open>Indexing a numeric variable (Interpreter::evalCall)\<close>

text \<open>
  \<open>static_cast<size_t>(x)\<close> truncates toward zero and is undefined when the truncated
  value does not fit; the subtraction of one that follows wraps at zero.
\<close>

definition to_size_t :: "double \<Rightarrow> error + nat" where
  "to_size_t x =
     (if - 1 < x \<and> x < real size_t_mod then Inr (nat \<lfloor>x\<rfloor>) else Inl UndefinedBehaviour)"

definition index0 :: "double \<Rightarrow> error + nat" where
  "index0 x =
     (case to_size_t x of
        Inl e \<Rightarrow> Inl e
      | Inr k \<Rightarrow> Inr ((k + size_t_mod - 1) mod size_t_mod))"

definition index_error :: error where
  "index_error = RuntimeError ''Index exceeds array dimensions''"

text \<open>One argument: \<open>A(:)\<close>, a scalar position, or a vector of positions.\<close>

definition index_colon :: "Matrix \<Rightarrow> error + Value" where
  "index_colon mat = makeMatrixE (build (numel mat) 1 (\<lambda>i j. at1 mat i))"

definition index_scalar :: "Matrix \<Rightarrow> Matrix \<Rightarrow> error + Value" where
  "index_scalar mat idxMat =
     (case scalarValue idxMat of
        Inl e \<Rightarrow> Inl e
      | Inr x \<Rightarrow>
          (case index0 x of
             Inl e \<Rightarrow> Inl e
           | Inr i \<Rightarrow>
               if i \<ge> numel mat then Inl index_error
               else (case at1 mat i of Inl e \<Rightarrow> Inl e | Inr v \<Rightarrow> Inr (makeScalar v))))"

definition index_vector_step :: "Matrix \<Rightarrow> Matrix \<Rightarrow> Matrix \<Rightarrow> nat \<Rightarrow> error + Matrix" where
  "index_vector_step mat idxMat result k =
     (case at1 idxMat k of
        Inl e \<Rightarrow> Inl e
      | Inr x \<Rightarrow>
          (case index0 x of
             Inl e \<Rightarrow> Inl e
           | Inr i \<Rightarrow>
               if i \<ge> numel mat then Inl index_error
               else (case at1 mat i of Inl e \<Rightarrow> Inl e | Inr v \<Rightarrow> set1 result k v)))"

definition index_vector :: "Matrix \<Rightarrow> Matrix \<Rightarrow> error + Value" where
  "index_vector mat idxMat =
     makeMatrixE (foldM_err (index_vector_step mat idxMat)
                    (Matrix_new (rows idxMat) (cols idxMat)) [0..<numel idxMat])"

definition index1 :: "Matrix \<Rightarrow> Value \<Rightarrow> (error + Value) option" where
  "index1 mat idx =
     (if isEmptyValue idx \<or> (case idx of VMatrix im \<Rightarrow> isEmpty im | _ \<Rightarrow> False) then
        Some (index_colon mat)
      else if isNumeric idx then
        (case matrix idx of
           Inl e \<Rightarrow> Some (Inl e)
         | Inr idxMat \<Rightarrow>
             if isScalar idxMat then Some (index_scalar mat idxMat)
             else Some (index_vector mat idxMat))
      else None)"

text \<open>
  Two arguments: each axis is every position (an empty argument), or the listed
  positions. The cells are then read with the unchecked \<open>operator()(row, col)\<close>.
\<close>

definition axis_indices :: "nat \<Rightarrow> Value \<Rightarrow> error + nat list" where
  "axis_indices extent arg =
     (if isEmptyValue arg then Inr [0..<extent]
      else if isNumeric arg then
        (case matrix arg of Inl e \<Rightarrow> Inl e | Inr m \<Rightarrow> mapM_err index0 (data m))
      else Inr [])"

definition index2 :: "Matrix \<Rightarrow> Value \<Rightarrow> Value \<Rightarrow> error + Value" where
  "index2 mat arg0 arg1 =
     (case axis_indices (rows mat) arg0 of
        Inl e \<Rightarrow> Inl e
      | Inr rowIdx \<Rightarrow>
          (case axis_indices (cols mat) arg1 of
             Inl e \<Rightarrow> Inl e
           | Inr colIdx \<Rightarrow>
               if length rowIdx = 1 \<and> length colIdx = 1 then
                 (case at2 mat (hd rowIdx) (hd colIdx) of
                    Inl e \<Rightarrow> Inl e
                  | Inr v \<Rightarrow> Inr (makeScalar v))
               else
                 makeMatrixE (build (length rowIdx) (length colIdx)
                                (\<lambda>i j. at2 mat (rowIdx ! i) (colIdx ! j)))))"

text \<open>
  The indexing branch of \<open>evalCall\<close> for a bound variable that is not shadowed by a
  function. \<open>None\<close> means that no branch returned or threw, so that control reaches
  the function call at the end of \<open>evalCall\<close>.
\<close>

definition indexVariable :: "Value \<Rightarrow> Value list \<Rightarrow> (error + Value) option" where
  "indexVariable var args =
     (if isNumeric var then
        (case matrix var of
           Inl e \<Rightarrow> Some (Inl e)
         | Inr mat \<Rightarrow>
             (case args of
                [idx] \<Rightarrow> index1 mat idx
              | [arg0, arg1] \<Rightarrow> Some (index2 mat arg0 arg1)
              | _ \<Rightarrow> None))
      else
        (case var of
           VCellArray r c d \<Rightarrow>
             Some (Inl (RuntimeError ''Cell array () indexing not fully supported yet, use {} instead''))
         | VStruct fs \<Rightarrow> Some (Inl (RuntimeError ''Struct array indexing not yet supported''))
         | _ \<Rightarrow> None))"

section \<open>Colon ranges (Interpreter::generateRange)\<close>

text \<open>
  The two loops of \<open>generateRange\<close>. Each is entered only under its sign test on
  \<open>step\<close>; the test is repeated in the loop condition here, which makes the recursion
  total without changing a run of the source.
\<close>

definition range_eps :: double where
  "range_eps = 1 / 10 ^ 10"

function range_up :: "double \<Rightarrow> double \<Rightarrow> double \<Rightarrow> double list" where
  "range_up v step stop =
     (if 0 < step \<and> v \<le> stop + step * range_eps then v # range_up (v + step) step stop else [])"
  by pat_completeness auto
termination
proof (relation "measure (\<lambda>(v, step, stop).
          if 0 < step \<and> v \<le> stop + step * range_eps
          then nat \<lfloor>(stop + step * range_eps - v) / step\<rfloor> + 1 else 0)")
  show "wf (measure (\<lambda>(v, step, stop).
          if 0 < step \<and> v \<le> stop + step * range_eps
          then nat \<lfloor>(stop + step * range_eps - v) / step\<rfloor> + 1 else 0))"
    by simp
next
  fix v step stop :: real
  assume a: "0 < step \<and> v \<le> stop + step * range_eps"
  let ?B = "stop + step * range_eps"
  have eq: "(?B - (v + step)) / step = (?B - v) / step - 1"
    using a by (simp add: field_simps)
  have nonneg: "0 \<le> \<lfloor>(?B - v) / step\<rfloor>" using a by simp
  have "\<lfloor>(?B - (v + step)) / step\<rfloor> = \<lfloor>(?B - v) / step\<rfloor> - 1"
    unfolding eq by simp
  then show "((v + step, step, stop), (v, step, stop)) \<in> measure (\<lambda>(v, step, stop).
          if 0 < step \<and> v \<le> stop + step * range_eps
          then nat \<lfloor>(stop + step * range_eps - v) / step\<rfloor> + 1 else 0)"
    using a nonneg by simp
qed

function range_down :: "double \<Rightarrow> double \<Rightarrow> double \<Rightarrow> double list" where
  "range_down v step stop =
     (if step < 0 \<and> v \<ge> stop + step * range_eps then v # range_down (v + step) step stop else [])"
  by pat_completeness auto
termination
proof (relation "measure (\<lambda>(v, step, stop).
          if step < 0 \<and> v \<ge> stop + step * range_eps
          then nat \<lfloor>(stop + step * range_eps - v) / step\<rfloor> + 1 else 0)")
  show "wf (measure (\<lambda>(v, step, stop).
          if step < 0 \<and> v \<ge> stop + step * range_eps
          then nat \<lfloor>(stop + step * range_eps - v) / step\<rfloor> + 1 else 0))"
    by simp
next
  fix v step stop :: real
  assume a: "step < 0 \<and> v \<ge> stop + step * range_eps"
  let ?B = "stop + step * range_eps"
  have eq: "(?B - (v + step)) / step = (?B - v) / step - 1"
    using a by (simp add: field_simps)
  have "0 \<le> (?B - v) / step" using a by (simp add: divide_nonpos_neg)
  then have nonneg: "0 \<le> \<lfloor>(?B - v) / step\<rfloor>" by simp
  have "\<lfloor>(?B - (v + step)) / step\<rfloor> = \<lfloor>(?B - v) / step\<rfloor> - 1"
    unfolding eq by simp
  then show "((v + step, step, stop), (v, step, stop)) \<in> measure (\<lambda>(v, step, stop).
          if step < 0 \<and> v \<ge> stop + step * range_eps
          then nat \<lfloor>(stop + step * range_eps - v) / step\<rfloor> + 1 else 0)"
    using a nonneg by simp
qed

declare range_up.simps [simp del] range_down.simps [simp del]

definition generateRange :: "double \<Rightarrow> double \<Rightarrow> double \<Rightarrow> error + Matrix" where
  "generateRange start step stop =
     (if step = 0 then Inl (RuntimeError ''Step size cannot be zero'')
      else
        (let values = (if step > 0 then range_up start step stop else range_down start step stop)
         in Inr \<lparr>rows = 1, cols = length values, data = values\<rparr>))"

section \<open>Predicates used to state the properties\<close>







text \<open>
  The kinds of token after which the specification reads a quote as a transpose:
  identifier, number, \<open>)\<close>, \<open>]\<close>, \<open>}\<close>, TRANSPOSE, DOT_TRANSPOSE, \<open>end\<close>, \<open>true\<close>, \<open>false\<close>.
\<close>

definition transpose_context :: "TokenType list" where
  "transpose_context =
     [IDENTIFIER, NUMBER, RPAREN, RBRACKET, RBRACE, TRANSPOSE, DOT_TRANSPOSE, END, TRUE_KW, FALSE_KW]"

section \<open>Lexer (token.h, lexer.cpp)\<close>

record Token =
  tok_type :: TokenType
  lexeme :: string
  numValue :: double
  imagValue :: double
  isComplex :: bool
  tok_line :: int
  tok_col :: int

text \<open>The constructors \<open>Token()\<close> and \<open>Token(type, lexeme, line, col)\<close>.\<close>

definition Token_default :: Token where
  "Token_default = \<lparr>tok_type = EOF_TOKEN, lexeme = [], numValue = 0, imagValue = 0,
                      isComplex = False, tok_line = 1, tok_col = 1\<rparr>"

definition Token_new :: "TokenType \<Rightarrow> string \<Rightarrow> int \<Rightarrow> int \<Rightarrow> Token" where
  "Token_new t lexm l c = \<lparr>tok_type = t, lexeme = lexm, numValue = 0, imagValue = 0,
                             isComplex = False, tok_line = l, tok_col = c\<rparr>"

text \<open>
  The lexer's state. \<open>input\<close> is the part of \<open>source_\<close> from \<open>pos_\<close> on: the lexer
  only ever reads at or after \<open>pos_\<close> and only ever moves \<open>pos_\<close> forward.
\<close>

record Lexer =
  input :: string
  line :: int
  col :: int
  lastToken :: Token
  hasPeeked :: bool
  peekedToken :: Token

definition Lexer_new :: "string \<Rightarrow> Lexer" where
  "Lexer_new source =
     \<lparr>input = source, line = 1, col = 1, lastToken = Token_default\<lparr>tok_type := NEWLINE\<rparr>,
      hasPeeked = False, peekedToken = Token_default\<rparr>"

definition newline :: char where
  "newline = CHR 0x0A"

definition quote :: char where
  "quote = CHR 0x27"

definition isAtEnd :: "Lexer \<Rightarrow> bool" where
  "isAtEnd lx = (input lx = [])"

definition current :: "Lexer \<Rightarrow> char" where
  "current lx = (case input lx of [] \<Rightarrow> CHR 0x00 | c # cs \<Rightarrow> c)"

definition peek :: "Lexer \<Rightarrow> nat \<Rightarrow> char" where
  "peek lx k = (if k < length (input lx) then input lx ! k else CHR 0x00)"

text \<open>\<open>advance()\<close>: the character it returns is \<open>current\<close> of the state before.\<close>

definition advance :: "Lexer \<Rightarrow> Lexer" where
  "advance lx =
     (if current lx = newline
      then lx\<lparr>input := tl (input lx), line := line lx + 1, col := 1\<rparr>
      else lx\<lparr>input := tl (input lx), col := col lx + 1\<rparr>)"

text \<open>The character classes of \<open><cctype>\<close> in the C locale.\<close>

definition isdigit :: "char \<Rightarrow> bool" where
  "isdigit c = (48 \<le> (of_char c :: nat) \<and> (of_char c :: nat) \<le> 57)"

definition isalpha :: "char \<Rightarrow> bool" where
  "isalpha c = ((65 \<le> (of_char c :: nat) \<and> (of_char c :: nat) \<le> 90)
              \<or> (97 \<le> (of_char c :: nat) \<and> (of_char c :: nat) \<le> 122))"

definition isalnum :: "char \<Rightarrow> bool" where
  "isalnum c = (isalpha c \<or> isdigit c)"

text \<open>
  The loop \<open>while (!isAtEnd() && p(current())) s += advance();\<close>, which the scanners and
  the comment skipper share: the characters consumed and the state after.
\<close>

function scan_while :: "(char \<Rightarrow> bool) \<Rightarrow> Lexer \<Rightarrow> string \<times> Lexer" where
  "scan_while p lx =
     (if \<not> isAtEnd lx \<and> p (current lx) then
        (case scan_while p (advance lx) of (s, lx') \<Rightarrow> (current lx # s, lx'))
      else ([], lx))"
  by pat_completeness auto
termination
  by (relation "measure (\<lambda>(p, lx). length (input lx))")
     (auto simp: isAtEnd_def advance_def)

declare scan_while.simps [simp del]

definition skipLineComment :: "Lexer \<Rightarrow> Lexer" where
  "skipLineComment lx = snd (scan_while (\<lambda>c. c \<noteq> newline) lx)"

lemma advance_length:
  "length (input (advance lx)) = length (input lx) - 1"
  by (simp add: advance_def)

lemma scan_while_length:
  "length (input (snd (scan_while p lx))) \<le> length (input lx)"
proof (induction p lx rule: scan_while.induct)
  case (1 p lx)
  show ?case
  proof (cases "\<not> isAtEnd lx \<and> p (current lx)")
    case True
    then have "length (input (snd (scan_while p (advance lx)))) \<le> length (input (advance lx))"
      using "1.IH" by simp
    then show ?thesis
      using True by (subst scan_while.simps) (auto simp: advance_length split: prod.splits)
  next
    case False
    then show ?thesis by (subst scan_while.simps) auto
  qed
qed

text \<open>
  \<open>skipWhitespace\<close>: blanks, tabs and carriage returns, and a line continuation
  (three dots, the rest of the line and its newline).
\<close>

definition skipContinuation :: "Lexer \<Rightarrow> Lexer" where
  "skipContinuation lx =
     (let lx1 = snd (scan_while (\<lambda>c. c \<noteq> newline) (advance (advance (advance lx))))
      in if \<not> isAtEnd lx1 then advance lx1 else lx1)"

lemma skipContinuation_length:
  "\<not> isAtEnd lx \<Longrightarrow> length (input (skipContinuation lx)) < length (input lx)"
proof -
  assume a: "\<not> isAtEnd lx"
  let ?l3 = "advance (advance (advance lx))"
  have "length (input (snd (scan_while (\<lambda>c. c \<noteq> newline) ?l3))) \<le> length (input ?l3)"
    by (rule scan_while_length)
  moreover have "length (input ?l3) < length (input lx)"
    using a by (simp add: advance_length isAtEnd_def)
  ultimately have "length (input (snd (scan_while (\<lambda>c. c \<noteq> newline) ?l3))) < length (input lx)"
    by (rule le_less_trans)
  then show ?thesis
    by (auto simp: skipContinuation_def Let_def advance_length intro: less_imp_diff_less)
qed

function skipWhitespace :: "Lexer \<Rightarrow> Lexer" where
  "skipWhitespace lx =
     (if isAtEnd lx then lx
      else if current lx = CHR '' '' \<or> current lx = CHR 0x09 \<or> current lx = CHR 0x0D then
        skipWhitespace (advance lx)
      else if current lx = CHR ''.'' \<and> peek lx 1 = CHR ''.'' \<and> peek lx 2 = CHR ''.'' then
        skipWhitespace (skipContinuation lx)
      else lx)"
  by pat_completeness auto
termination
  by (relation "measure (\<lambda>lx. length (input lx))")
     (auto simp: advance_length isAtEnd_def skipContinuation_length)

declare skipWhitespace.simps [simp del]

text \<open>\<open>skipBlockComment\<close>, entered after the opening \<open>%{\<close> with depth 1.\<close>

function skipBlockLoop :: "int \<Rightarrow> Lexer \<Rightarrow> Lexer" where
  "skipBlockLoop depth lx =
     (if \<not> isAtEnd lx \<and> depth > 0 then
        (if current lx = CHR ''%'' \<and> peek lx 1 = CHR ''{'' then
           skipBlockLoop (depth + 1) (advance (advance lx))
         else if current lx = CHR ''%'' \<and> peek lx 1 = CHR ''}'' then
           skipBlockLoop (depth - 1) (advance (advance lx))
         else skipBlockLoop depth (advance lx))
      else lx)"
  by pat_completeness auto
termination
  by (relation "measure (\<lambda>(depth, lx). length (input lx))")
     (auto simp: advance_length isAtEnd_def)

declare skipBlockLoop.simps [simp del]

definition skipBlockComment :: "Lexer \<Rightarrow> Lexer" where
  "skipBlockComment lx = skipBlockLoop 1 lx"

definition makeToken :: "TokenType \<Rightarrow> string \<Rightarrow> Lexer \<Rightarrow> Token \<times> Lexer" where
  "makeToken t lexm lx =
     (let tok = Token_new t lexm (line lx) (col lx - int (length lexm))
      in (tok, lx\<lparr>lastToken := tok\<rparr>))"

text \<open>\<open>isTransposeContext\<close>: the kinds of token after which a quote is a transpose.\<close>

definition isTransposeContext :: "Lexer \<Rightarrow> bool" where
  "isTransposeContext lx =
     (case tok_type (lastToken lx) of
        IDENTIFIER \<Rightarrow> True
      | NUMBER \<Rightarrow> True
      | RPAREN \<Rightarrow> True
      | RBRACKET \<Rightarrow> True
      | RBRACE \<Rightarrow> True
      | TRANSPOSE \<Rightarrow> True
      | DOT_TRANSPOSE \<Rightarrow> True
      | END \<Rightarrow> True
      | TRUE_KW \<Rightarrow> True
      | FALSE_KW \<Rightarrow> True
      | _ \<Rightarrow> False)"

text \<open>
  \<open>std::stod\<close> on a lexeme that \<open>scanNumber\<close> collected (digits, an optional fraction,
  an optional exponent): the decimal value of the longest well-formed prefix, as an
  idealised double.
\<close>

definition digits_value :: "string \<Rightarrow> nat" where
  "digits_value s = foldl (\<lambda>acc c. 10 * acc + ((of_char c :: nat) - 48)) 0 s"

definition exponent_value :: "string \<Rightarrow> int" where
  "exponent_value r =
     (case r of
        [] \<Rightarrow> 0
      | e # r1 \<Rightarrow>
          if e = CHR ''e'' \<or> e = CHR ''E'' then
            (let negative = (r1 \<noteq> [] \<and> hd r1 = CHR ''-'');
                 r2 = (if r1 \<noteq> [] \<and> (hd r1 = CHR ''+'' \<or> hd r1 = CHR ''-'') then tl r1 else r1);
                 ds = takeWhile isdigit r2
             in if negative then - int (digits_value ds) else int (digits_value ds))
          else 0)"

definition stod :: "string \<Rightarrow> double" where
  "stod s =
     (let ip = takeWhile isdigit s;
          r1 = dropWhile isdigit s;
          fp = (if r1 \<noteq> [] \<and> hd r1 = CHR ''.'' then takeWhile isdigit (tl r1) else []);
          r2 = (if r1 \<noteq> [] \<and> hd r1 = CHR ''.'' then dropWhile isdigit (tl r1) else r1);
          mantissa = real (digits_value ip) + real (digits_value fp) / 10 ^ length fp;
          ex = exponent_value r2
      in if 0 \<le> ex then mantissa * 10 ^ nat ex else mantissa / 10 ^ nat (- ex))"

text \<open>\<open>scanNumber\<close>.\<close>

definition scanDecimalPart :: "Lexer \<Rightarrow> string \<times> Lexer" where
  "scanDecimalPart lx =
     (if \<not> isAtEnd lx \<and> current lx = CHR ''.'' \<and> peek lx 1 \<noteq> CHR ''.''
         \<and> peek lx 1 \<noteq> CHR ''*'' \<and> peek lx 1 \<noteq> CHR ''/'' \<and> peek lx 1 \<noteq> CHR 0x5C
         \<and> peek lx 1 \<noteq> CHR ''^'' \<and> peek lx 1 \<noteq> quote then
        (case scan_while isdigit (advance lx) of (ds, lx') \<Rightarrow> (CHR ''.'' # ds, lx'))
      else ([], lx))"

definition scanExponentPart :: "Lexer \<Rightarrow> string \<times> Lexer" where
  "scanExponentPart lx =
     (if \<not> isAtEnd lx \<and> (current lx = CHR ''e'' \<or> current lx = CHR ''E'') then
        (let e = current lx; lx1 = advance lx;
             sign = (if \<not> isAtEnd lx1 \<and> (current lx1 = CHR ''+'' \<or> current lx1 = CHR ''-'')
                     then [current lx1] else []);
             lx2 = (if sign = [] then lx1 else advance lx1)
         in case scan_while isdigit lx2 of (ds, lx') \<Rightarrow> (e # sign @ ds, lx'))
      else ([], lx))"

definition scanNumber :: "Lexer \<Rightarrow> Token \<times> Lexer" where
  "scanNumber lx =
     (let startCol = col lx in
      case scan_while isdigit lx of (ip, lx1) \<Rightarrow>
      case scanDecimalPart lx1 of (fp, lx2) \<Rightarrow>
      case scanExponentPart lx2 of (ep, lx3) \<Rightarrow>
        (let num = ip @ fp @ ep;
             complex = (\<not> isAtEnd lx3 \<and> (current lx3 = CHR ''i'' \<or> current lx3 = CHR ''j'')
                        \<and> \<not> isalnum (peek lx3 1) \<and> peek lx3 1 \<noteq> CHR ''_'');
             lx4 = (if complex then advance lx3 else lx3);
             tok = (if complex then
                      (Token_new NUMBER (num @ [current lx3]) (line lx4) startCol)
                        \<lparr>isComplex := True, imagValue := stod num, numValue := 0\<rparr>
                    else (Token_new NUMBER num (line lx4) startCol)\<lparr>numValue := stod num\<rparr>)
         in (tok, lx4\<lparr>lastToken := tok\<rparr>)))"

text \<open>
  \<open>scanString\<close>: the loop ends at the closing delimiter or at the end of the input;
  only a newline inside the literal throws.
\<close>

function scanStringLoop :: "char \<Rightarrow> string \<Rightarrow> Lexer \<Rightarrow> error + string \<times> Lexer" where
  "scanStringLoop delimiter str lx =
     (if \<not> isAtEnd lx then
        (if current lx = delimiter then
           (if peek lx 1 = delimiter then
              scanStringLoop delimiter (str @ [delimiter]) (advance (advance lx))
            else Inr (str, advance lx))
         else if current lx = newline then
           Inl (LexerError ''Unterminated string literal'' (line lx) (col lx))
         else scanStringLoop delimiter (str @ [current lx]) (advance lx))
      else Inr (str, lx))"
  by pat_completeness auto
termination
  by (relation "measure (\<lambda>(delimiter, str, lx). length (input lx))")
     (auto simp: advance_length isAtEnd_def)

declare scanStringLoop.simps [simp del]

definition scanString :: "char \<Rightarrow> Lexer \<Rightarrow> error + Token \<times> Lexer" where
  "scanString delimiter lx =
     (case scanStringLoop delimiter [] (advance lx) of
        Inl e \<Rightarrow> Inl e
      | Inr (str, lx') \<Rightarrow>
          (let tok = Token_new STRING str (line lx') (col lx' - int (length str) - 2)
           in Inr (tok, lx'\<lparr>lastToken := tok\<rparr>)))"

definition keywords_table :: "string \<rightharpoonup> TokenType" where
  "keywords_table = map_of
     [(''if'', IF), (''elseif'', ELSEIF), (''else'', ELSE), (''end'', END), (''for'', FOR),
      (''while'', WHILE), (''switch'', SWITCH), (''case'', CASE), (''otherwise'', OTHERWISE),
      (''try'', TRY), (''catch'', CATCH), (''function'', FUNCTION), (''return'', RETURN),
      (''break'', BREAK), (''continue'', CONTINUE), (''global'', GLOBAL),
      (''persistent'', PERSISTENT), (''classdef'', CLASSDEF), (''properties'', PROPERTIES),
      (''methods'', METHODS), (''events'', EVENTS), (''enumeration'', ENUMERATION),
      (''true'', TRUE_KW), (''false'', FALSE_KW)]"

definition scanIdentifierOrKeyword :: "Lexer \<Rightarrow> Token \<times> Lexer" where
  "scanIdentifierOrKeyword lx =
     (let startCol = col lx in
      case scan_while (\<lambda>c. isalnum c \<or> c = CHR ''_'') lx of (ident, lx') \<Rightarrow>
        (let t = (case keywords_table ident of Some k \<Rightarrow> k | None \<Rightarrow> IDENTIFIER);
             tok = Token_new t ident (line lx') startCol
         in (tok, lx'\<lparr>lastToken := tok\<rparr>)))"

text \<open>The operators and punctuation: the \<open>switch\<close> at the end of \<open>nextToken\<close>, entered after the character \<open>c\<close> is consumed.\<close>

definition backslash :: char where
  "backslash = CHR 0x5C"

definition scanOperator :: "char \<Rightarrow> int \<Rightarrow> int \<Rightarrow> Lexer \<Rightarrow> error + Token \<times> Lexer" where
  "scanOperator c startLine startCol lx =
     (if c = CHR ''+'' then Inr (makeToken PLUS ''+'' lx)
      else if c = CHR ''-'' then Inr (makeToken MINUS ''-'' lx)
      else if c = CHR ''*'' then Inr (makeToken STAR ''*'' lx)
      else if c = CHR ''/'' then Inr (makeToken SLASH ''/'' lx)
      else if c = backslash then Inr (makeToken BACKSLASH [backslash] lx)
      else if c = CHR ''^'' then Inr (makeToken CARET ''^'' lx)
      else if c = CHR ''.'' then
        (if current lx = CHR ''*'' then Inr (makeToken DOT_STAR ''.*'' (advance lx))
         else if current lx = CHR ''/'' then Inr (makeToken DOT_SLASH ''./'' (advance lx))
         else if current lx = backslash then
           Inr (makeToken DOT_BACKSLASH [CHR ''.'', backslash] (advance lx))
         else if current lx = CHR ''^'' then Inr (makeToken DOT_CARET ''.^'' (advance lx))
         else if current lx = quote then
           Inr (makeToken DOT_TRANSPOSE [CHR ''.'', quote] (advance lx))
         else Inr (makeToken DOT ''.'' lx))
      else if c = CHR ''='' then
        (if current lx = CHR ''='' then Inr (makeToken EQ ''=='' (advance lx))
         else Inr (makeToken ASSIGN ''='' lx))
      else if c = CHR ''<'' then
        (if current lx = CHR ''='' then Inr (makeToken LE ''<='' (advance lx))
         else Inr (makeToken LT ''<'' lx))
      else if c = CHR ''>'' then
        (if current lx = CHR ''='' then Inr (makeToken GE ''>='' (advance lx))
         else Inr (makeToken GT ''>'' lx))
      else if c = CHR ''~'' then
        (if current lx = CHR ''='' then Inr (makeToken NE ''~='' (advance lx))
         else Inr (makeToken NOT ''~'' lx))
      else if c = CHR ''&'' then
        (if current lx = CHR ''&'' then Inr (makeToken SHORT_AND ''&&'' (advance lx))
         else Inr (makeToken AND ''&'' lx))
      else if c = CHR ''|'' then
        (if current lx = CHR ''|'' then Inr (makeToken SHORT_OR ''||'' (advance lx))
         else Inr (makeToken OR ''|'' lx))
      else if c = CHR ''('' then Inr (makeToken LPAREN ''('' lx)
      else if c = CHR '')'' then Inr (makeToken RPAREN '')'' lx)
      else if c = CHR ''['' then Inr (makeToken LBRACKET ''['' lx)
      else if c = CHR '']'' then Inr (makeToken RBRACKET '']'' lx)
      else if c = CHR ''{'' then Inr (makeToken LBRACE ''{'' lx)
      else if c = CHR ''}'' then Inr (makeToken RBRACE ''}'' lx)
      else if c = CHR '','' then Inr (makeToken COMMA '','' lx)
      else if c = CHR '';'' then Inr (makeToken SEMICOLON '';'' lx)
      else if c = CHR '':'' then Inr (makeToken COLON '':'' lx)
      else if c = CHR ''@'' then Inr (makeToken AT ''@'' lx)
      else Inl (LexerError (''Unexpected character '' @ [quote, c, quote] @ '' at line '' @
                   to_string (nat startLine) @ '', column '' @ to_string (nat startCol))
                  startLine startCol))"

text \<open>The lexeme of a NEWLINE token: a backslash and the letter n.\<close>

definition newline_lexeme :: string where
  "newline_lexeme = [backslash, CHR ''n'']"

lemma scan_while_consumes:
  "\<not> isAtEnd lx \<Longrightarrow> p (current lx) \<Longrightarrow>
   length (input (snd (scan_while p lx))) < length (input lx)"
proof -
  assume a: "\<not> isAtEnd lx" "p (current lx)"
  have "length (input (snd (scan_while p (advance lx)))) \<le> length (input (advance lx))"
    by (rule scan_while_length)
  moreover have "length (input (advance lx)) < length (input lx)"
    using a(1) by (simp add: advance_length isAtEnd_def)
  ultimately show ?thesis
    using a by (subst scan_while.simps) (auto split: prod.splits)
qed

lemma skipWhitespace_length:
  "length (input (skipWhitespace lx)) \<le> length (input lx)"
proof (induction lx rule: skipWhitespace.induct)
  case (1 lx)
  show ?case
  proof (cases "isAtEnd lx")
    case True
    then show ?thesis by (subst skipWhitespace.simps) simp
  next
    case False
    note ne = False
    show ?thesis
    proof (cases "current lx = CHR '' '' \<or> current lx = CHR 0x09 \<or> current lx = CHR 0x0D")
      case True
      then have "length (input (skipWhitespace (advance lx))) \<le> length (input (advance lx))"
        using "1.IH"(1) ne by simp
      then show ?thesis
        using True ne by (subst skipWhitespace.simps) (simp add: advance_length)
    next
      case False
      note nb = False
      show ?thesis
      proof (cases "current lx = CHR ''.'' \<and> peek lx 1 = CHR ''.'' \<and> peek lx 2 = CHR ''.''")
        case True
        then have "length (input (skipWhitespace (skipContinuation lx)))
                   \<le> length (input (skipContinuation lx))"
          using "1.IH"(2) ne nb by simp
        then show ?thesis
          using True ne nb skipContinuation_length [OF ne]
          by (subst skipWhitespace.simps) simp
      next
        case False
        then show ?thesis using ne nb by (subst skipWhitespace.simps) auto
      qed
    qed
  qed
qed

lemma skipBlockLoop_length:
  "length (input (skipBlockLoop depth lx)) \<le> length (input lx)"
proof (induction depth lx rule: skipBlockLoop.induct)
  case (1 depth lx)
  show ?case
  proof (cases "\<not> isAtEnd lx \<and> depth > 0")
    case False
    then show ?thesis by (subst skipBlockLoop.simps) auto
  next
    case True
    have a: "length (input (advance lx)) \<le> length (input lx)"
      and b: "length (input (advance (advance lx))) \<le> length (input lx)"
      by (simp_all add: advance_length)
    show ?thesis
      using True "1.IH" a b
      by (subst skipBlockLoop.simps) (auto intro: order_trans)
  qed
qed

text \<open>
  \<open>nextToken\<close>. A redundant newline and a comment are skipped by calling
  \<open>nextToken\<close> again on the state they leave.
\<close>

function nextToken :: "Lexer \<Rightarrow> error + Token \<times> Lexer" where
  "nextToken lx =
     (if hasPeeked lx then
        Inr (peekedToken lx, lx\<lparr>hasPeeked := False, lastToken := peekedToken lx\<rparr>)
      else if isAtEnd (skipWhitespace lx) then Inr (makeToken EOF_TOKEN [] (skipWhitespace lx))
      else if current (skipWhitespace lx) = newline then
        (if tok_type (lastToken (skipWhitespace lx)) \<noteq> NEWLINE
            \<and> tok_type (lastToken (skipWhitespace lx)) \<noteq> SEMICOLON
            \<and> tok_type (lastToken (skipWhitespace lx)) \<noteq> COMMA
         then Inr (makeToken NEWLINE newline_lexeme (advance (skipWhitespace lx)))
         else nextToken (advance (skipWhitespace lx)))
      else if current (skipWhitespace lx) = CHR ''%'' then
        (if peek (skipWhitespace lx) 1 = CHR ''{'' then
           nextToken (skipBlockComment (advance (advance (skipWhitespace lx))))
         else if tok_type (lastToken (skipWhitespace lx)) \<noteq> NEWLINE
                 \<and> tok_type (lastToken (skipWhitespace lx)) \<noteq> SEMICOLON
         then Inr (makeToken NEWLINE newline_lexeme (skipLineComment (skipWhitespace lx)))
         else nextToken (skipLineComment (skipWhitespace lx)))
      else if isdigit (current (skipWhitespace lx))
              \<or> (current (skipWhitespace lx) = CHR ''.'' \<and> isdigit (peek (skipWhitespace lx) 1))
      then Inr (scanNumber (skipWhitespace lx))
      else if current (skipWhitespace lx) = CHR 0x22 then scanString (CHR 0x22) (skipWhitespace lx)
      else if current (skipWhitespace lx) = quote then
        (if isTransposeContext (skipWhitespace lx)
         then Inr (makeToken TRANSPOSE [quote] (advance (skipWhitespace lx)))
         else scanString quote (skipWhitespace lx))
      else if isalpha (current (skipWhitespace lx)) \<or> current (skipWhitespace lx) = CHR ''_''
      then Inr (scanIdentifierOrKeyword (skipWhitespace lx))
      else scanOperator (current (skipWhitespace lx)) (line (skipWhitespace lx))
             (col (skipWhitespace lx)) (advance (skipWhitespace lx)))"
  by pat_completeness auto
termination
proof (relation "measure (\<lambda>lx. length (input lx))")
  show "wf (measure (\<lambda>lx. length (input lx)))" by simp
next
  fix lx :: Lexer
  assume "\<not> isAtEnd (skipWhitespace lx)"
  then have "length (input (advance (skipWhitespace lx))) < length (input (skipWhitespace lx))"
    by (simp add: advance_length isAtEnd_def)
  then show "(advance (skipWhitespace lx), lx) \<in> measure (\<lambda>lx. length (input lx))"
    using skipWhitespace_length [of lx] by simp
next
  fix lx :: Lexer
  assume "\<not> isAtEnd (skipWhitespace lx)"
  then have "length (input (advance (advance (skipWhitespace lx)))) < length (input (skipWhitespace lx))"
    by (simp add: advance_length isAtEnd_def)
  then show "(skipBlockComment (advance (advance (skipWhitespace lx))), lx)
             \<in> measure (\<lambda>lx. length (input lx))"
    using skipWhitespace_length [of lx]
      skipBlockLoop_length [of 1 "advance (advance (skipWhitespace lx))"]
    by (simp add: skipBlockComment_def)
next
  fix lx :: Lexer
  assume a: "\<not> isAtEnd (skipWhitespace lx)" "current (skipWhitespace lx) \<noteq> newline"
  have "length (input (skipLineComment (skipWhitespace lx))) < length (input (skipWhitespace lx))"
    unfolding skipLineComment_def using a by (intro scan_while_consumes) simp_all
  then show "(skipLineComment (skipWhitespace lx), lx) \<in> measure (\<lambda>lx. length (input lx))"
    using skipWhitespace_length [of lx] by simp
qed

declare nextToken.simps [simp del]

text \<open>
  Facts for the termination of \<open>tokenize\<close>: no scanner touches the lookahead flag, and
  every token but the end of file costs at least one character.
\<close>

lemma advance_hasPeeked [simp]: "hasPeeked (advance lx) = hasPeeked lx"
  by (simp add: advance_def)

lemma advance_le: "length (input (advance lx)) \<le> length (input lx)"
  by (simp add: advance_length)

lemma advance_shorter: "\<not> isAtEnd lx \<Longrightarrow> length (input (advance lx)) < length (input lx)"
  by (cases "input lx") (simp_all add: advance_length isAtEnd_def)

lemma advance_lastToken [simp]: "lastToken (advance lx) = lastToken lx"
  by (simp add: advance_def)

lemma scan_while_keeps:
  "hasPeeked (snd (scan_while p lx)) = hasPeeked lx
   \<and> lastToken (snd (scan_while p lx)) = lastToken lx"
proof (induction p lx rule: scan_while.induct)
  case (1 p lx)
  show ?case
  proof (cases "\<not> isAtEnd lx \<and> p (current lx)")
    case True
    then show ?thesis
      using "1.IH" by (subst (1 2) scan_while.simps) (auto split: prod.splits)
  next
    case False
    then show ?thesis by (subst (1 2) scan_while.simps) auto
  qed
qed

lemma skipContinuation_keeps:
  "hasPeeked (skipContinuation lx) = hasPeeked lx
   \<and> lastToken (skipContinuation lx) = lastToken lx"
  by (simp add: skipContinuation_def Let_def scan_while_keeps)

lemma skipWhitespace_keeps:
  "hasPeeked (skipWhitespace lx) = hasPeeked lx
   \<and> lastToken (skipWhitespace lx) = lastToken lx"
proof (induction lx rule: skipWhitespace.induct)
  case (1 lx)
  show ?case
    using "1.IH" skipContinuation_keeps [of lx]
    by (subst (1 2) skipWhitespace.simps) auto
qed

lemma skipBlockLoop_keeps:
  "hasPeeked (skipBlockLoop depth lx) = hasPeeked lx
   \<and> lastToken (skipBlockLoop depth lx) = lastToken lx"
proof (induction depth lx rule: skipBlockLoop.induct)
  case (1 depth lx)
  show ?case
    using "1.IH" by (subst (1 2) skipBlockLoop.simps) auto
qed

lemma scanStringLoop_keeps:
  "scanStringLoop d str lx = Inr (s, lx') \<Longrightarrow>
   hasPeeked lx' = hasPeeked lx \<and> length (input lx') \<le> length (input lx)"
proof (induction d str lx rule: scanStringLoop.induct)
  case (1 d str lx)
  show ?case
  proof (cases "isAtEnd lx")
    case True
    then show ?thesis using "1.prems" by (subst (asm) scanStringLoop.simps) simp
  next
    case False
    note ne = False
    show ?thesis
    proof (cases "current lx = d")
      case True
      note cd = True
      show ?thesis
      proof (cases "peek lx 1 = d")
        case True
        then have "scanStringLoop d (str @ [d]) (advance (advance lx)) = Inr (s, lx')"
          using "1.prems" ne cd by (subst (asm) scanStringLoop.simps) simp
        then have "hasPeeked lx' = hasPeeked (advance (advance lx))
                   \<and> length (input lx') \<le> length (input (advance (advance lx)))"
          using "1.IH"(1) ne cd True by simp
        then show ?thesis using advance_le [of lx] advance_le [of "advance lx"] by simp
      next
        case False
        then have "lx' = advance lx"
          using "1.prems" ne cd by (subst (asm) scanStringLoop.simps) simp
        then show ?thesis using advance_le [of lx] by simp
      qed
    next
      case False
      note ncd = False
      show ?thesis
      proof (cases "current lx = newline")
        case True
        then show ?thesis
          using "1.prems" ne ncd by (subst (asm) scanStringLoop.simps) simp
      next
        case False
        then have "scanStringLoop d (str @ [current lx]) (advance lx) = Inr (s, lx')"
          using "1.prems" ne ncd by (subst (asm) scanStringLoop.simps) simp
        then have "hasPeeked lx' = hasPeeked (advance lx)
                   \<and> length (input lx') \<le> length (input (advance lx))"
          using "1.IH"(2) ne ncd False by simp
        then show ?thesis using advance_le [of lx] by simp
      qed
    qed
  qed
qed

lemma scanString_progress:
  assumes "scanString d lx = Inr (tok, lx')" "\<not> isAtEnd lx"
  shows "hasPeeked lx' = hasPeeked lx \<and> length (input lx') < length (input lx)"
proof -
  obtain s l1 where l1: "scanStringLoop d [] (advance lx) = Inr (s, l1)"
    and lx': "lx' = l1\<lparr>lastToken := tok\<rparr>"
    using assms(1) by (auto simp: scanString_def Let_def split: sum.splits prod.splits)
  have "hasPeeked l1 = hasPeeked (advance lx) \<and> length (input l1) \<le> length (input (advance lx))"
    using scanStringLoop_keeps [OF l1] .
  then show ?thesis using lx' advance_shorter [OF assms(2)] by simp
qed

lemma makeToken_state:
  "hasPeeked (snd (makeToken t s lx)) = hasPeeked lx
   \<and> input (snd (makeToken t s lx)) = input lx"
  by (simp add: makeToken_def Let_def)

lemma scanDecimalPart_state:
  "hasPeeked (snd (scanDecimalPart lx)) = hasPeeked lx
   \<and> length (input (snd (scanDecimalPart lx))) \<le> length (input lx)"
proof -
  have "length (input (snd (scan_while isdigit (advance lx)))) \<le> length (input (advance lx))"
    by (rule scan_while_length)
  then show ?thesis
    using scan_while_keeps [of isdigit "advance lx"]
    by (auto simp: scanDecimalPart_def advance_length split: prod.splits)
qed

lemma scanExponentPart_state:
  "hasPeeked (snd (scanExponentPart lx)) = hasPeeked lx
   \<and> length (input (snd (scanExponentPart lx))) \<le> length (input lx)"
proof -
  have a: "length (input (snd (scan_while isdigit l))) \<le> length (input l)" for l
    by (rule scan_while_length)
  show ?thesis
    using a [of "advance lx"] a [of "advance (advance lx)"]
      scan_while_keeps [of isdigit "advance lx"] scan_while_keeps [of isdigit "advance (advance lx)"]
    by (auto simp: scanExponentPart_def Let_def advance_length split: prod.splits)
qed

lemma isdigit_not_operator:
  "isdigit c \<Longrightarrow> c \<noteq> CHR ''.'' \<and> c \<noteq> CHR ''*'' \<and> c \<noteq> CHR ''/'' \<and> c \<noteq> CHR 0x5C
     \<and> c \<noteq> CHR ''^'' \<and> c \<noteq> quote"
  by (auto simp: isdigit_def quote_def)

lemma scanNumber_progress:
  assumes "\<not> isAtEnd lx"
    "isdigit (current lx) \<or> (current lx = CHR ''.'' \<and> isdigit (peek lx 1))"
  shows "hasPeeked (snd (scanNumber lx)) = hasPeeked lx
         \<and> length (input (snd (scanNumber lx))) < length (input lx)"
proof -
  obtain ip lx1 where s1: "scan_while isdigit lx = (ip, lx1)" by (cases "scan_while isdigit lx")
  obtain fp lx2 where s2: "scanDecimalPart lx1 = (fp, lx2)" by (cases "scanDecimalPart lx1")
  obtain ep lx3 where s3: "scanExponentPart lx2 = (ep, lx3)" by (cases "scanExponentPart lx2")
  have k1: "hasPeeked lx1 = hasPeeked lx" "length (input lx1) \<le> length (input lx)"
    using scan_while_keeps [of isdigit lx] scan_while_length [of isdigit lx] s1 by simp_all
  have k2: "hasPeeked lx2 = hasPeeked lx1" "length (input lx2) \<le> length (input lx1)"
    using scanDecimalPart_state [of lx1] s2 by simp_all
  have k3: "hasPeeked lx3 = hasPeeked lx2" "length (input lx3) \<le> length (input lx2)"
    using scanExponentPart_state [of lx2] s3 by simp_all
  have strict: "length (input lx2) < length (input lx)"
  proof (cases "isdigit (current lx)")
    case True
    then have "length (input lx1) < length (input lx)"
      using scan_while_consumes [of lx isdigit] assms(1) s1 by simp
    then show ?thesis using k2 by simp
  next
    case False
    then have dot: "current lx = CHR ''.''" "isdigit (peek lx 1)" using assms(2) by simp_all
    have "lx1 = lx" using False s1 by (subst (asm) scan_while.simps) simp
    moreover have "length (input (snd (scan_while isdigit (advance lx)))) < length (input lx)"
      using scan_while_length [of isdigit "advance lx"] advance_shorter [OF assms(1)]
      by simp
    ultimately show ?thesis
      using s2 dot assms(1) isdigit_not_operator [OF dot(2)]
      by (auto simp: scanDecimalPart_def split: prod.splits)
  qed
  show ?thesis
    using s1 s2 s3 k1 k2 k3 strict
    by (auto simp: scanNumber_def Let_def advance_length)
qed

lemma scanIdentifierOrKeyword_progress:
  assumes "\<not> isAtEnd lx" "isalpha (current lx) \<or> current lx = CHR ''_''"
  shows "hasPeeked (snd (scanIdentifierOrKeyword lx)) = hasPeeked lx
         \<and> length (input (snd (scanIdentifierOrKeyword lx))) < length (input lx)"
proof -
  let ?p = "\<lambda>c. isalnum c \<or> c = CHR ''_''"
  have "?p (current lx)" using assms(2) by (auto simp: isalnum_def)
  then have "length (input (snd (scan_while ?p lx))) < length (input lx)"
    using assms(1) by (intro scan_while_consumes) simp_all
  then show ?thesis
    using scan_while_keeps [of ?p lx]
    by (auto simp: scanIdentifierOrKeyword_def Let_def split: prod.splits)
qed

lemma scanOperator_state:
  "scanOperator c sl sc lx = Inr (tok, lx') \<Longrightarrow>
   hasPeeked lx' = hasPeeked lx \<and> length (input lx') \<le> length (input lx)"
  by (auto simp: scanOperator_def makeToken_def Let_def advance_length split: if_splits)

lemma nextToken_progress:
  "nextToken lx = Inr (tok, lx') \<Longrightarrow> \<not> hasPeeked lx \<Longrightarrow> tok_type tok \<noteq> EOF_TOKEN \<Longrightarrow>
   \<not> hasPeeked lx' \<and> length (input lx') < length (input lx)"
proof (induction lx rule: nextToken.induct)
  case (1 lx)
  let ?w = "skipWhitespace lx"
  have w: "hasPeeked ?w = hasPeeked lx" "length (input ?w) \<le> length (input lx)"
    using skipWhitespace_keeps [of lx] skipWhitespace_length [of lx] by simp_all
  have np: "\<not> hasPeeked lx" by fact
  have ne: "\<not> isAtEnd ?w"
    using "1.prems" by (subst (asm) nextToken.simps) (auto simp: makeToken_def Token_new_def Let_def)
  have adv: "length (input (advance ?w)) < length (input lx)"
    using w advance_shorter [OF ne] by simp
  consider
      (nl) "current ?w = newline"
    | (pc) "current ?w \<noteq> newline" "current ?w = CHR ''%''"
    | (num) "current ?w \<noteq> newline" "current ?w \<noteq> CHR ''%''"
        "isdigit (current ?w) \<or> (current ?w = CHR ''.'' \<and> isdigit (peek ?w 1))"
    | (other) "current ?w \<noteq> newline" "current ?w \<noteq> CHR ''%''"
        "\<not> (isdigit (current ?w) \<or> (current ?w = CHR ''.'' \<and> isdigit (peek ?w 1)))"
    by blast
  then show ?case
  proof cases
    case nl
    show ?thesis
    proof (cases "tok_type (lastToken ?w) \<noteq> NEWLINE \<and> tok_type (lastToken ?w) \<noteq> SEMICOLON
                  \<and> tok_type (lastToken ?w) \<noteq> COMMA")
      case True
      then have "lx' = snd (makeToken NEWLINE newline_lexeme (advance ?w))"
        using "1.prems"(1) np ne nl by (subst (asm) nextToken.simps) auto
      then show ?thesis using adv np w by (simp add: makeToken_state)
    next
      case False
      then have r: "nextToken (advance ?w) = Inr (tok, lx')"
        using "1.prems"(1) np ne nl by (subst (asm) nextToken.simps) auto
      have "\<not> hasPeeked lx' \<and> length (input lx') < length (input (advance ?w))"
        using "1.IH"(1) [OF np ne nl _ r _ "1.prems"(3)] False np w by auto
      then show ?thesis using adv by simp
    qed
  next
    case pc
    show ?thesis
    proof (cases "peek ?w 1 = CHR ''{''")
      case True
      let ?b = "skipBlockComment (advance (advance ?w))"
      have r: "nextToken ?b = Inr (tok, lx')"
        using "1.prems"(1) np ne pc True by (subst (asm) nextToken.simps) auto
      have b: "\<not> hasPeeked ?b" "length (input ?b) < length (input lx)"
        using skipBlockLoop_keeps [of 1 "advance (advance ?w)"]
          skipBlockLoop_length [of 1 "advance (advance ?w)"] np w adv
        by (simp_all add: skipBlockComment_def advance_length)
      have "\<not> hasPeeked lx' \<and> length (input lx') < length (input ?b)"
        using "1.IH"(2) [OF np ne pc(1) pc(2) True r b(1) "1.prems"(3)] .
      then show ?thesis using b by simp
    next
      case False
      note nb = False
      let ?c = "skipLineComment ?w"
      have c: "\<not> hasPeeked ?c" "length (input ?c) < length (input lx)"
        using scan_while_keeps [of "\<lambda>c. c \<noteq> newline" ?w]
          scan_while_consumes [of ?w "\<lambda>c. c \<noteq> newline"] ne pc(1) np w
        by (simp_all add: skipLineComment_def)
      show ?thesis
      proof (cases "tok_type (lastToken ?w) \<noteq> NEWLINE \<and> tok_type (lastToken ?w) \<noteq> SEMICOLON")
        case True
        then have "lx' = snd (makeToken NEWLINE newline_lexeme ?c)"
          using "1.prems"(1) np ne pc nb by (subst (asm) nextToken.simps) auto
        then show ?thesis using c by (simp add: makeToken_state)
      next
        case False
        then have r: "nextToken ?c = Inr (tok, lx')"
          using "1.prems"(1) np ne pc nb by (subst (asm) nextToken.simps) auto
        have "\<not> hasPeeked lx' \<and> length (input lx') < length (input ?c)"
          using "1.IH"(3) [OF np ne pc(1) pc(2) nb _ r c(1) "1.prems"(3)] False by auto
        then show ?thesis using c by simp
      qed
    qed
  next
    case num
    then have "lx' = snd (scanNumber ?w)"
      using "1.prems"(1) np ne by (subst (asm) nextToken.simps) auto
    then show ?thesis using scanNumber_progress [OF ne num(3)] w np by simp
  next
    case other
    have nd: "\<not> isdigit (current ?w)"
      and ndot: "(current ?w = CHR ''.'' \<and> isdigit (peek ?w 1)) = False"
      using other(3) by auto
    have unfolded: "nextToken lx =
              (if isdigit (current ?w) \<or> (current ?w = CHR ''.'' \<and> isdigit (peek ?w 1))
               then Inr (scanNumber ?w)
               else if current ?w = CHR 0x22 then scanString (CHR 0x22) ?w
               else if current ?w = quote then
                 (if isTransposeContext ?w
                  then Inr (makeToken TRANSPOSE [quote] (advance ?w))
                  else scanString quote ?w)
               else if isalpha (current ?w) \<or> current ?w = CHR ''_''
               then Inr (scanIdentifierOrKeyword ?w)
               else scanOperator (current ?w) (line ?w) (col ?w) (advance ?w))"
      using np ne other(1,2) by (subst nextToken.simps) (simp only: if_False if_True)
    have eq: "(if current ?w = CHR 0x22 then scanString (CHR 0x22) ?w
               else if current ?w = quote then
                 (if isTransposeContext ?w
                  then Inr (makeToken TRANSPOSE [quote] (advance ?w))
                  else scanString quote ?w)
               else if isalpha (current ?w) \<or> current ?w = CHR ''_''
               then Inr (scanIdentifierOrKeyword ?w)
               else scanOperator (current ?w) (line ?w) (col ?w) (advance ?w)) = Inr (tok, lx')"
      using "1.prems"(1) unfolding unfolded by (simp only: nd ndot simp_thms if_False)
    have "hasPeeked lx' = hasPeeked ?w \<and> length (input lx') < length (input ?w)"
    proof (cases "current ?w = CHR 0x22")
      case True
      then show ?thesis using eq scanString_progress [OF _ ne] by simp
    next
      case False
      note nq = False
      show ?thesis
      proof (cases "current ?w = quote")
        case True
        then show ?thesis
          using eq nq scanString_progress [OF _ ne] advance_shorter [OF ne]
          by (auto simp: makeToken_def Let_def split: if_splits)
      next
        case False
        note nt = False
        show ?thesis
        proof (cases "isalpha (current ?w) \<or> current ?w = CHR ''_''")
          case True
          then show ?thesis
            using eq nq nt scanIdentifierOrKeyword_progress [OF ne True] by auto
        next
          case False
          then have "scanOperator (current ?w) (line ?w) (col ?w) (advance ?w) = Inr (tok, lx')"
            using eq nq nt by simp
          then show ?thesis
            using scanOperator_state [of "current ?w" "line ?w" "col ?w" "advance ?w" tok lx']
              advance_shorter [OF ne]
            by simp
        qed
      qed
    qed
    then show ?thesis using w np by simp
  qed
qed

text \<open>\<open>tokenize\<close>: the tokens up to and including the end-of-file token.\<close>

function tokenize_loop :: "Lexer \<Rightarrow> Token list \<Rightarrow> error + Token list" where
  "tokenize_loop lx tokens =
     (case nextToken lx of
        Inl e \<Rightarrow> Inl e
      | Inr (tok, lx') \<Rightarrow>
          if tok_type tok = EOF_TOKEN then Inr (tokens @ [tok])
          else tokenize_loop lx' (tokens @ [tok]))"
  by pat_completeness auto
termination
proof (relation "measure (\<lambda>(lx, tokens). 2 * length (input lx) + (if hasPeeked lx then 1 else 0))")
  show "wf (measure (\<lambda>(lx, tokens). 2 * length (input lx) + (if hasPeeked lx then 1 else 0)))"
    by simp
next
  fix lx :: Lexer and tokens :: "Token list" and x2 :: "Token \<times> Lexer" and tok :: Token and lx' :: Lexer
  assume a: "nextToken lx = Inr x2" "(tok, lx') = x2" "tok_type tok \<noteq> EOF_TOKEN"
  then have nt: "nextToken lx = Inr (tok, lx')" by simp
  show "((lx', tokens @ [tok]), (lx, tokens))
        \<in> measure (\<lambda>(lx, tokens). 2 * length (input lx) + (if hasPeeked lx then 1 else 0))"
  proof (cases "hasPeeked lx")
    case True
    have "lx' = lx\<lparr>hasPeeked := False, lastToken := peekedToken lx\<rparr>"
      using nt True by (subst (asm) nextToken.simps) auto
    then show ?thesis using True by simp
  next
    case False
    then show ?thesis using nextToken_progress [OF nt False a(3)] by simp
  qed
qed

declare tokenize_loop.simps [simp del]

definition tokenize :: "string \<Rightarrow> error + Token list" where
  "tokenize source = tokenize_loop (Lexer_new source) []"

text \<open>\<open>peekToken\<close>: scan one token ahead and keep it.\<close>

definition peekToken :: "Lexer \<Rightarrow> error + Token \<times> Lexer" where
  "peekToken lx =
     (if \<not> hasPeeked lx then
        (case nextToken lx of
           Inl e \<Rightarrow> Inl e
         | Inr (tok, lx') \<Rightarrow> Inr (tok, lx'\<lparr>peekedToken := tok, hasPeeked := True\<rparr>))
      else Inr (peekedToken lx, lx))"

section \<open>Environment (environment.h)\<close>

text \<open>
  Environments are shared objects: the interpreter's \<open>globalEnv_\<close> and \<open>currentEnv_\<close> and
  every \<open>parent_\<close> field are pointers to them. The model keeps them in a store, a list
  indexed by address; \<open>createChild\<close> allocates at the end of the list, so a parent always
  has a smaller address than its child.
\<close>

record EnvRec =
  parent :: "nat option"
  variables :: "string \<rightharpoonup> Value"
  globals :: "string set"

type_synonym EnvStore = "EnvRec list"

definition createGlobal :: "EnvStore \<Rightarrow> EnvStore \<times> nat" where
  "createGlobal h = (h @ [\<lparr>parent = None, variables = Map.empty, globals = {}\<rparr>], length h)"

definition createChild :: "EnvStore \<Rightarrow> nat \<Rightarrow> EnvStore \<times> nat" where
  "createChild h e = (h @ [\<lparr>parent = Some e, variables = Map.empty, globals = {}\<rparr>], length h)"

text \<open>
  \<open>getGlobalEnv\<close>: follow \<open>parent_\<close> to the root. The test \<open>p < e\<close> states the
  allocation order, which holds in every store built by \<open>createGlobal\<close> and
  \<open>createChild\<close>; it is what makes the loop end.
\<close>

function getGlobalEnv :: "EnvStore \<Rightarrow> nat \<Rightarrow> nat" where
  "getGlobalEnv h e =
     (case parent (h ! e) of
        None \<Rightarrow> e
      | Some p \<Rightarrow> if p < e then getGlobalEnv h p else e)"
  by pat_completeness auto
termination
  by (relation "measure (\<lambda>(h, e). e)") auto

declare getGlobalEnv.simps [simp del]

text \<open>
  \<open>get\<close>, \<open>set\<close> and \<open>has\<close>. A name declared global in a scope that has a parent is
  redirected to the root scope, whose own call (it has no parent) reads or writes its own
  map; nothing else of a parent is ever consulted.
\<close>

definition env_get :: "EnvStore \<Rightarrow> nat \<Rightarrow> string \<Rightarrow> Value option" where
  "env_get h e name =
     (case variables (h ! e) name of
        Some v \<Rightarrow> Some v
      | None \<Rightarrow>
          if name \<in> globals (h ! e) \<and> parent (h ! e) \<noteq> None
          then variables (h ! getGlobalEnv h e) name
          else None)"

definition set_own :: "EnvStore \<Rightarrow> nat \<Rightarrow> string \<Rightarrow> Value \<Rightarrow> EnvStore" where
  "set_own h e name v = h[e := (h ! e)\<lparr>variables := (variables (h ! e))(name \<mapsto> v)\<rparr>]"

definition env_set :: "EnvStore \<Rightarrow> nat \<Rightarrow> string \<Rightarrow> Value \<Rightarrow> EnvStore" where
  "env_set h e name v =
     (if name \<in> globals (h ! e) \<and> parent (h ! e) \<noteq> None
      then set_own h (getGlobalEnv h e) name v
      else set_own h e name v)"

definition env_has :: "EnvStore \<Rightarrow> nat \<Rightarrow> string \<Rightarrow> bool" where
  "env_has h e name =
     (if variables (h ! e) name \<noteq> None then True
      else if name \<in> globals (h ! e) \<and> parent (h ! e) \<noteq> None
      then variables (h ! getGlobalEnv h e) name \<noteq> None
      else False)"

definition declareGlobal :: "EnvStore \<Rightarrow> nat \<Rightarrow> string \<Rightarrow> EnvStore" where
  "declareGlobal h e name = h[e := (h ! e)\<lparr>globals := insert name (globals (h ! e))\<rparr>]"

section \<open>Interpreter state (interpreter.h)\<close>

text \<open>
  What a C++ \<open>throw\<close> can carry through the interpreter: an error, or one of the three
  control-flow signals, which are plain structs and not exceptions of the standard
  hierarchy. \<open>OutOfFuel\<close> belongs to the model only: the evaluator below is given a bound
  on its recursion depth, and reports when the bound is reached.
\<close>

datatype thrown = Err error | BreakSignal | ContinueSignal | ReturnSignal | OutOfFuel

text \<open>
  The registry of builtins is a parameter of the state: a builtin is a function from the
  argument values to a value or an error. The functions the source loads on demand from
  \<open>.m\<close> files are a parameter too (\<open>fileFunctions\<close>: what \<open>findFileFunction\<close> finds).
  The output stream is the list of what was displayed: the name and the value of each
  \<open>display\<close> call.
\<close>

record Interp =
  heap :: EnvStore
  globalEnv :: nat
  currentEnv :: nat
  userFunctions :: "string \<rightharpoonup> FunctionDef"
  builtinFunctions :: "string \<rightharpoonup> (Value list \<Rightarrow> error + Value)"
  fileFunctions :: "string \<rightharpoonup> FunctionDef"
  output_log :: "(string \<times> Value) list"

text \<open>
  The constructor: one global scope, which is also the current one, with the constants
  bound. \<open>inf\<close>, \<open>Inf\<close>, \<open>nan\<close> and \<open>NaN\<close> have no counterpart among the idealised
  doubles and are not bound here.
\<close>

definition machine_epsilon :: double where
  "machine_epsilon = 1 / 2 ^ 52"

definition Interpreter_new :: Interp where
  "Interpreter_new =
     \<lparr>heap = [\<lparr>parent = None,
               variables = [''pi'' \<mapsto> makeScalar pi, ''eps'' \<mapsto> makeScalar machine_epsilon,
                            ''i'' \<mapsto> makeScalar 0, ''j'' \<mapsto> makeScalar 0,
                            ''true'' \<mapsto> makeBool True, ''false'' \<mapsto> makeBool False],
               globals = {}\<rparr>],
      globalEnv = 0, currentEnv = 0,
      userFunctions = Map.empty, builtinFunctions = Map.empty, fileFunctions = Map.empty,
      output_log = []\<rparr>"

definition lookupVariable :: "Interp \<Rightarrow> string \<Rightarrow> Value option" where
  "lookupVariable st name = env_get (heap st) (currentEnv st) name"

definition isBuiltinFunction :: "Interp \<Rightarrow> string \<Rightarrow> bool" where
  "isBuiltinFunction st name = (builtinFunctions st name \<noteq> None)"

definition isUserFunction :: "Interp \<Rightarrow> string \<Rightarrow> bool" where
  "isUserFunction st name = (userFunctions st name \<noteq> None)"

definition isKnownFunction :: "Interp \<Rightarrow> string \<Rightarrow> bool" where
  "isKnownFunction st name = (isBuiltinFunction st name \<or> isUserFunction st name)"

definition setCurrent :: "string \<Rightarrow> Value \<Rightarrow> Interp \<Rightarrow> Interp" where
  "setCurrent name v st = st\<lparr>heap := env_set (heap st) (currentEnv st) name v\<rparr>"

definition display :: "string \<Rightarrow> Value \<Rightarrow> Interp \<Rightarrow> Interp" where
  "display name v st = st\<lparr>output_log := output_log st @ [(name, v)]\<rparr>"

definition raise :: "string \<Rightarrow> thrown" where
  "raise msg = Err (RuntimeError msg)"

definition quoted :: "string \<Rightarrow> string" where
  "quoted name = [quote] @ name @ [quote]"

section \<open>The value-level steps of the interpreter (interpreter.cpp)\<close>

definition liftE :: "error + 'a \<Rightarrow> thrown + 'a" where
  "liftE r = (case r of Inl e \<Rightarrow> Inl (Err e) | Inr v \<Rightarrow> Inr v)"

text \<open>\<open>evalMatrix\<close>: an element is a numeric value or a string; the rows are joined with \<open>horzcat\<close>, then \<open>vertcat\<close>.\<close>

definition matrixElement :: "Value \<Rightarrow> error + Matrix" where
  "matrixElement val =
     (if isNumeric val then matrix val
      else (case val of
              VString s \<Rightarrow> toMatrix val
            | _ \<Rightarrow> Inl (RuntimeError ''Invalid element in matrix literal'')))"

definition buildMatrixLiteral :: "Matrix list list \<Rightarrow> error + Value" where
  "buildMatrixLiteral evaluatedRows =
     (case mapM_err (\<lambda>row. if length row = 1 then Inr (hd row) else horzcat row) evaluatedRows of
        Inl e \<Rightarrow> Inl e
      | Inr rowMatrices \<Rightarrow>
          if length rowMatrices = 1 then Inr (VMatrix (hd rowMatrices))
          else makeMatrixE (vertcat rowMatrices))"

text \<open>\<open>evalCellArray\<close>: a grid of the first row's width, filled through the unchecked \<open>at(i, j)\<close>.\<close>

definition cell_put :: "nat \<Rightarrow> Value option list \<Rightarrow> nat \<times> nat \<times> Value \<Rightarrow> error + Value option list" where
  "cell_put ncols d ijv =
     (case ijv of (i, j, v) \<Rightarrow>
        if (i * ncols + j) mod size_t_mod < length d
        then Inr (d[(i * ncols + j) mod size_t_mod := Some v])
        else Inl UndefinedBehaviour)"

definition buildCellArray :: "Value list list \<Rightarrow> error + Value" where
  "buildCellArray vrows =
     (let nrows = length vrows; ncols = length (hd vrows);
          cells = concat (map (\<lambda>(i, row). map (\<lambda>(j, v). (i, j, v)) (zip [0..<length row] row))
                            (zip [0..<nrows] vrows))
      in case foldM_err (cell_put ncols) (replicate (nrows * ncols) None) cells of
           Inl e \<Rightarrow> Inl e
         | Inr d \<Rightarrow> Inr (VCellArray nrows ncols d))"

text \<open>\<open>evalCellIndex\<close>, once the object and the indices are evaluated.\<close>

definition cellIndexValues :: "Value \<Rightarrow> Value list \<Rightarrow> error + Value" where
  "cellIndexValues obj indices =
     (case obj of
        VCellArray r c d \<Rightarrow>
          (if length indices = 1 \<and> isScalarValue (indices ! 0) then
             (case scalarDouble (indices ! 0) of
                Inl e \<Rightarrow> Inl e
              | Inr x \<Rightarrow>
                  (case index0 x of
                     Inl e \<Rightarrow> Inl e
                   | Inr i \<Rightarrow>
                       if i \<ge> length d then Inl (RuntimeError ''Index exceeds cell array dimensions'')
                       else Inr (case d ! i of Some v \<Rightarrow> v | None \<Rightarrow> VEmpty)))
           else if length indices = 2 \<and> isScalarValue (indices ! 0) \<and> isScalarValue (indices ! 1) then
             (case scalarDouble (indices ! 0) of
                Inl e \<Rightarrow> Inl e
              | Inr x \<Rightarrow>
                  (case index0 x of
                     Inl e \<Rightarrow> Inl e
                   | Inr ri \<Rightarrow>
                       (case scalarDouble (indices ! 1) of
                          Inl e \<Rightarrow> Inl e
                        | Inr y \<Rightarrow>
                            (case index0 y of
                               Inl e \<Rightarrow> Inl e
                             | Inr ci \<Rightarrow>
                                 (case vec_at d ((ri * c + ci) mod size_t_mod) of
                                    Inl e \<Rightarrow> Inl e
                                  | Inr cellv \<Rightarrow> Inr (case cellv of Some v \<Rightarrow> v | None \<Rightarrow> VEmpty))))))
           else Inl (RuntimeError ''Cell array indexing error''))
      | _ \<Rightarrow> Inl (RuntimeError ''Cell indexing requires a cell array''))"

text \<open>\<open>evalDot\<close>, once the object is evaluated. The fields of a struct are a \<open>std::map\<close>.\<close>

definition evalDotValue :: "Value \<Rightarrow> string \<Rightarrow> error + Value" where
  "evalDotValue obj field =
     (case obj of
        VStruct fs \<Rightarrow>
          (case map_of fs field of
             None \<Rightarrow> Inl (RuntimeError (''Reference to non-existent field '' @ quoted field))
           | Some v \<Rightarrow> Inr v)
      | _ \<Rightarrow> Inl (RuntimeError ''Dot access requires a struct''))"

fun field_update :: "string \<Rightarrow> Value \<Rightarrow> (string \<times> Value) list \<Rightarrow> (string \<times> Value) list" where
  "field_update k v [] = [(k, v)]"
| "field_update k v ((k', v') # fs) =
     (if k = k' then (k, v) # fs else (k', v') # field_update k v fs)"

text \<open>\<open>assignDot\<close>, for the value the base name is bound to (if any).\<close>

definition assignDotValue :: "Value option \<Rightarrow> string \<Rightarrow> Value \<Rightarrow> error + Value" where
  "assignDotValue obj field v =
     (case obj of
        None \<Rightarrow> Inr (VStruct [(field, v)])
      | Some VEmpty \<Rightarrow> Inr (VStruct [(field, v)])
      | Some (VStruct fs) \<Rightarrow> Inr (VStruct (field_update field v fs))
      | Some _ \<Rightarrow> Inl (RuntimeError ''Cannot set field on non-struct value''))"

text \<open>
  \<open>assignIndexed\<close>, once the indices are evaluated: the value to bind to the name, or
  \<open>None\<close> when no branch binds anything. A matrix grows, filled with zeros, when the
  position lies beyond it.
\<close>

definition grow1 :: "Matrix \<Rightarrow> nat \<Rightarrow> Matrix" where
  "grow1 mat idx =
     (if idx \<ge> numel mat
      then \<lparr>rows = 1, cols = (idx + 1) mod size_t_mod,
            data = take ((idx + 1) mod size_t_mod) (data mat)
                   @ replicate ((idx + 1) mod size_t_mod - numel mat) 0\<rparr>
      else mat)"

definition grow2 :: "Matrix \<Rightarrow> nat \<Rightarrow> nat \<Rightarrow> error + Matrix" where
  "grow2 mat r c =
     (let newRows = max (rows mat) ((r + 1) mod size_t_mod);
          newCols = max (cols mat) ((c + 1) mod size_t_mod)
      in if newRows > rows mat \<or> newCols > cols mat
         then copy_block mat 0 0 (zeros newRows newCols)
         else Inr mat)"

definition to_size_t_value :: "Value \<Rightarrow> error + nat" where
  "to_size_t_value v = (case scalarDouble v of Inl e \<Rightarrow> Inl e | Inr x \<Rightarrow> to_size_t x)"

definition index0_value :: "Value \<Rightarrow> error + nat" where
  "index0_value v = (case scalarDouble v of Inl e \<Rightarrow> Inl e | Inr x \<Rightarrow> index0 x)"

definition assignIndexedNew :: "Value list \<Rightarrow> Value \<Rightarrow> error + Value option" where
  "assignIndexedNew indices v =
     (case to_size_t_value (indices ! 0) of
        Inl e \<Rightarrow> Inl e
      | Inr r \<Rightarrow>
          (case to_size_t_value (indices ! 1) of
             Inl e \<Rightarrow> Inl e
           | Inr c \<Rightarrow>
               if isScalarValue v then
                 (case scalarDouble v of
                    Inl e \<Rightarrow> Inl e
                  | Inr x \<Rightarrow>
                      (case set2 (zeros r c) ((r + size_t_mod - 1) mod size_t_mod)
                              ((c + size_t_mod - 1) mod size_t_mod) x of
                         Inl e \<Rightarrow> Inl e
                       | Inr m \<Rightarrow> Inr (Some (VMatrix m))))
               else Inr (Some (VMatrix (zeros r c)))))"

definition assignIndexedExisting :: "Matrix \<Rightarrow> Value list \<Rightarrow> Value \<Rightarrow> error + Value option" where
  "assignIndexedExisting mat indices v =
     (if length indices = 1 \<and> isScalarValue (indices ! 0) then
        (case index0_value (indices ! 0) of
           Inl e \<Rightarrow> Inl e
         | Inr idx \<Rightarrow>
             (case scalarDouble v of
                Inl e \<Rightarrow> Inl e
              | Inr x \<Rightarrow>
                  (case set1 (grow1 mat idx) idx x of
                     Inl e \<Rightarrow> Inl e
                   | Inr m \<Rightarrow> Inr (Some (VMatrix m)))))
      else if length indices = 2 \<and> isScalarValue (indices ! 0) \<and> isScalarValue (indices ! 1) then
        (case index0_value (indices ! 0) of
           Inl e \<Rightarrow> Inl e
         | Inr r \<Rightarrow>
             (case index0_value (indices ! 1) of
                Inl e \<Rightarrow> Inl e
              | Inr c \<Rightarrow>
                  (case grow2 mat r c of
                     Inl e \<Rightarrow> Inl e
                   | Inr grown \<Rightarrow>
                       (case scalarDouble v of
                          Inl e \<Rightarrow> Inl e
                        | Inr x \<Rightarrow>
                            (case set2 grown r c x of
                               Inl e \<Rightarrow> Inl e
                             | Inr m \<Rightarrow> Inr (Some (VMatrix m)))))))
      else Inr (Some (VMatrix mat)))"

definition assignIndexedValue :: "Value option \<Rightarrow> Value list \<Rightarrow> Value \<Rightarrow> error + Value option" where
  "assignIndexedValue var indices v =
     (if (var = None \<or> var = Some VEmpty)
         \<and> length indices = 2 \<and> isScalarValue (indices ! 0) \<and> isScalarValue (indices ! 1)
      then assignIndexedNew indices v
      else
        (case var of
           Some (VMatrix mat) \<Rightarrow> assignIndexedExisting mat indices v
         | Some (VLogical mat) \<Rightarrow> assignIndexedExisting mat indices v
         | _ \<Rightarrow> Inr None))"

text \<open>\<open>assignCellIndex\<close>, once the indices are evaluated.\<close>

definition assignCellIndexValue :: "Value option \<Rightarrow> Value list \<Rightarrow> Value \<Rightarrow> error + Value option" where
  "assignCellIndexValue obj indices v =
     (if obj = None \<or> obj = Some VEmpty then
        (if length indices = 1 \<and> isScalarValue (indices ! 0) then
           (case to_size_t_value (indices ! 0) of
              Inl e \<Rightarrow> Inl e
            | Inr i \<Rightarrow>
                if i = 0 then Inl UndefinedBehaviour
                else Inr (Some (VCellArray 1 i ((replicate i None)[i - 1 := Some v]))))
         else Inr (Some (VCellArray 0 0 [])))
      else
        (case obj of
           Some (VCellArray r c d) \<Rightarrow>
             (if length indices = 1 \<and> isScalarValue (indices ! 0) then
                (case index0_value (indices ! 0) of
                   Inl e \<Rightarrow> Inl e
                 | Inr i \<Rightarrow>
                     if i \<ge> length d then
                       (if (i + 1) mod size_t_mod = 0 then Inl UndefinedBehaviour
                        else Inr (Some (VCellArray r (i + 1)
                                     ((d @ replicate (i + 1 - length d) None)[i := Some v]))))
                     else Inr (Some (VCellArray r c (d[i := Some v]))))
              else Inr (Some (VCellArray r c d)))
         | _ \<Rightarrow> Inr None))"

text \<open>The struct a \<open>catch\<close> variable is bound to.\<close>

definition exceptionStruct :: "string \<Rightarrow> string \<Rightarrow> Value" where
  "exceptionStruct msg ident =
     VStruct [(''identifier'', VString ident), (''message'', VString msg)]"

text \<open>\<open>execSwitch\<close>: whether a case value matches the subject.\<close>

definition switchMatch :: "Value \<Rightarrow> Value \<Rightarrow> error + bool" where
  "switchMatch val caseVal =
     (if isScalarValue val \<and> isScalarValue caseVal then
        (case scalarDouble val of
           Inl e \<Rightarrow> Inl e
         | Inr x \<Rightarrow> (case scalarDouble caseVal of Inl e \<Rightarrow> Inl e | Inr y \<Rightarrow> Inr (x = y)))
      else
        (case (val, caseVal) of
           (VString a, VString b) \<Rightarrow> Inr (a = b)
         | _ \<Rightarrow> Inr False))"

text \<open>\<open>execMultiAssign\<close>: the loop over the targets, and the loop that displays them.\<close>

fun bindTargets :: "string list \<Rightarrow> nat \<Rightarrow> Value \<Rightarrow> Interp \<Rightarrow> Interp" where
  "bindTargets [] i val st = st"
| "bindTargets (t # ts) i val st =
     (if t = ''~'' then bindTargets ts (i + 1) val st
      else if i = 0 then bindTargets ts (i + 1) val (setCurrent t val st)
      else bindTargets ts (i + 1) val (setCurrent t VEmpty st))"

fun displayTargets :: "string list \<Rightarrow> Interp \<Rightarrow> Interp" where
  "displayTargets [] st = st"
| "displayTargets (name # names) st =
     (if name = ''~'' then displayTargets names st
      else (case lookupVariable st name of
              Some v \<Rightarrow> displayTargets names (display name v st)
            | None \<Rightarrow> displayTargets names st))"

text \<open>\<open>execGlobal\<close> and \<open>execPersistent\<close>.\<close>

definition execGlobal :: "string list \<Rightarrow> Interp \<Rightarrow> Interp" where
  "execGlobal names st =
     fold (\<lambda>name s. s\<lparr>heap := declareGlobal (heap s) (currentEnv s) name\<rparr>) names st"

definition execPersistent :: "string list \<Rightarrow> Interp \<Rightarrow> Interp" where
  "execPersistent names st =
     fold (\<lambda>name s. if \<not> env_has (heap s) (currentEnv s) name then setCurrent name VEmpty s else s)
       names st"

text \<open>
  \<open>callUserFunction\<close>, before and after the body runs: the fresh scope is a child of the
  global scope (not of the calling scope); the result is read from the first return name.
\<close>

definition enterFunction :: "FunctionDef \<Rightarrow> Value list \<Rightarrow> int \<Rightarrow> Interp \<Rightarrow> nat \<times> Interp" where
  "enterFunction func args nargout st =
     (case createChild (heap st) (globalEnv st) of (h0, funcEnv) \<Rightarrow>
        (let h1 = fold (\<lambda>(p, a) h. env_set h funcEnv p a) (zip (params func) args) h0;
             h2 = env_set h1 funcEnv ''nargin'' (makeScalar (real (length args)));
             h3 = env_set h2 funcEnv ''nargout'' (makeScalar (real_of_int nargout));
             h4 = fold (\<lambda>ret h. if \<not> env_has h funcEnv ret then env_set h funcEnv ret VEmpty else h)
                    (returns func) h3
         in (funcEnv, st\<lparr>heap := h4, currentEnv := funcEnv\<rparr>)))"

definition functionResult :: "FunctionDef \<Rightarrow> nat \<Rightarrow> Interp \<Rightarrow> Value" where
  "functionResult func funcEnv st =
     (if returns func = [] then VEmpty
      else (case env_get (heap st) funcEnv (hd (returns func)) of
              Some v \<Rightarrow> v
            | None \<Rightarrow> VEmpty))"

text \<open>The function an anonymous-function literal stands for.\<close>

definition anonymousFunction :: "string list \<Rightarrow> Expr \<Rightarrow> FunctionDef" where
  "anonymousFunction ps bodyExpr =
     FunctionDef ''<anonymous>'' ps [''ans''] [AssignStmt (Identifier ''ans'') bodyExpr False]"

section \<open>The tree-walking evaluator (interpreter.cpp)\<close>

text \<open>
  Expressions and statements are evaluated by mutual recursion, as in the source. A
  script may loop or recurse forever, so the evaluator is built by recursion on a bound
  \<open>n\<close> on the depth of the calls: \<open>evaluator n\<close> holds the fourteen mutually recursive
  functions at depth \<open>n\<close>, and each body below is one source function in which every call
  goes to the functions of depth \<open>n - 1\<close> (the record \<open>ev\<close>). At depth \<open>0\<close> the result is
  \<open>OutOfFuel\<close>. A result is the value or what was thrown, paired with the interpreter
  state at that point: a C++ exception leaves the state as it was when it was thrown (in
  particular \<open>callUserFunction\<close> restores \<open>currentEnv_\<close> only on its normal path).
\<close>

record Evaluator =
  rec_evalExpr :: "Expr \<Rightarrow> Interp \<Rightarrow> (thrown + Value) \<times> Interp"
  rec_evalArgs :: "Expr list \<Rightarrow> Interp \<Rightarrow> (thrown + Value list) \<times> Interp"
  rec_evalMatrixRow :: "Expr list \<Rightarrow> Interp \<Rightarrow> (thrown + Matrix list) \<times> Interp"
  rec_evalMatrixRows :: "Expr list list \<Rightarrow> Interp \<Rightarrow> (thrown + Matrix list list) \<times> Interp"
  rec_evalCellRows :: "Expr list list \<Rightarrow> Interp \<Rightarrow> (thrown + Value list list) \<times> Interp"
  rec_callFunction :: "string \<Rightarrow> Value list \<Rightarrow> Interp \<Rightarrow> (thrown + Value) \<times> Interp"
  rec_callUserFunction :: "FunctionDef \<Rightarrow> Value list \<Rightarrow> int \<Rightarrow> Interp \<Rightarrow> (thrown + Value) \<times> Interp"
  rec_callFuncHandle :: "FuncImpl \<Rightarrow> Value list \<Rightarrow> Interp \<Rightarrow> (thrown + Value) \<times> Interp"
  rec_executeStmt :: "Stmt \<Rightarrow> Interp \<Rightarrow> thrown option \<times> Interp"
  rec_execBlock :: "Stmt list \<Rightarrow> Interp \<Rightarrow> thrown option \<times> Interp"
  rec_execIf :: "(Expr option \<times> Stmt list) list \<Rightarrow> Interp \<Rightarrow> thrown option \<times> Interp"
  rec_execFor :: "string \<Rightarrow> Matrix \<Rightarrow> nat \<Rightarrow> Stmt list \<Rightarrow> Interp \<Rightarrow> thrown option \<times> Interp"
  rec_execWhile :: "Expr \<Rightarrow> Stmt list \<Rightarrow> Interp \<Rightarrow> thrown option \<times> Interp"
  rec_execSwitch :: "Value \<Rightarrow> (Expr option \<times> Stmt list) list \<Rightarrow> Interp \<Rightarrow> thrown option \<times> Interp"

fun evalExpr_body :: "Evaluator \<Rightarrow> Expr \<Rightarrow> Interp \<Rightarrow> (thrown + Value) \<times> Interp" where
  "evalExpr_body ev (NumberLiteral v im c) st =
     (Inr (if c then makeScalar im else makeScalar v), st)"
| "evalExpr_body ev (StringLiteral s) st = (Inr (VString s), st)"
| "evalExpr_body ev (BoolLiteral b) st = (Inr (makeBool b), st)"
| "evalExpr_body ev (Identifier name) st =
     (case lookupVariable st name of
        Some val \<Rightarrow> (Inr val, st)
      | None \<Rightarrow>
          if isKnownFunction st name then rec_callFunction ev name [] st
          else (Inl (raise (''Undefined variable or function '' @ quoted name)), st))"
| "evalExpr_body ev (UnaryExpr op operand postfix) st =
     (case rec_evalExpr ev operand st of
        (Inl t, st1) \<Rightarrow> (Inl t, st1)
      | (Inr v, st1) \<Rightarrow> (liftE (evalUnaryValue op v), st1))"
| "evalExpr_body ev (BinaryExpr op l r) st =
     (case rec_evalExpr ev l st of
        (Inl t, st1) \<Rightarrow> (Inl t, st1)
      | (Inr left, st1) \<Rightarrow>
          (case rec_evalExpr ev r st1 of
             (Inl t, st2) \<Rightarrow> (Inl t, st2)
           | (Inr right, st2) \<Rightarrow> (liftE (evalBinaryValues op left right), st2)))"
| "evalExpr_body ev (MatrixLiteral erows) st =
     (if erows = [] then (Inr (VMatrix Matrix_empty), st)
      else
        (case rec_evalMatrixRows ev erows st of
           (Inl t, st1) \<Rightarrow> (Inl t, st1)
         | (Inr evaluatedRows, st1) \<Rightarrow> (liftE (buildMatrixLiteral evaluatedRows), st1)))"
| "evalExpr_body ev (CellArrayLiteral erows) st =
     (if erows = [] then (Inr (VCellArray 0 0 []), st)
      else
        (case rec_evalCellRows ev erows st of
           (Inl t, st1) \<Rightarrow> (Inl t, st1)
         | (Inr vrows, st1) \<Rightarrow> (liftE (buildCellArray vrows), st1)))"
| "evalExpr_body ev (CallExpr callee arguments) st =
     (case callee of
        Identifier name \<Rightarrow>
          (case rec_evalArgs ev arguments st of
             (Inl t, st1) \<Rightarrow> (Inl t, st1)
           | (Inr args, st1) \<Rightarrow>
               (case lookupVariable st1 name of
                  Some (VFuncHandle fname impl) \<Rightarrow> rec_callFuncHandle ev impl args st1
                | Some var \<Rightarrow>
                    if \<not> isKnownFunction st1 name then
                      (case indexVariable var args of
                         Some r \<Rightarrow> (liftE r, st1)
                       | None \<Rightarrow> rec_callFunction ev name args st1)
                    else rec_callFunction ev name args st1
                | None \<Rightarrow> rec_callFunction ev name args st1))
      | _ \<Rightarrow>
          (case rec_evalExpr ev callee st of
             (Inl t, st1) \<Rightarrow> (Inl t, st1)
           | (Inr (VFuncHandle fname impl), st1) \<Rightarrow>
               (case rec_evalArgs ev arguments st1 of
                  (Inl t, st2) \<Rightarrow> (Inl t, st2)
                | (Inr args, st2) \<Rightarrow> rec_callFuncHandle ev impl args st2)
           | (Inr other, st1) \<Rightarrow> (Inl (raise ''Cannot call non-function value''), st1)))"
| "evalExpr_body ev (CellIndexExpr object indexExprs) st =
     (case rec_evalExpr ev object st of
        (Inl t, st1) \<Rightarrow> (Inl t, st1)
      | (Inr obj, st1) \<Rightarrow>
          (case obj of
             VCellArray r c d \<Rightarrow>
               (case rec_evalArgs ev indexExprs st1 of
                  (Inl t, st2) \<Rightarrow> (Inl t, st2)
                | (Inr indices, st2) \<Rightarrow> (liftE (cellIndexValues obj indices), st2))
           | _ \<Rightarrow> (Inl (raise ''Cell indexing requires a cell array''), st1)))"
| "evalExpr_body ev (DotExpr object field) st =
     (case rec_evalExpr ev object st of
        (Inl t, st1) \<Rightarrow> (Inl t, st1)
      | (Inr obj, st1) \<Rightarrow> (liftE (evalDotValue obj field), st1))"
| "evalExpr_body ev (ColonExpr startE stepE stopE) st =
     (case startE of
        None \<Rightarrow> (Inr VEmpty, st)
      | Some startExpr \<Rightarrow>
          (case stopE of
             None \<Rightarrow> rec_evalExpr ev startExpr st
           | Some stopExpr \<Rightarrow>
               (case rec_evalExpr ev startExpr st of
                  (Inl t, st1) \<Rightarrow> (Inl t, st1)
                | (Inr startV, st1) \<Rightarrow>
                    (case scalarDouble startV of
                       Inl e \<Rightarrow> (Inl (Err e), st1)
                     | Inr start \<Rightarrow>
                         (case rec_evalExpr ev stopExpr st1 of
                            (Inl t, st2) \<Rightarrow> (Inl t, st2)
                          | (Inr stopV, st2) \<Rightarrow>
                              (case scalarDouble stopV of
                                 Inl e \<Rightarrow> (Inl (Err e), st2)
                               | Inr stop \<Rightarrow>
                                   (case stepE of
                                      None \<Rightarrow> (liftE (makeMatrixE (generateRange start 1 stop)), st2)
                                    | Some stepExpr \<Rightarrow>
                                        (case rec_evalExpr ev stepExpr st2 of
                                           (Inl t, st3) \<Rightarrow> (Inl t, st3)
                                         | (Inr stepV, st3) \<Rightarrow>
                                             (case scalarDouble stepV of
                                                Inl e \<Rightarrow> (Inl (Err e), st3)
                                              | Inr step \<Rightarrow>
                                                  (liftE (makeMatrixE (generateRange start step stop)), st3))))))))))"
| "evalExpr_body ev EndExpr st = (Inr (makeScalar 0), st)"
| "evalExpr_body ev (AnonFuncExpr ps bodyExpr) st =
     (Inr (VFuncHandle ''<anonymous>'' (UserImpl (anonymousFunction ps bodyExpr))), st)"
| "evalExpr_body ev (FuncHandleExpr name) st =
     (if isBuiltinFunction st name then (Inr (VFuncHandle name (BuiltinImpl name)), st)
      else (case userFunctions st name of
              Some fd \<Rightarrow> (Inr (VFuncHandle name (UserImpl fd)), st)
            | None \<Rightarrow> (Inl (raise (''Undefined function '' @ quoted name)), st)))"
| "evalExpr_body ev (CommandExpr cmd cargs) st =
     (Inl (raise ''Command syntax not yet supported''), st)"

fun evalArgs_body :: "Evaluator \<Rightarrow> Expr list \<Rightarrow> Interp \<Rightarrow> (thrown + Value list) \<times> Interp" where
  "evalArgs_body ev [] st = (Inr [], st)"
| "evalArgs_body ev (e # es) st =
     (case rec_evalExpr ev e st of
        (Inl t, st1) \<Rightarrow> (Inl t, st1)
      | (Inr v, st1) \<Rightarrow>
          (case rec_evalArgs ev es st1 of
             (Inl t, st2) \<Rightarrow> (Inl t, st2)
           | (Inr vs, st2) \<Rightarrow> (Inr (v # vs), st2)))"

fun evalMatrixRow_body :: "Evaluator \<Rightarrow> Expr list \<Rightarrow> Interp \<Rightarrow> (thrown + Matrix list) \<times> Interp" where
  "evalMatrixRow_body ev [] st = (Inr [], st)"
| "evalMatrixRow_body ev (e # es) st =
     (case rec_evalExpr ev e st of
        (Inl t, st1) \<Rightarrow> (Inl t, st1)
      | (Inr val, st1) \<Rightarrow>
          (case matrixElement val of
             Inl err \<Rightarrow> (Inl (Err err), st1)
           | Inr m \<Rightarrow>
               (case rec_evalMatrixRow ev es st1 of
                  (Inl t, st2) \<Rightarrow> (Inl t, st2)
                | (Inr ms, st2) \<Rightarrow> (Inr (m # ms), st2))))"

fun evalMatrixRows_body :: "Evaluator \<Rightarrow> Expr list list \<Rightarrow> Interp \<Rightarrow> (thrown + Matrix list list) \<times> Interp" where
  "evalMatrixRows_body ev [] st = (Inr [], st)"
| "evalMatrixRows_body ev (row # erows) st =
     (case rec_evalMatrixRow ev row st of
        (Inl t, st1) \<Rightarrow> (Inl t, st1)
      | (Inr ms, st1) \<Rightarrow>
          (case rec_evalMatrixRows ev erows st1 of
             (Inl t, st2) \<Rightarrow> (Inl t, st2)
           | (Inr mss, st2) \<Rightarrow> (Inr (ms # mss), st2)))"

fun evalCellRows_body :: "Evaluator \<Rightarrow> Expr list list \<Rightarrow> Interp \<Rightarrow> (thrown + Value list list) \<times> Interp" where
  "evalCellRows_body ev [] st = (Inr [], st)"
| "evalCellRows_body ev (row # erows) st =
     (case rec_evalArgs ev row st of
        (Inl t, st1) \<Rightarrow> (Inl t, st1)
      | (Inr vs, st1) \<Rightarrow>
          (case rec_evalCellRows ev erows st1 of
             (Inl t, st2) \<Rightarrow> (Inl t, st2)
           | (Inr vss, st2) \<Rightarrow> (Inr (vs # vss), st2)))"

fun callFunction_body :: "Evaluator \<Rightarrow> string \<Rightarrow> Value list \<Rightarrow> Interp \<Rightarrow> (thrown + Value) \<times> Interp" where
  "callFunction_body ev name args st =
     (case builtinFunctions st name of
        Some builtin \<Rightarrow> (liftE (builtin args), st)
      | None \<Rightarrow>
          (case userFunctions st name of
             Some fd \<Rightarrow> rec_callUserFunction ev fd args 1 st
           | None \<Rightarrow>
               (case fileFunctions st name of
                  Some fileFn \<Rightarrow>
                    rec_callUserFunction ev fileFn args 1
                      (st\<lparr>userFunctions := (userFunctions st)(name \<mapsto> fileFn)\<rparr>)
                | None \<Rightarrow> (Inl (raise (''Undefined function '' @ quoted name)), st))))"

fun callUserFunction_body :: "Evaluator \<Rightarrow> FunctionDef \<Rightarrow> Value list \<Rightarrow> int \<Rightarrow> Interp \<Rightarrow> (thrown + Value) \<times> Interp" where
  "callUserFunction_body ev func args nargout st =
     (case enterFunction func args nargout st of (funcEnv, st1) \<Rightarrow>
        (case rec_execBlock ev (body func) st1 of
           (None, st2) \<Rightarrow>
             (Inr (functionResult func funcEnv st2), st2\<lparr>currentEnv := currentEnv st\<rparr>)
         | (Some ReturnSignal, st2) \<Rightarrow>
             (Inr (functionResult func funcEnv st2), st2\<lparr>currentEnv := currentEnv st\<rparr>)
         | (Some t, st2) \<Rightarrow> (Inl t, st2)))"

fun callFuncHandle_body :: "Evaluator \<Rightarrow> FuncImpl \<Rightarrow> Value list \<Rightarrow> Interp \<Rightarrow> (thrown + Value) \<times> Interp" where
  "callFuncHandle_body ev (BuiltinImpl name) args st =
     (case builtinFunctions st name of
        Some builtin \<Rightarrow> (liftE (builtin args), st)
      | None \<Rightarrow> (Inl (raise ''Invalid function handle''), st))"
| "callFuncHandle_body ev (UserImpl fd) args st = rec_callUserFunction ev fd args 1 st"

fun executeStmt_body :: "Evaluator \<Rightarrow> Stmt \<Rightarrow> Interp \<Rightarrow> thrown option \<times> Interp" where
  "executeStmt_body ev (ExprStmt expression printResult) st =
     (case rec_evalExpr ev expression st of
        (Inl t, st1) \<Rightarrow> (Some t, st1)
      | (Inr val, st1) \<Rightarrow>
          if printResult \<and> \<not> isEmptyValue val
          then (None, display ''ans'' val (setCurrent ''ans'' val st1))
          else (None, st1))"
| "executeStmt_body ev (AssignStmt target valueExpr printResult) st =
     (case rec_evalExpr ev valueExpr st of
        (Inl t, st1) \<Rightarrow> (Some t, st1)
      | (Inr val, st1) \<Rightarrow>
          (case target of
             Identifier name \<Rightarrow>
               (None, if printResult \<and> \<not> isEmptyValue val
                      then display name val (setCurrent name val st1)
                      else setCurrent name val st1)
           | CallExpr callee arguments \<Rightarrow>
               (case callee of
                  Identifier name \<Rightarrow>
                    (case rec_evalArgs ev arguments st1 of
                       (Inl t, st2) \<Rightarrow> (Some t, st2)
                     | (Inr indices, st2) \<Rightarrow>
                         (case assignIndexedValue (lookupVariable st1 name) indices val of
                            Inl err \<Rightarrow> (Some (Err err), st2)
                          | Inr bound \<Rightarrow>
                              (let st3 = (case bound of Some v \<Rightarrow> setCurrent name v st2 | None \<Rightarrow> st2)
                               in (None,
                                   if printResult then
                                     (case lookupVariable st3 name of
                                        Some stored \<Rightarrow> display name stored st3
                                      | None \<Rightarrow> st3)
                                   else st3))))
                | _ \<Rightarrow> (Some (raise ''Invalid indexed assignment target''), st1))
           | DotExpr object field \<Rightarrow>
               (case object of
                  Identifier name \<Rightarrow>
                    (case assignDotValue (lookupVariable st1 name) field val of
                       Inl err \<Rightarrow> (Some (Err err), st1)
                     | Inr s \<Rightarrow> (None, setCurrent name s st1))
                | _ \<Rightarrow> (Some (raise ''Dot assignment requires an identifier base''), st1))
           | CellIndexExpr object indexExprs \<Rightarrow>
               (case object of
                  Identifier name \<Rightarrow>
                    (let obj = lookupVariable st1 name in
                     if obj = None \<or> obj = Some VEmpty
                        \<or> (case obj of Some (VCellArray r c d) \<Rightarrow> True | _ \<Rightarrow> False)
                     then
                       (case rec_evalArgs ev indexExprs st1 of
                          (Inl t, st2) \<Rightarrow> (Some t, st2)
                        | (Inr indices, st2) \<Rightarrow>
                            (case assignCellIndexValue obj indices val of
                               Inl err \<Rightarrow> (Some (Err err), st2)
                             | Inr (Some v) \<Rightarrow> (None, setCurrent name v st2)
                             | Inr None \<Rightarrow> (None, st2)))
                     else (None, st1))
                | _ \<Rightarrow> (Some (raise ''Cell index assignment requires an identifier''), st1))
           | _ \<Rightarrow> (Some (raise ''Invalid assignment target''), st1)))"
| "executeStmt_body ev (MultiAssignStmt targets valueExpr printResult) st =
     (case rec_evalExpr ev valueExpr st of
        (Inl t, st1) \<Rightarrow> (Some t, st1)
      | (Inr val, st1) \<Rightarrow>
          (let st2 = bindTargets targets 0 val st1
           in (None, if printResult \<and> \<not> isEmptyValue val then displayTargets targets st2 else st2)))"
| "executeStmt_body ev (IfStmt branches) st = rec_execIf ev branches st"
| "executeStmt_body ev (ForStmt variable rangeExpr forBody) st =
     (case rec_evalExpr ev rangeExpr st of
        (Inl t, st1) \<Rightarrow> (Some t, st1)
      | (Inr rangeVal, st1) \<Rightarrow>
          (case rangeVal of
             VMatrix mat \<Rightarrow> rec_execFor ev variable mat 0 forBody st1
           | VLogical mat \<Rightarrow> rec_execFor ev variable mat 0 forBody st1
           | _ \<Rightarrow> (Some (raise ''For loop requires numeric range''), st1)))"
| "executeStmt_body ev (WhileStmt condition whileBody) st = rec_execWhile ev condition whileBody st"
| "executeStmt_body ev (SwitchStmt expression cases) st =
     (case rec_evalExpr ev expression st of
        (Inl t, st1) \<Rightarrow> (Some t, st1)
      | (Inr val, st1) \<Rightarrow> rec_execSwitch ev val cases st1)"
| "executeStmt_body ev (TryCatchStmt tryBody catchVar catchBody) st =
     (case rec_execBlock ev tryBody st of
        (Some (Err (RuntimeError msg)), st1) \<Rightarrow>
          rec_execBlock ev catchBody
            (if catchVar \<noteq> [] then setCurrent catchVar (exceptionStruct msg ''MatFree:runtime'') st1
             else st1)
      | (Some (Err (LexerError msg l c)), st1) \<Rightarrow>
          rec_execBlock ev catchBody
            (if catchVar \<noteq> [] then setCurrent catchVar (exceptionStruct msg ''MatFree:internal'') st1
             else st1)
      | (Some (Err (StdException msg)), st1) \<Rightarrow>
          rec_execBlock ev catchBody
            (if catchVar \<noteq> [] then setCurrent catchVar (exceptionStruct msg ''MatFree:internal'') st1
             else st1)
      | (other, st1) \<Rightarrow> (other, st1))"
| "executeStmt_body ev ReturnStmt st = (Some ReturnSignal, st)"
| "executeStmt_body ev BreakStmt st = (Some BreakSignal, st)"
| "executeStmt_body ev ContinueStmt st = (Some ContinueSignal, st)"
| "executeStmt_body ev (GlobalStmt names) st = (None, execGlobal names st)"
| "executeStmt_body ev (PersistentStmt names) st = (None, execPersistent names st)"
| "executeStmt_body ev (FunctionDefStmt fd) st =
     (None, st\<lparr>userFunctions := (userFunctions st)(fn_name fd \<mapsto> fd)\<rparr>)"
| "executeStmt_body ev (ClassDefStmt cname supers props meths) st = (None, st)"

fun execBlock_body :: "Evaluator \<Rightarrow> Stmt list \<Rightarrow> Interp \<Rightarrow> thrown option \<times> Interp" where
  "execBlock_body ev [] st = (None, st)"
| "execBlock_body ev (s # ss) st =
     (case rec_executeStmt ev s st of
        (None, st1) \<Rightarrow> rec_execBlock ev ss st1
      | (Some t, st1) \<Rightarrow> (Some t, st1))"

fun execIf_body :: "Evaluator \<Rightarrow> (Expr option \<times> Stmt list) list \<Rightarrow> Interp \<Rightarrow> thrown option \<times> Interp" where
  "execIf_body ev [] st = (None, st)"
| "execIf_body ev ((None, branchBody) # branches) st = rec_execBlock ev branchBody st"
| "execIf_body ev ((Some condition, branchBody) # branches) st =
     (case rec_evalExpr ev condition st of
        (Inl t, st1) \<Rightarrow> (Some t, st1)
      | (Inr cond, st1) \<Rightarrow>
          (case toBool cond of
             Inl err \<Rightarrow> (Some (Err err), st1)
           | Inr True \<Rightarrow> rec_execBlock ev branchBody st1
           | Inr False \<Rightarrow> rec_execIf ev branches st1))"

fun execFor_body :: "Evaluator \<Rightarrow> string \<Rightarrow> Matrix \<Rightarrow> nat \<Rightarrow> Stmt list \<Rightarrow> Interp \<Rightarrow> thrown option \<times> Interp" where
  "execFor_body ev variable mat j forBody st =
     (if j < cols mat then
        (case (if rows mat = 1 then (case at2 mat 0 j of Inl e \<Rightarrow> Inl e | Inr x \<Rightarrow> Inr (makeScalar x))
               else makeMatrixE (getCol mat j)) of
           Inl err \<Rightarrow> (Some (Err err), st)
         | Inr item \<Rightarrow>
             (case rec_execBlock ev forBody (setCurrent variable item st) of
                (None, st1) \<Rightarrow> rec_execFor ev variable mat (j + 1) forBody st1
              | (Some BreakSignal, st1) \<Rightarrow> (None, st1)
              | (Some ContinueSignal, st1) \<Rightarrow> rec_execFor ev variable mat (j + 1) forBody st1
              | (Some t, st1) \<Rightarrow> (Some t, st1)))
      else (None, st))"

fun execWhile_body :: "Evaluator \<Rightarrow> Expr \<Rightarrow> Stmt list \<Rightarrow> Interp \<Rightarrow> thrown option \<times> Interp" where
  "execWhile_body ev condition whileBody st =
     (case rec_evalExpr ev condition st of
        (Inl t, st1) \<Rightarrow> (Some t, st1)
      | (Inr cond, st1) \<Rightarrow>
          (case toBool cond of
             Inl err \<Rightarrow> (Some (Err err), st1)
           | Inr False \<Rightarrow> (None, st1)
           | Inr True \<Rightarrow>
               (case rec_execBlock ev whileBody st1 of
                  (None, st2) \<Rightarrow> rec_execWhile ev condition whileBody st2
                | (Some BreakSignal, st2) \<Rightarrow> (None, st2)
                | (Some ContinueSignal, st2) \<Rightarrow> rec_execWhile ev condition whileBody st2
                | (Some t, st2) \<Rightarrow> (Some t, st2))))"

fun execSwitch_body :: "Evaluator \<Rightarrow> Value \<Rightarrow> (Expr option \<times> Stmt list) list \<Rightarrow> Interp \<Rightarrow> thrown option \<times> Interp" where
  "execSwitch_body ev val [] st = (None, st)"
| "execSwitch_body ev val ((None, caseBody) # cases) st = rec_execBlock ev caseBody st"
| "execSwitch_body ev val ((Some caseExpr, caseBody) # cases) st =
     (case rec_evalExpr ev caseExpr st of
        (Inl t, st1) \<Rightarrow> (Some t, st1)
      | (Inr caseVal, st1) \<Rightarrow>
          (case switchMatch val caseVal of
             Inl err \<Rightarrow> (Some (Err err), st1)
           | Inr True \<Rightarrow> rec_execBlock ev caseBody st1
           | Inr False \<Rightarrow> rec_execSwitch ev val cases st1))"

primrec evaluator :: "nat \<Rightarrow> Evaluator" where
  "evaluator 0 =
     \<lparr>rec_evalExpr = (\<lambda>a1 st. (Inl OutOfFuel, st)),
      rec_evalArgs = (\<lambda>a1 st. (Inl OutOfFuel, st)),
      rec_evalMatrixRow = (\<lambda>a1 st. (Inl OutOfFuel, st)),
      rec_evalMatrixRows = (\<lambda>a1 st. (Inl OutOfFuel, st)),
      rec_evalCellRows = (\<lambda>a1 st. (Inl OutOfFuel, st)),
      rec_callFunction = (\<lambda>a1 a2 st. (Inl OutOfFuel, st)),
      rec_callUserFunction = (\<lambda>a1 a2 a3 st. (Inl OutOfFuel, st)),
      rec_callFuncHandle = (\<lambda>a1 a2 st. (Inl OutOfFuel, st)),
      rec_executeStmt = (\<lambda>a1 st. (Some OutOfFuel, st)),
      rec_execBlock = (\<lambda>a1 st. (Some OutOfFuel, st)),
      rec_execIf = (\<lambda>a1 st. (Some OutOfFuel, st)),
      rec_execFor = (\<lambda>a1 a2 a3 a4 st. (Some OutOfFuel, st)),
      rec_execWhile = (\<lambda>a1 a2 st. (Some OutOfFuel, st)),
      rec_execSwitch = (\<lambda>a1 a2 st. (Some OutOfFuel, st))\<rparr>"
| "evaluator (Suc n) =
     \<lparr>rec_evalExpr = evalExpr_body (evaluator n),
      rec_evalArgs = evalArgs_body (evaluator n),
      rec_evalMatrixRow = evalMatrixRow_body (evaluator n),
      rec_evalMatrixRows = evalMatrixRows_body (evaluator n),
      rec_evalCellRows = evalCellRows_body (evaluator n),
      rec_callFunction = callFunction_body (evaluator n),
      rec_callUserFunction = callUserFunction_body (evaluator n),
      rec_callFuncHandle = callFuncHandle_body (evaluator n),
      rec_executeStmt = executeStmt_body (evaluator n),
      rec_execBlock = execBlock_body (evaluator n),
      rec_execIf = execIf_body (evaluator n),
      rec_execFor = execFor_body (evaluator n),
      rec_execWhile = execWhile_body (evaluator n),
      rec_execSwitch = execSwitch_body (evaluator n)\<rparr>"

definition evalExpr :: "nat \<Rightarrow> Expr \<Rightarrow> Interp \<Rightarrow> (thrown + Value) \<times> Interp" where
  "evalExpr n = rec_evalExpr (evaluator n)"

definition evalArgs :: "nat \<Rightarrow> Expr list \<Rightarrow> Interp \<Rightarrow> (thrown + Value list) \<times> Interp" where
  "evalArgs n = rec_evalArgs (evaluator n)"

definition evalMatrixRow :: "nat \<Rightarrow> Expr list \<Rightarrow> Interp \<Rightarrow> (thrown + Matrix list) \<times> Interp" where
  "evalMatrixRow n = rec_evalMatrixRow (evaluator n)"

definition evalMatrixRows :: "nat \<Rightarrow> Expr list list \<Rightarrow> Interp \<Rightarrow> (thrown + Matrix list list) \<times> Interp" where
  "evalMatrixRows n = rec_evalMatrixRows (evaluator n)"

definition evalCellRows :: "nat \<Rightarrow> Expr list list \<Rightarrow> Interp \<Rightarrow> (thrown + Value list list) \<times> Interp" where
  "evalCellRows n = rec_evalCellRows (evaluator n)"

definition callFunction :: "nat \<Rightarrow> string \<Rightarrow> Value list \<Rightarrow> Interp \<Rightarrow> (thrown + Value) \<times> Interp" where
  "callFunction n = rec_callFunction (evaluator n)"

definition callUserFunction :: "nat \<Rightarrow> FunctionDef \<Rightarrow> Value list \<Rightarrow> int \<Rightarrow> Interp \<Rightarrow> (thrown + Value) \<times> Interp" where
  "callUserFunction n = rec_callUserFunction (evaluator n)"

definition callFuncHandle :: "nat \<Rightarrow> FuncImpl \<Rightarrow> Value list \<Rightarrow> Interp \<Rightarrow> (thrown + Value) \<times> Interp" where
  "callFuncHandle n = rec_callFuncHandle (evaluator n)"

definition executeStmt :: "nat \<Rightarrow> Stmt \<Rightarrow> Interp \<Rightarrow> thrown option \<times> Interp" where
  "executeStmt n = rec_executeStmt (evaluator n)"

definition execBlock :: "nat \<Rightarrow> Stmt list \<Rightarrow> Interp \<Rightarrow> thrown option \<times> Interp" where
  "execBlock n = rec_execBlock (evaluator n)"

definition execIf :: "nat \<Rightarrow> (Expr option \<times> Stmt list) list \<Rightarrow> Interp \<Rightarrow> thrown option \<times> Interp" where
  "execIf n = rec_execIf (evaluator n)"

definition execFor :: "nat \<Rightarrow> string \<Rightarrow> Matrix \<Rightarrow> nat \<Rightarrow> Stmt list \<Rightarrow> Interp \<Rightarrow> thrown option \<times> Interp" where
  "execFor n = rec_execFor (evaluator n)"

definition execWhile :: "nat \<Rightarrow> Expr \<Rightarrow> Stmt list \<Rightarrow> Interp \<Rightarrow> thrown option \<times> Interp" where
  "execWhile n = rec_execWhile (evaluator n)"

definition execSwitch :: "nat \<Rightarrow> Value \<Rightarrow> (Expr option \<times> Stmt list) list \<Rightarrow> Interp \<Rightarrow> thrown option \<times> Interp" where
  "execSwitch n = rec_execSwitch (evaluator n)"

text \<open>\<open>Interpreter::execute\<close>: register the program's functions, then run its statements, skipping function definitions.\<close>

fun executeStatements :: "nat \<Rightarrow> Stmt list \<Rightarrow> Interp \<Rightarrow> thrown option \<times> Interp" where
  "executeStatements n [] st = (None, st)"
| "executeStatements n (s # ss) st =
     (case s of
        FunctionDefStmt fd \<Rightarrow> executeStatements n ss st
      | _ \<Rightarrow>
          (case executeStmt n s st of
             (None, st1) \<Rightarrow> executeStatements n ss st1
           | (Some t, st1) \<Rightarrow> (Some t, st1)))"

definition execute :: "nat \<Rightarrow> Program \<Rightarrow> Interp \<Rightarrow> thrown option \<times> Interp" where
  "execute n program st =
     executeStatements n (prog_statements program)
       (fold (\<lambda>fd s. s\<lparr>userFunctions := (userFunctions s)(fn_name fd \<mapsto> fd)\<rparr>)
          (prog_functions program) st)"

section \<open>The bindings of a function scope\<close>

text \<open>
  What \<open>callUserFunction\<close> binds in the scope it creates, as a map: the parameters that
  have an argument, \<open>nargin\<close> and \<open>nargout\<close>, and every return name not bound by then.
\<close>

fun bindParams :: "(string \<times> Value) list \<Rightarrow> (string \<rightharpoonup> Value) \<Rightarrow> (string \<rightharpoonup> Value)" where
  "bindParams [] m = m"
| "bindParams ((p, a) # pas) m = bindParams pas (m(p \<mapsto> a))"

fun initReturns :: "string list \<Rightarrow> (string \<rightharpoonup> Value) \<Rightarrow> (string \<rightharpoonup> Value)" where
  "initReturns [] m = m"
| "initReturns (r # rs) m = initReturns rs (if m r = None then m(r \<mapsto> VEmpty) else m)"

definition functionScope :: "FunctionDef \<Rightarrow> Value list \<Rightarrow> int \<Rightarrow> string \<rightharpoonup> Value" where
  "functionScope func args nargout =
     initReturns (returns func)
       ((bindParams (zip (params func) args) Map.empty)
          (''nargin'' \<mapsto> makeScalar (real (length args)),
           ''nargout'' \<mapsto> makeScalar (real_of_int nargout)))"

section \<open>Properties of the matrix operations\<close>













section \<open>The shape rule of the elementwise operators\<close>



















section \<open>Properties of the lexer\<close>

lemma scanStringLoop_to_end:
  "newline \<notin> set (input lx) \<Longrightarrow> d \<notin> set (input lx) \<Longrightarrow>
   \<exists>lx'. scanStringLoop d str lx = Inr (str @ input lx, lx') \<and> input lx' = []
         \<and> hasPeeked lx' = hasPeeked lx \<and> lastToken lx' = lastToken lx"
proof (induction d str lx rule: scanStringLoop.induct)
  case (1 d str lx)
  show ?case
  proof (cases "input lx")
    case Nil
    then show ?thesis by (subst scanStringLoop.simps) (simp add: isAtEnd_def)
  next
    case (Cons c cs)
    then have c: "current lx = c" "c \<noteq> d" "c \<noteq> newline" "\<not> isAtEnd lx"
      using "1.prems" by (auto simp: current_def isAtEnd_def)
    have adv: "input (advance lx) = cs" using Cons by (simp add: advance_def)
    then obtain lx' where
      "scanStringLoop d (str @ [current lx]) (advance lx) = Inr ((str @ [current lx]) @ cs, lx')"
      "input lx' = []" "hasPeeked lx' = hasPeeked lx" "lastToken lx' = lastToken lx"
      using "1.IH"(2) [OF c(4) _ _] c "1.prems" Cons by auto
    then show ?thesis
      using c Cons by (subst scanStringLoop.simps) simp
  qed
qed





lemma nextToken_on_quote:
  assumes "\<not> hasPeeked lx" "input (skipWhitespace lx) = quote # rest"
  shows "nextToken lx =
           (if isTransposeContext (skipWhitespace lx)
            then Inr (makeToken TRANSPOSE [quote] (advance (skipWhitespace lx)))
            else scanString quote (skipWhitespace lx))"
proof -
  have c: "current (skipWhitespace lx) = quote" "\<not> isAtEnd (skipWhitespace lx)"
    using assms(2) by (simp_all add: current_def isAtEnd_def)
  have q: "quote \<noteq> newline" "quote \<noteq> CHR ''%''" "\<not> isdigit quote" "quote \<noteq> CHR ''.''"
    "quote \<noteq> CHR 0x22"
    by (simp_all add: quote_def newline_def isdigit_def)
  show ?thesis
    using assms(1) c q by (subst nextToken.simps) (simp split del: if_split)
qed


lemma scanString_to_end:
  assumes "input lx = d # rest" "newline \<notin> set rest" "d \<notin> set rest"
  shows "\<exists>tok lx'. scanString d lx = Inr (tok, lx') \<and> tok_type tok = STRING \<and> lexeme tok = rest
           \<and> input lx' = [] \<and> hasPeeked lx' = hasPeeked lx"
proof -
  have "input (advance lx) = rest" using assms(1) by (simp add: advance_def)
  then obtain l1 where "scanStringLoop d [] (advance lx) = Inr ([] @ rest, l1)" "input l1 = []"
    "hasPeeked l1 = hasPeeked (advance lx)"
    using scanStringLoop_to_end [of "advance lx" d "[]"] assms(2,3) by auto
  then show ?thesis by (simp add: scanString_def Let_def Token_new_def)
qed



lemma isTransposeContext_iff:
  "isTransposeContext lx = (tok_type (lastToken lx) \<in> set transpose_context)"
  by (cases "tok_type (lastToken lx)") (simp_all add: isTransposeContext_def transpose_context_def)

lemma keywords_not_transpose: "keywords_table s = Some k \<Longrightarrow> k \<noteq> TRANSPOSE"
  by (auto simp: keywords_table_def split: if_splits)

lemma scanNumber_token:
  "scanNumber lx = (tok, lx') \<Longrightarrow> lastToken lx' = tok \<and> tok_type tok = NUMBER"
  by (auto simp: scanNumber_def Let_def Token_new_def split: prod.splits)

lemma scanString_token:
  "scanString d lx = Inr (tok, lx') \<Longrightarrow> lastToken lx' = tok \<and> tok_type tok = STRING"
  by (auto simp: scanString_def Let_def Token_new_def split: sum.splits prod.splits)

lemma scanIdentifierOrKeyword_token:
  "scanIdentifierOrKeyword lx = (tok, lx') \<Longrightarrow> lastToken lx' = tok \<and> tok_type tok \<noteq> TRANSPOSE"
  by (auto simp: scanIdentifierOrKeyword_def Let_def Token_new_def
      split: prod.splits option.splits dest: keywords_not_transpose)

lemma scanOperator_token:
  "scanOperator c sl sc lx = Inr (tok, lx') \<Longrightarrow> lastToken lx' = tok \<and> tok_type tok \<noteq> TRANSPOSE"
  by (auto simp: scanOperator_def makeToken_def Let_def Token_new_def split: if_splits)

lemma makeToken_token:
  "makeToken t s lx = (tok, lx') \<Longrightarrow> lastToken lx' = tok \<and> tok_type tok = t \<and> lexeme tok = s"
  by (auto simp: makeToken_def Let_def Token_new_def)

lemma nextToken_result:
  "nextToken lx = Inr (tok, lx') \<Longrightarrow>
   lastToken lx' = tok
   \<and> (\<not> hasPeeked lx \<longrightarrow> tok_type tok = TRANSPOSE \<longrightarrow> isTransposeContext lx)"
proof (induction lx rule: nextToken.induct)
  case (1 lx)
  let ?w = "skipWhitespace lx"
  have w: "lastToken ?w = lastToken lx" using skipWhitespace_keeps [of lx] by simp
  have ctx: "isTransposeContext l = isTransposeContext lx" if "lastToken l = lastToken lx" for l
    using that by (simp add: isTransposeContext_def)
  show ?case
  proof (cases "hasPeeked lx")
    case True
    then show ?thesis using "1.prems" by (subst (asm) nextToken.simps) auto
  next
    case False
    note np = False
    show ?thesis
    proof (cases "isAtEnd ?w")
      case True
      then have "makeToken EOF_TOKEN [] ?w = (tok, lx')"
        using "1.prems" np by (subst (asm) nextToken.simps) simp
      then have "lastToken lx' = tok \<and> tok_type tok = EOF_TOKEN"
        using makeToken_token by blast
      then show ?thesis by simp
    next
      case False
      note ne = False
      consider
          (nl) "current ?w = newline"
        | (pc) "current ?w \<noteq> newline" "current ?w = CHR ''%''"
        | (num) "current ?w \<noteq> newline" "current ?w \<noteq> CHR ''%''"
            "isdigit (current ?w) \<or> (current ?w = CHR ''.'' \<and> isdigit (peek ?w 1))"
        | (other) "current ?w \<noteq> newline" "current ?w \<noteq> CHR ''%''"
            "\<not> (isdigit (current ?w) \<or> (current ?w = CHR ''.'' \<and> isdigit (peek ?w 1)))"
        by blast
      then show ?thesis
      proof cases
        case nl
        show ?thesis
        proof (cases "tok_type (lastToken ?w) \<noteq> NEWLINE \<and> tok_type (lastToken ?w) \<noteq> SEMICOLON
                      \<and> tok_type (lastToken ?w) \<noteq> COMMA")
          case True
          then have "makeToken NEWLINE newline_lexeme (advance ?w) = (tok, lx')"
            using "1.prems" np ne nl by (subst (asm) nextToken.simps) auto
          then have "lastToken lx' = tok \<and> tok_type tok = NEWLINE"
            using makeToken_token by blast
          then show ?thesis by simp
        next
          case False
          then have r: "nextToken (advance ?w) = Inr (tok, lx')"
            using "1.prems" np ne nl by (subst (asm) nextToken.simps) auto
          have "lastToken lx' = tok
                \<and> (\<not> hasPeeked (advance ?w) \<longrightarrow> tok_type tok = TRANSPOSE \<longrightarrow> isTransposeContext (advance ?w))"
            using "1.IH"(1) [OF np ne nl _ r] False by auto
          then show ?thesis
            using np skipWhitespace_keeps [of lx] ctx [of "advance ?w"] w by simp
        qed
      next
        case pc
        show ?thesis
        proof (cases "peek ?w 1 = CHR ''{''")
          case True
          let ?b = "skipBlockComment (advance (advance ?w))"
          have r: "nextToken ?b = Inr (tok, lx')"
            using "1.prems" np ne pc True by (subst (asm) nextToken.simps) auto
          have b: "\<not> hasPeeked ?b" "lastToken ?b = lastToken lx"
            using skipBlockLoop_keeps [of 1 "advance (advance ?w)"] np w
              skipWhitespace_keeps [of lx]
            by (simp_all add: skipBlockComment_def)
          have "lastToken lx' = tok
                \<and> (\<not> hasPeeked ?b \<longrightarrow> tok_type tok = TRANSPOSE \<longrightarrow> isTransposeContext ?b)"
            using "1.IH"(2) [OF np ne pc(1) pc(2) True r] .
          then show ?thesis using b ctx [of ?b] by simp
        next
          case False
          note nb = False
          let ?c = "skipLineComment ?w"
          have c: "\<not> hasPeeked ?c" "lastToken ?c = lastToken lx"
            using scan_while_keeps [of "\<lambda>c. c \<noteq> newline" ?w] np w skipWhitespace_keeps [of lx]
            by (simp_all add: skipLineComment_def)
          show ?thesis
          proof (cases "tok_type (lastToken ?w) \<noteq> NEWLINE \<and> tok_type (lastToken ?w) \<noteq> SEMICOLON")
            case True
            then have "makeToken NEWLINE newline_lexeme ?c = (tok, lx')"
              using "1.prems" np ne pc nb by (subst (asm) nextToken.simps) auto
            then have "lastToken lx' = tok \<and> tok_type tok = NEWLINE"
              using makeToken_token by blast
            then show ?thesis by simp
          next
            case False
            then have r: "nextToken ?c = Inr (tok, lx')"
              using "1.prems" np ne pc nb by (subst (asm) nextToken.simps) auto
            have "lastToken lx' = tok
                  \<and> (\<not> hasPeeked ?c \<longrightarrow> tok_type tok = TRANSPOSE \<longrightarrow> isTransposeContext ?c)"
              using "1.IH"(3) [OF np ne pc(1) pc(2) nb _ r] False by auto
            then show ?thesis using c ctx [of ?c] by simp
          qed
        qed
      next
        case num
        then have "scanNumber ?w = (tok, lx')"
          using "1.prems" np ne by (subst (asm) nextToken.simps) auto
        then have "lastToken lx' = tok \<and> tok_type tok = NUMBER"
          using scanNumber_token by blast
        then show ?thesis by simp
      next
        case other
        have nd: "\<not> isdigit (current ?w)"
          and ndot: "(current ?w = CHR ''.'' \<and> isdigit (peek ?w 1)) = False"
          using other(3) by auto
        have unfolded: "nextToken lx =
              (if isdigit (current ?w) \<or> (current ?w = CHR ''.'' \<and> isdigit (peek ?w 1))
               then Inr (scanNumber ?w)
               else if current ?w = CHR 0x22 then scanString (CHR 0x22) ?w
               else if current ?w = quote then
                 (if isTransposeContext ?w
                  then Inr (makeToken TRANSPOSE [quote] (advance ?w))
                  else scanString quote ?w)
               else if isalpha (current ?w) \<or> current ?w = CHR ''_''
               then Inr (scanIdentifierOrKeyword ?w)
               else scanOperator (current ?w) (line ?w) (col ?w) (advance ?w))"
          using np ne other(1,2) by (subst nextToken.simps) (simp only: if_False if_True)
        have eq: "(if current ?w = CHR 0x22 then scanString (CHR 0x22) ?w
               else if current ?w = quote then
                 (if isTransposeContext ?w
                  then Inr (makeToken TRANSPOSE [quote] (advance ?w))
                  else scanString quote ?w)
               else if isalpha (current ?w) \<or> current ?w = CHR ''_''
               then Inr (scanIdentifierOrKeyword ?w)
               else scanOperator (current ?w) (line ?w) (col ?w) (advance ?w)) = Inr (tok, lx')"
          using "1.prems"(1) unfolding unfolded by (simp only: nd ndot simp_thms if_False)
        have "lastToken lx' = tok \<and> (tok_type tok = TRANSPOSE \<longrightarrow> isTransposeContext ?w)"
        proof (cases "current ?w = CHR 0x22")
          case True
          then show ?thesis using eq scanString_token [of "CHR 0x22" ?w tok lx'] by simp
        next
          case False
          note nq = False
          show ?thesis
          proof (cases "current ?w = quote")
            case True
            note q = True
            show ?thesis
            proof (cases "isTransposeContext ?w")
              case True
              then have "makeToken TRANSPOSE [quote] (advance ?w) = (tok, lx')"
                using eq nq q by simp
              then have "lastToken lx' = tok" using makeToken_token by blast
              then show ?thesis using True by simp
            next
              case False
              then show ?thesis using eq nq q scanString_token [of quote ?w tok lx'] by simp
            qed
          next
            case False
            note nt = False
            show ?thesis
            proof (cases "isalpha (current ?w) \<or> current ?w = CHR ''_''")
              case True
              then have "scanIdentifierOrKeyword ?w = (tok, lx')" using eq nq nt by simp
              then show ?thesis using scanIdentifierOrKeyword_token by blast
            next
              case False
              then have "scanOperator (current ?w) (line ?w) (col ?w) (advance ?w) = Inr (tok, lx')"
                using eq nq nt by simp
              then show ?thesis using scanOperator_token by blast
            qed
          qed
        qed
        then show ?thesis using ctx [of ?w] w by simp
      qed
    qed
  qed
qed

text \<open>
  Claim C4. \<open>lastToken\<close> always holds the token emitted last. When a scan starts at a
  single quote (after blanks and continuations are skipped), the token is TRANSPOSE exactly
  when the last token's kind is one of identifier, number, \<open>)\<close>, \<open>]\<close>, \<open>}\<close>, TRANSPOSE,
  DOT_TRANSPOSE, \<open>end\<close>, \<open>true\<close>, \<open>false\<close>; otherwise the quote opens a string literal and
  the scan is \<open>scanString\<close>'s. No other path emits TRANSPOSE. Lexing \<open>x'\<close> gives IDENTIFIER,
  TRANSPOSE and the end of file; lexing \<open>'abc'\<close> gives a STRING with content \<open>abc\<close>.
\<close>

theorem quote_disambiguation:
  "(\<forall>tok lx'. nextToken lx = Inr (tok, lx') \<longrightarrow> lastToken lx' = tok)
   \<and> (\<not> hasPeeked lx \<and> input (skipWhitespace lx) = quote # rest
        \<and> tok_type (lastToken lx) \<in> set transpose_context \<longrightarrow>
        (\<exists>tok lx'. nextToken lx = Inr (tok, lx') \<and> tok_type tok = TRANSPOSE
            \<and> lexeme tok = [quote] \<and> input lx' = rest))
   \<and> (\<not> hasPeeked lx \<and> input (skipWhitespace lx) = quote # rest
        \<and> tok_type (lastToken lx) \<notin> set transpose_context \<longrightarrow>
        nextToken lx = scanString quote (skipWhitespace lx)
        \<and> (\<forall>tok lx'. nextToken lx = Inr (tok, lx') \<longrightarrow> tok_type tok = STRING))
   \<and> (\<forall>tok lx'. \<not> hasPeeked lx \<and> nextToken lx = Inr (tok, lx') \<and> tok_type tok = TRANSPOSE \<longrightarrow>
        tok_type (lastToken lx) \<in> set transpose_context)
   \<and> map (\<lambda>t. (tok_type t, lexeme t)) (projr (tokenize [CHR ''x'', quote]))
       = [(IDENTIFIER, ''x''), (TRANSPOSE, [quote]), (EOF_TOKEN, [])]
   \<and> map (\<lambda>t. (tok_type t, lexeme t)) (projr (tokenize (quote # ''abc'' @ [quote])))
       = [(STRING, ''abc''), (EOF_TOKEN, [])]"
proof -
  let ?w = "skipWhitespace lx"
  have w: "lastToken ?w = lastToken lx" using skipWhitespace_keeps [of lx] by simp
  have cw: "isTransposeContext ?w = (tok_type (lastToken lx) \<in> set transpose_context)"
    using isTransposeContext_iff [of ?w] w by simp
  have a: "lastToken lx' = tok" if "nextToken lx = Inr (tok, lx')" for tok lx'
    using nextToken_result [OF that] by simp
  have b: "\<exists>tok lx'. nextToken lx = Inr (tok, lx') \<and> tok_type tok = TRANSPOSE
            \<and> lexeme tok = [quote] \<and> input lx' = rest"
    if h: "\<not> hasPeeked lx" "input ?w = quote # rest"
       "tok_type (lastToken lx) \<in> set transpose_context"
  proof -
    have "nextToken lx = Inr (makeToken TRANSPOSE [quote] (advance ?w))"
      using nextToken_on_quote [OF h(1,2)] cw h(3) by simp
    moreover have "input (advance ?w) = rest" using h(2) by (simp add: advance_def)
    ultimately show ?thesis by (simp add: makeToken_def Let_def Token_new_def)
  qed
  have c: "nextToken lx = scanString quote ?w
           \<and> (\<forall>tok lx'. nextToken lx = Inr (tok, lx') \<longrightarrow> tok_type tok = STRING)"
    if h: "\<not> hasPeeked lx" "input ?w = quote # rest"
       "tok_type (lastToken lx) \<notin> set transpose_context"
  proof -
    have "nextToken lx = scanString quote ?w"
      using nextToken_on_quote [OF h(1,2)] cw h(3) by simp
    then show ?thesis using scanString_token by auto
  qed
  have d: "tok_type (lastToken lx) \<in> set transpose_context"
    if h: "\<not> hasPeeked lx" "nextToken lx = Inr (tok, lx')" "tok_type tok = TRANSPOSE" for tok lx'
    using nextToken_result [OF h(2)] h(1,3) isTransposeContext_iff [of lx] by simp
  have e: "map (\<lambda>t. (tok_type t, lexeme t)) (projr (tokenize [CHR ''x'', quote]))
       = [(IDENTIFIER, ''x''), (TRANSPOSE, [quote]), (EOF_TOKEN, [])]"
    by code_simp
  have f: "map (\<lambda>t. (tok_type t, lexeme t)) (projr (tokenize (quote # ''abc'' @ [quote])))
       = [(STRING, ''abc''), (EOF_TOKEN, [])]"
    by code_simp
  show ?thesis using a b c d e f by blast
qed

theorem quote_disambiguation_witness:
  "(\<exists>tok lx'. nextToken ((Lexer_new ('' '' @ [quote] @ ''*2''))\<lparr>lastToken := Token_new RPAREN '')'' 1 1\<rparr>)
        = Inr (tok, lx') \<and> tok_type tok = TRANSPOSE \<and> lexeme tok = [quote] \<and> input lx' = ''*2'')
   \<and> (\<exists>tok lx'. nextToken ((Lexer_new ('' '' @ [quote] @ ''*2''))\<lparr>lastToken := Token_new COMMA '','' 1 1\<rparr>)
        = Inr (tok, lx') \<and> tok_type tok = STRING \<and> lexeme tok = ''*2'')"
proof -
  let ?src = "'' '' @ [quote] @ ''*2''"
  let ?l1 = "(Lexer_new ?src)\<lparr>lastToken := Token_new RPAREN '')'' 1 1\<rparr>"
  let ?l2 = "(Lexer_new ?src)\<lparr>lastToken := Token_new COMMA '','' 1 1\<rparr>"
  have s1: "input (skipWhitespace ?l1) = quote # ''*2''" by code_simp
  have s2: "input (skipWhitespace ?l2) = quote # ''*2''" by code_simp
  have p1: "\<not> hasPeeked ?l1" "tok_type (lastToken ?l1) \<in> set transpose_context"
    by (simp_all add: Lexer_new_def Token_new_def transpose_context_def)
  have p2: "\<not> hasPeeked ?l2" "tok_type (lastToken ?l2) \<notin> set transpose_context"
    by (simp_all add: Lexer_new_def Token_new_def transpose_context_def)
  have q: "quote \<notin> set ''*2''" "newline \<notin> set ''*2''"
    by (simp_all add: quote_def newline_def)
  obtain tok lx' where "scanString quote (skipWhitespace ?l2) = Inr (tok, lx')"
    "tok_type tok = STRING" "lexeme tok = ''*2''"
    using scanString_to_end [OF s2 q(2,1)] by blast
  moreover have "nextToken ?l2 = scanString quote (skipWhitespace ?l2)"
    using quote_disambiguation [of ?l2 "''*2''"] s2 p2 by blast
  ultimately have "\<exists>tok lx'. nextToken ?l2 = Inr (tok, lx') \<and> tok_type tok = STRING \<and> lexeme tok = ''*2''"
    by auto
  then show ?thesis
    using quote_disambiguation [of ?l1 "''*2''"] s1 p1 by blast
qed



section \<open>The evaluator's equations\<close>

text \<open>
  Unfolding \<open>evaluator\<close> gives the mutually recursive equations of the fourteen
  functions: each is its source function, with every call at depth \<open>n\<close>.
\<close>

lemmas evaluator_defs =
  evalExpr_def
  evalArgs_def
  evalMatrixRow_def
  evalMatrixRows_def
  evalCellRows_def
  callFunction_def
  callUserFunction_def
  callFuncHandle_def
  executeStmt_def
  execBlock_def
  execIf_def
  execFor_def
  execWhile_def
  execSwitch_def

lemma evalExpr_eqs:
  "evalExpr 0 e st = (Inl OutOfFuel, st)"
  "evalExpr (Suc n) (NumberLiteral v im c) st =
     (Inr (if c then makeScalar im else makeScalar v), st)"
  "evalExpr (Suc n) (StringLiteral s) st = (Inr (VString s), st)"
  "evalExpr (Suc n) (BoolLiteral b) st = (Inr (makeBool b), st)"
  "evalExpr (Suc n) (Identifier name) st =
     (case lookupVariable st name of
        Some val \<Rightarrow> (Inr val, st)
      | None \<Rightarrow>
          if isKnownFunction st name then callFunction n name [] st
          else (Inl (raise (''Undefined variable or function '' @ quoted name)), st))"
  "evalExpr (Suc n) (UnaryExpr op operand postfix) st =
     (case evalExpr n operand st of
        (Inl t, st1) \<Rightarrow> (Inl t, st1)
      | (Inr v, st1) \<Rightarrow> (liftE (evalUnaryValue op v), st1))"
  "evalExpr (Suc n) (BinaryExpr op l r) st =
     (case evalExpr n l st of
        (Inl t, st1) \<Rightarrow> (Inl t, st1)
      | (Inr left, st1) \<Rightarrow>
          (case evalExpr n r st1 of
             (Inl t, st2) \<Rightarrow> (Inl t, st2)
           | (Inr right, st2) \<Rightarrow> (liftE (evalBinaryValues op left right), st2)))"
  "evalExpr (Suc n) (MatrixLiteral erows) st =
     (if erows = [] then (Inr (VMatrix Matrix_empty), st)
      else
        (case evalMatrixRows n erows st of
           (Inl t, st1) \<Rightarrow> (Inl t, st1)
         | (Inr evaluatedRows, st1) \<Rightarrow> (liftE (buildMatrixLiteral evaluatedRows), st1)))"
  "evalExpr (Suc n) (CellArrayLiteral erows) st =
     (if erows = [] then (Inr (VCellArray 0 0 []), st)
      else
        (case evalCellRows n erows st of
           (Inl t, st1) \<Rightarrow> (Inl t, st1)
         | (Inr vrows, st1) \<Rightarrow> (liftE (buildCellArray vrows), st1)))"
  "evalExpr (Suc n) (CallExpr callee arguments) st =
     (case callee of
        Identifier name \<Rightarrow>
          (case evalArgs n arguments st of
             (Inl t, st1) \<Rightarrow> (Inl t, st1)
           | (Inr args, st1) \<Rightarrow>
               (case lookupVariable st1 name of
                  Some (VFuncHandle fname impl) \<Rightarrow> callFuncHandle n impl args st1
                | Some var \<Rightarrow>
                    if \<not> isKnownFunction st1 name then
                      (case indexVariable var args of
                         Some r \<Rightarrow> (liftE r, st1)
                       | None \<Rightarrow> callFunction n name args st1)
                    else callFunction n name args st1
                | None \<Rightarrow> callFunction n name args st1))
      | _ \<Rightarrow>
          (case evalExpr n callee st of
             (Inl t, st1) \<Rightarrow> (Inl t, st1)
           | (Inr (VFuncHandle fname impl), st1) \<Rightarrow>
               (case evalArgs n arguments st1 of
                  (Inl t, st2) \<Rightarrow> (Inl t, st2)
                | (Inr args, st2) \<Rightarrow> callFuncHandle n impl args st2)
           | (Inr other, st1) \<Rightarrow> (Inl (raise ''Cannot call non-function value''), st1)))"
  "evalExpr (Suc n) (CellIndexExpr object indexExprs) st =
     (case evalExpr n object st of
        (Inl t, st1) \<Rightarrow> (Inl t, st1)
      | (Inr obj, st1) \<Rightarrow>
          (case obj of
             VCellArray r c d \<Rightarrow>
               (case evalArgs n indexExprs st1 of
                  (Inl t, st2) \<Rightarrow> (Inl t, st2)
                | (Inr indices, st2) \<Rightarrow> (liftE (cellIndexValues obj indices), st2))
           | _ \<Rightarrow> (Inl (raise ''Cell indexing requires a cell array''), st1)))"
  "evalExpr (Suc n) (DotExpr object field) st =
     (case evalExpr n object st of
        (Inl t, st1) \<Rightarrow> (Inl t, st1)
      | (Inr obj, st1) \<Rightarrow> (liftE (evalDotValue obj field), st1))"
  "evalExpr (Suc n) (ColonExpr startE stepE stopE) st =
     (case startE of
        None \<Rightarrow> (Inr VEmpty, st)
      | Some startExpr \<Rightarrow>
          (case stopE of
             None \<Rightarrow> evalExpr n startExpr st
           | Some stopExpr \<Rightarrow>
               (case evalExpr n startExpr st of
                  (Inl t, st1) \<Rightarrow> (Inl t, st1)
                | (Inr startV, st1) \<Rightarrow>
                    (case scalarDouble startV of
                       Inl e \<Rightarrow> (Inl (Err e), st1)
                     | Inr start \<Rightarrow>
                         (case evalExpr n stopExpr st1 of
                            (Inl t, st2) \<Rightarrow> (Inl t, st2)
                          | (Inr stopV, st2) \<Rightarrow>
                              (case scalarDouble stopV of
                                 Inl e \<Rightarrow> (Inl (Err e), st2)
                               | Inr stop \<Rightarrow>
                                   (case stepE of
                                      None \<Rightarrow> (liftE (makeMatrixE (generateRange start 1 stop)), st2)
                                    | Some stepExpr \<Rightarrow>
                                        (case evalExpr n stepExpr st2 of
                                           (Inl t, st3) \<Rightarrow> (Inl t, st3)
                                         | (Inr stepV, st3) \<Rightarrow>
                                             (case scalarDouble stepV of
                                                Inl e \<Rightarrow> (Inl (Err e), st3)
                                              | Inr step \<Rightarrow>
                                                  (liftE (makeMatrixE (generateRange start step stop)), st3))))))))))"
  "evalExpr (Suc n) EndExpr st = (Inr (makeScalar 0), st)"
  "evalExpr (Suc n) (AnonFuncExpr ps bodyExpr) st =
     (Inr (VFuncHandle ''<anonymous>'' (UserImpl (anonymousFunction ps bodyExpr))), st)"
  "evalExpr (Suc n) (FuncHandleExpr name) st =
     (if isBuiltinFunction st name then (Inr (VFuncHandle name (BuiltinImpl name)), st)
      else (case userFunctions st name of
              Some fd \<Rightarrow> (Inr (VFuncHandle name (UserImpl fd)), st)
            | None \<Rightarrow> (Inl (raise (''Undefined function '' @ quoted name)), st)))"
  "evalExpr (Suc n) (CommandExpr cmd cargs) st =
     (Inl (raise ''Command syntax not yet supported''), st)"
  unfolding evaluator_defs by simp_all

lemma evalArgs_eqs:
  "evalArgs 0 es st = (Inl OutOfFuel, st)"
  "evalArgs (Suc n) [] st = (Inr [], st)"
  "evalArgs (Suc n) (e # es) st =
     (case evalExpr n e st of
        (Inl t, st1) \<Rightarrow> (Inl t, st1)
      | (Inr v, st1) \<Rightarrow>
          (case evalArgs n es st1 of
             (Inl t, st2) \<Rightarrow> (Inl t, st2)
           | (Inr vs, st2) \<Rightarrow> (Inr (v # vs), st2)))"
  unfolding evaluator_defs by simp_all

lemma evalMatrixRow_eqs:
  "evalMatrixRow 0 es st = (Inl OutOfFuel, st)"
  "evalMatrixRow (Suc n) [] st = (Inr [], st)"
  "evalMatrixRow (Suc n) (e # es) st =
     (case evalExpr n e st of
        (Inl t, st1) \<Rightarrow> (Inl t, st1)
      | (Inr val, st1) \<Rightarrow>
          (case matrixElement val of
             Inl err \<Rightarrow> (Inl (Err err), st1)
           | Inr m \<Rightarrow>
               (case evalMatrixRow n es st1 of
                  (Inl t, st2) \<Rightarrow> (Inl t, st2)
                | (Inr ms, st2) \<Rightarrow> (Inr (m # ms), st2))))"
  unfolding evaluator_defs by simp_all

lemma evalMatrixRows_eqs:
  "evalMatrixRows 0 erows st = (Inl OutOfFuel, st)"
  "evalMatrixRows (Suc n) [] st = (Inr [], st)"
  "evalMatrixRows (Suc n) (row # erows) st =
     (case evalMatrixRow n row st of
        (Inl t, st1) \<Rightarrow> (Inl t, st1)
      | (Inr ms, st1) \<Rightarrow>
          (case evalMatrixRows n erows st1 of
             (Inl t, st2) \<Rightarrow> (Inl t, st2)
           | (Inr mss, st2) \<Rightarrow> (Inr (ms # mss), st2)))"
  unfolding evaluator_defs by simp_all

lemma evalCellRows_eqs:
  "evalCellRows 0 erows st = (Inl OutOfFuel, st)"
  "evalCellRows (Suc n) [] st = (Inr [], st)"
  "evalCellRows (Suc n) (row # erows) st =
     (case evalArgs n row st of
        (Inl t, st1) \<Rightarrow> (Inl t, st1)
      | (Inr vs, st1) \<Rightarrow>
          (case evalCellRows n erows st1 of
             (Inl t, st2) \<Rightarrow> (Inl t, st2)
           | (Inr vss, st2) \<Rightarrow> (Inr (vs # vss), st2)))"
  unfolding evaluator_defs by simp_all

lemma callFunction_eqs:
  "callFunction 0 name args st = (Inl OutOfFuel, st)"
  "callFunction (Suc n) name args st =
     (case builtinFunctions st name of
        Some builtin \<Rightarrow> (liftE (builtin args), st)
      | None \<Rightarrow>
          (case userFunctions st name of
             Some fd \<Rightarrow> callUserFunction n fd args 1 st
           | None \<Rightarrow>
               (case fileFunctions st name of
                  Some fileFn \<Rightarrow>
                    callUserFunction n fileFn args 1
                      (st\<lparr>userFunctions := (userFunctions st)(name \<mapsto> fileFn)\<rparr>)
                | None \<Rightarrow> (Inl (raise (''Undefined function '' @ quoted name)), st))))"
  unfolding evaluator_defs by simp_all

lemma callUserFunction_eqs:
  "callUserFunction 0 func args nargout st = (Inl OutOfFuel, st)"
  "callUserFunction (Suc n) func args nargout st =
     (case enterFunction func args nargout st of (funcEnv, st1) \<Rightarrow>
        (case execBlock n (body func) st1 of
           (None, st2) \<Rightarrow>
             (Inr (functionResult func funcEnv st2), st2\<lparr>currentEnv := currentEnv st\<rparr>)
         | (Some ReturnSignal, st2) \<Rightarrow>
             (Inr (functionResult func funcEnv st2), st2\<lparr>currentEnv := currentEnv st\<rparr>)
         | (Some t, st2) \<Rightarrow> (Inl t, st2)))"
  unfolding evaluator_defs by simp_all

lemma callFuncHandle_eqs:
  "callFuncHandle 0 impl args st = (Inl OutOfFuel, st)"
  "callFuncHandle (Suc n) (BuiltinImpl name) args st =
     (case builtinFunctions st name of
        Some builtin \<Rightarrow> (liftE (builtin args), st)
      | None \<Rightarrow> (Inl (raise ''Invalid function handle''), st))"
  "callFuncHandle (Suc n) (UserImpl fd) args st = callUserFunction n fd args 1 st"
  unfolding evaluator_defs by simp_all

lemma executeStmt_eqs:
  "executeStmt 0 s st = (Some OutOfFuel, st)"
  "executeStmt (Suc n) (ExprStmt expression printResult) st =
     (case evalExpr n expression st of
        (Inl t, st1) \<Rightarrow> (Some t, st1)
      | (Inr val, st1) \<Rightarrow>
          if printResult \<and> \<not> isEmptyValue val
          then (None, display ''ans'' val (setCurrent ''ans'' val st1))
          else (None, st1))"
  "executeStmt (Suc n) (AssignStmt target valueExpr printResult) st =
     (case evalExpr n valueExpr st of
        (Inl t, st1) \<Rightarrow> (Some t, st1)
      | (Inr val, st1) \<Rightarrow>
          (case target of
             Identifier name \<Rightarrow>
               (None, if printResult \<and> \<not> isEmptyValue val
                      then display name val (setCurrent name val st1)
                      else setCurrent name val st1)
           | CallExpr callee arguments \<Rightarrow>
               (case callee of
                  Identifier name \<Rightarrow>
                    (case evalArgs n arguments st1 of
                       (Inl t, st2) \<Rightarrow> (Some t, st2)
                     | (Inr indices, st2) \<Rightarrow>
                         (case assignIndexedValue (lookupVariable st1 name) indices val of
                            Inl err \<Rightarrow> (Some (Err err), st2)
                          | Inr bound \<Rightarrow>
                              (let st3 = (case bound of Some v \<Rightarrow> setCurrent name v st2 | None \<Rightarrow> st2)
                               in (None,
                                   if printResult then
                                     (case lookupVariable st3 name of
                                        Some stored \<Rightarrow> display name stored st3
                                      | None \<Rightarrow> st3)
                                   else st3))))
                | _ \<Rightarrow> (Some (raise ''Invalid indexed assignment target''), st1))
           | DotExpr object field \<Rightarrow>
               (case object of
                  Identifier name \<Rightarrow>
                    (case assignDotValue (lookupVariable st1 name) field val of
                       Inl err \<Rightarrow> (Some (Err err), st1)
                     | Inr s \<Rightarrow> (None, setCurrent name s st1))
                | _ \<Rightarrow> (Some (raise ''Dot assignment requires an identifier base''), st1))
           | CellIndexExpr object indexExprs \<Rightarrow>
               (case object of
                  Identifier name \<Rightarrow>
                    (let obj = lookupVariable st1 name in
                     if obj = None \<or> obj = Some VEmpty
                        \<or> (case obj of Some (VCellArray r c d) \<Rightarrow> True | _ \<Rightarrow> False)
                     then
                       (case evalArgs n indexExprs st1 of
                          (Inl t, st2) \<Rightarrow> (Some t, st2)
                        | (Inr indices, st2) \<Rightarrow>
                            (case assignCellIndexValue obj indices val of
                               Inl err \<Rightarrow> (Some (Err err), st2)
                             | Inr (Some v) \<Rightarrow> (None, setCurrent name v st2)
                             | Inr None \<Rightarrow> (None, st2)))
                     else (None, st1))
                | _ \<Rightarrow> (Some (raise ''Cell index assignment requires an identifier''), st1))
           | _ \<Rightarrow> (Some (raise ''Invalid assignment target''), st1)))"
  "executeStmt (Suc n) (MultiAssignStmt targets valueExpr printResult) st =
     (case evalExpr n valueExpr st of
        (Inl t, st1) \<Rightarrow> (Some t, st1)
      | (Inr val, st1) \<Rightarrow>
          (let st2 = bindTargets targets 0 val st1
           in (None, if printResult \<and> \<not> isEmptyValue val then displayTargets targets st2 else st2)))"
  "executeStmt (Suc n) (IfStmt branches) st = execIf n branches st"
  "executeStmt (Suc n) (ForStmt variable rangeExpr forBody) st =
     (case evalExpr n rangeExpr st of
        (Inl t, st1) \<Rightarrow> (Some t, st1)
      | (Inr rangeVal, st1) \<Rightarrow>
          (case rangeVal of
             VMatrix mat \<Rightarrow> execFor n variable mat 0 forBody st1
           | VLogical mat \<Rightarrow> execFor n variable mat 0 forBody st1
           | _ \<Rightarrow> (Some (raise ''For loop requires numeric range''), st1)))"
  "executeStmt (Suc n) (WhileStmt condition whileBody) st = execWhile n condition whileBody st"
  "executeStmt (Suc n) (SwitchStmt expression cases) st =
     (case evalExpr n expression st of
        (Inl t, st1) \<Rightarrow> (Some t, st1)
      | (Inr val, st1) \<Rightarrow> execSwitch n val cases st1)"
  "executeStmt (Suc n) (TryCatchStmt tryBody catchVar catchBody) st =
     (case execBlock n tryBody st of
        (Some (Err (RuntimeError msg)), st1) \<Rightarrow>
          execBlock n catchBody
            (if catchVar \<noteq> [] then setCurrent catchVar (exceptionStruct msg ''MatFree:runtime'') st1
             else st1)
      | (Some (Err (LexerError msg l c)), st1) \<Rightarrow>
          execBlock n catchBody
            (if catchVar \<noteq> [] then setCurrent catchVar (exceptionStruct msg ''MatFree:internal'') st1
             else st1)
      | (Some (Err (StdException msg)), st1) \<Rightarrow>
          execBlock n catchBody
            (if catchVar \<noteq> [] then setCurrent catchVar (exceptionStruct msg ''MatFree:internal'') st1
             else st1)
      | (other, st1) \<Rightarrow> (other, st1))"
  "executeStmt (Suc n) ReturnStmt st = (Some ReturnSignal, st)"
  "executeStmt (Suc n) BreakStmt st = (Some BreakSignal, st)"
  "executeStmt (Suc n) ContinueStmt st = (Some ContinueSignal, st)"
  "executeStmt (Suc n) (GlobalStmt names) st = (None, execGlobal names st)"
  "executeStmt (Suc n) (PersistentStmt names) st = (None, execPersistent names st)"
  "executeStmt (Suc n) (FunctionDefStmt fd) st =
     (None, st\<lparr>userFunctions := (userFunctions st)(fn_name fd \<mapsto> fd)\<rparr>)"
  "executeStmt (Suc n) (ClassDefStmt cname supers props meths) st = (None, st)"
  unfolding evaluator_defs by simp_all

lemma execBlock_eqs:
  "execBlock 0 ss st = (Some OutOfFuel, st)"
  "execBlock (Suc n) [] st = (None, st)"
  "execBlock (Suc n) (s # ss) st =
     (case executeStmt n s st of
        (None, st1) \<Rightarrow> execBlock n ss st1
      | (Some t, st1) \<Rightarrow> (Some t, st1))"
  unfolding evaluator_defs by simp_all

lemma execIf_eqs:
  "execIf 0 branches st = (Some OutOfFuel, st)"
  "execIf (Suc n) [] st = (None, st)"
  "execIf (Suc n) ((None, branchBody) # branches) st = execBlock n branchBody st"
  "execIf (Suc n) ((Some condition, branchBody) # branches) st =
     (case evalExpr n condition st of
        (Inl t, st1) \<Rightarrow> (Some t, st1)
      | (Inr cond, st1) \<Rightarrow>
          (case toBool cond of
             Inl err \<Rightarrow> (Some (Err err), st1)
           | Inr True \<Rightarrow> execBlock n branchBody st1
           | Inr False \<Rightarrow> execIf n branches st1))"
  unfolding evaluator_defs by simp_all


lemma execWhile_eqs:
  "execWhile 0 condition whileBody st = (Some OutOfFuel, st)"
  "execWhile (Suc n) condition whileBody st =
     (case evalExpr n condition st of
        (Inl t, st1) \<Rightarrow> (Some t, st1)
      | (Inr cond, st1) \<Rightarrow>
          (case toBool cond of
             Inl err \<Rightarrow> (Some (Err err), st1)
           | Inr False \<Rightarrow> (None, st1)
           | Inr True \<Rightarrow>
               (case execBlock n whileBody st1 of
                  (None, st2) \<Rightarrow> execWhile n condition whileBody st2
                | (Some BreakSignal, st2) \<Rightarrow> (None, st2)
                | (Some ContinueSignal, st2) \<Rightarrow> execWhile n condition whileBody st2
                | (Some t, st2) \<Rightarrow> (Some t, st2))))"
  unfolding evaluator_defs by simp_all

lemma execSwitch_eqs:
  "execSwitch 0 val cases st = (Some OutOfFuel, st)"
  "execSwitch (Suc n) val [] st = (None, st)"
  "execSwitch (Suc n) val ((None, caseBody) # cases) st = execBlock n caseBody st"
  "execSwitch (Suc n) val ((Some caseExpr, caseBody) # cases) st =
     (case evalExpr n caseExpr st of
        (Inl t, st1) \<Rightarrow> (Some t, st1)
      | (Inr caseVal, st1) \<Rightarrow>
          (case switchMatch val caseVal of
             Inl err \<Rightarrow> (Some (Err err), st1)
           | Inr True \<Rightarrow> execBlock n caseBody st1
           | Inr False \<Rightarrow> execSwitch n val cases st1))"
  unfolding evaluator_defs by simp_all


section \<open>The initial state\<close>


lemma isKnownFunction_new: "isKnownFunction Interpreter_new name = False"
  by (simp add: isKnownFunction_def isBuiltinFunction_def isUserFunction_def Interpreter_new_def)

lemma lookupVariable_setCurrent_new:
  "lookupVariable (setCurrent x v Interpreter_new) name
   = (if name = x then Some v else lookupVariable Interpreter_new name)"
  by (simp add: lookupVariable_def setCurrent_def Interpreter_new_def env_get_def env_set_def
      set_own_def)


section \<open>Indexing reads\<close>

lemma index0_of_nat:
  assumes "0 < k" "k < size_t_mod"
  shows "index0 (real k) = Inr (k - 1)"
proof -
  obtain j where j: "k = Suc j" using assms(1) by (cases k) simp_all
  have "(j + size_t_mod) mod size_t_mod = j" using assms(2) j by simp
  then have "(k + size_t_mod - 1) mod size_t_mod = k - 1" by (simp add: j)
  moreover have "- 1 < real k" by (meson less_le_trans neg_less_0_iff_less of_nat_0_le_iff zero_less_one)
  ultimately show ?thesis using assms by (simp add: index0_def to_size_t_def)
qed

text \<open>
  One-argument indexing does check its bound: a position beyond \<open>numel\<close> raises
  "Index exceeds array dimensions".
\<close>

lemma linear_index_out_of_range:
  assumes "numel mat < k" "k < size_t_mod"
  shows "indexVariable (VMatrix mat) [makeScalar (real k)] = Some (Inl index_error)"
proof -
  have "0 < k" using assms(1) by simp
  then have "index0 (real k) = Inr (k - 1)" using assms(2) by (rule index0_of_nat)
  moreover have "numel mat \<le> k - 1" using assms(1) by simp
  ultimately show ?thesis
    by (simp add: indexVariable_def index1_def makeScalar_def scalar_def isEmpty_def
        isScalar_def index_scalar_def scalarValue_def vec_at_def)
qed

text \<open>
  Claim C2 at a failing input. With \<open>A = [1 2; 3 4]\<close>, the read \<open>A(1, 3)\<close> asks for a
  column beyond the two that \<open>A\<close> has; no error is raised, and the cell at storage
  offset 2, which is \<open>A(2, 1) = 3\<close>, is returned: by the indexing step, and so by the
  evaluator on the expression \<open>A(1, 3)\<close>. The one-argument read \<open>A(5)\<close> of the same
  matrix raises "Index exceeds array dimensions".
\<close>

theorem two_argument_index_unchecked:
  "indexVariable (VMatrix \<lparr>rows = 2, cols = 2, data = [1, 2, 3, 4]\<rparr>) [makeScalar 1, makeScalar 3]
     = Some (Inr (makeScalar 3))
   \<and> evalExpr 4 (CallExpr (Identifier ''A'') [NumberLiteral 1 0 False, NumberLiteral 3 0 False])
         (setCurrent ''A'' (VMatrix \<lparr>rows = 2, cols = 2, data = [1, 2, 3, 4]\<rparr>) Interpreter_new)
       = (Inr (makeScalar 3),
          setCurrent ''A'' (VMatrix \<lparr>rows = 2, cols = 2, data = [1, 2, 3, 4]\<rparr>) Interpreter_new)
   \<and> evalExpr 4 (CallExpr (Identifier ''A'') [NumberLiteral 5 0 False])
         (setCurrent ''A'' (VMatrix \<lparr>rows = 2, cols = 2, data = [1, 2, 3, 4]\<rparr>) Interpreter_new)
       = (Inl (Err (RuntimeError ''Index exceeds array dimensions'')),
          setCurrent ''A'' (VMatrix \<lparr>rows = 2, cols = 2, data = [1, 2, 3, 4]\<rparr>) Interpreter_new)"
proof -
  let ?A = "VMatrix \<lparr>rows = 2, cols = 2, data = [1, 2, 3, 4]\<rparr>"
  let ?st = "setCurrent ''A'' ?A Interpreter_new"
  have i1: "index0 1 = Inr 0" using index0_of_nat [of 1] by (simp add: size_t_mod_def)
  have i3: "index0 3 = Inr 2" using index0_of_nat [of 3] by (simp add: size_t_mod_def)
  have two: "indexVariable ?A [makeScalar 1, makeScalar 3] = Some (Inr (makeScalar 3))"
    by (simp add: indexVariable_def index2_def axis_indices_def makeScalar_def scalar_def
        i1 i3 at2_def offset_def vec_at_def size_t_mod_def)
  have one: "indexVariable ?A [makeScalar 5] = Some (Inl index_error)"
    using linear_index_out_of_range [of "\<lparr>rows = 2, cols = 2, data = [1, 2, 3, 4]\<rparr>" 5]
    by (simp add: numel_def size_t_mod_def)
  have var: "lookupVariable ?st ''A'' = Some ?A"
    by (simp add: lookupVariable_setCurrent_new)
  have known: "\<not> isKnownFunction ?st ''A''"
    by (simp add: isKnownFunction_def isBuiltinFunction_def isUserFunction_def setCurrent_def
        Interpreter_new_def)
  have args2: "evalArgs 3 [NumberLiteral 1 0 False, NumberLiteral 3 0 False] ?st
               = (Inr [makeScalar 1, makeScalar 3], ?st)"
    by (simp add: evalArgs_eqs evalExpr_eqs eval_nat_numeral)
  have args1: "evalArgs 3 [NumberLiteral 5 0 False] ?st = (Inr [makeScalar 5], ?st)"
    by (simp add: evalArgs_eqs evalExpr_eqs eval_nat_numeral)
  have e2: "evalExpr (Suc 3) (CallExpr (Identifier ''A'') [NumberLiteral 1 0 False, NumberLiteral 3 0 False]) ?st
            = (Inr (makeScalar 3), ?st)"
    unfolding evalExpr_eqs using args2 var known two by (simp add: liftE_def)
  have e1: "evalExpr (Suc 3) (CallExpr (Identifier ''A'') [NumberLiteral 5 0 False]) ?st
            = (Inl (Err (RuntimeError ''Index exceeds array dimensions'')), ?st)"
    unfolding evalExpr_eqs using args1 var known one by (simp add: liftE_def index_error_def)
  show ?thesis using two e1 e2 by (simp add: eval_nat_numeral)
qed

section \<open>Colon ranges\<close>






section \<open>Control-flow signals and \<open>try\<close>/\<open>catch\<close>\<close>






section \<open>Scopes\<close>

text \<open>The scope \<open>createChild\<close> has just allocated, while it is filled.\<close>

lemma env_set_fresh:
  "env_set (h @ [\<lparr>parent = Some g, variables = m, globals = {}\<rparr>]) (length h) p a
   = h @ [\<lparr>parent = Some g, variables = m(p \<mapsto> a), globals = {}\<rparr>]"
  by (simp add: env_set_def set_own_def)

lemma env_has_fresh:
  "env_has (h @ [\<lparr>parent = Some g, variables = m, globals = {}\<rparr>]) (length h) name
   = (m name \<noteq> None)"
  by (simp add: env_has_def)

lemma bind_params_fresh:
  "fold (\<lambda>(p, a) h'. env_set h' (length h) p a) pas
     (h @ [\<lparr>parent = Some g, variables = m, globals = {}\<rparr>])
   = h @ [\<lparr>parent = Some g, variables = bindParams pas m, globals = {}\<rparr>]"
proof (induction pas arbitrary: m)
  case Nil
  show ?case by simp
next
  case (Cons pa pas)
  obtain p a where pa: "pa = (p, a)" by (cases pa)
  have step: "fold (\<lambda>(p, a) h'. env_set h' (length h) p a) (pa # pas)
                (h @ [\<lparr>parent = Some g, variables = m, globals = {}\<rparr>])
              = fold (\<lambda>(p, a) h'. env_set h' (length h) p a) pas
                  (h @ [\<lparr>parent = Some g, variables = m(p \<mapsto> a), globals = {}\<rparr>])"
    by (simp add: pa env_set_fresh)
  have r: "bindParams (pa # pas) m = bindParams pas (m(p \<mapsto> a))"
    by (simp add: pa)
  show ?case unfolding step r by (rule Cons.IH)
qed

lemma init_returns_fresh:
  "fold (\<lambda>ret h'. if \<not> env_has h' (length h) ret then env_set h' (length h) ret VEmpty else h') rets
     (h @ [\<lparr>parent = Some g, variables = m, globals = {}\<rparr>])
   = h @ [\<lparr>parent = Some g, variables = initReturns rets m, globals = {}\<rparr>]"
proof (induction rets arbitrary: m)
  case Nil
  show ?case by simp
next
  case (Cons r rets)
  show ?case
  proof (cases "m r")
    case None
    have step: "fold (\<lambda>ret h'. if \<not> env_has h' (length h) ret
                                 then env_set h' (length h) ret VEmpty else h') (r # rets)
                  (h @ [\<lparr>parent = Some g, variables = m, globals = {}\<rparr>])
                = fold (\<lambda>ret h'. if \<not> env_has h' (length h) ret
                                   then env_set h' (length h) ret VEmpty else h') rets
                    (h @ [\<lparr>parent = Some g, variables = m(r \<mapsto> VEmpty), globals = {}\<rparr>])"
      using None by (simp add: env_set_fresh env_has_fresh)
    have r: "initReturns (r # rets) m = initReturns rets (m(r \<mapsto> VEmpty))"
      using None by simp
    show ?thesis unfolding step r by (rule Cons.IH)
  next
    case (Some v)
    have step: "fold (\<lambda>ret h'. if \<not> env_has h' (length h) ret
                                 then env_set h' (length h) ret VEmpty else h') (r # rets)
                  (h @ [\<lparr>parent = Some g, variables = m, globals = {}\<rparr>])
                = fold (\<lambda>ret h'. if \<not> env_has h' (length h) ret
                                   then env_set h' (length h) ret VEmpty else h') rets
                    (h @ [\<lparr>parent = Some g, variables = m, globals = {}\<rparr>])"
      using Some by (simp add: env_has_fresh)
    have r: "initReturns (r # rets) m = initReturns rets m"
      using Some by simp
    show ?thesis unfolding step r by (rule Cons.IH)
  qed
qed

lemma bind_params_dom:
  "name \<notin> fst ` set pas \<Longrightarrow> bindParams pas m name = m name"
  by (induction pas m rule: bindParams.induct) auto

lemma init_returns_dom:
  "name \<notin> set rets \<Longrightarrow> initReturns rets m name = m name"
  by (induction rets m rule: initReturns.induct) auto

lemma enterFunction_fresh:
  "enterFunction func args nargout st
   = (length (heap st),
      st\<lparr>heap := heap st @ [\<lparr>parent = Some (globalEnv st),
                               variables = functionScope func args nargout,
                               globals = {}\<rparr>],
         currentEnv := length (heap st)\<rparr>)"
  by (simp add: enterFunction_def createChild_def bind_params_fresh env_set_fresh
      init_returns_fresh functionScope_def Let_def)

lemma functionScope_None:
  assumes "name \<notin> set (params func)" "name \<noteq> ''nargin''" "name \<noteq> ''nargout''"
    "name \<notin> set (returns func)"
  shows "functionScope func args nargout name = None"
proof -
  have "name \<notin> fst ` set (zip (params func) args)"
    using assms(1) by (auto dest: set_zip_leftD)
  then show ?thesis
    using assms by (simp add: functionScope_def init_returns_dom bind_params_dom)
qed

lemma getGlobalEnv_root:
  assumes "\<forall>i\<le>e. \<forall>p. parent (h ! i) = Some p \<longrightarrow> p < i"
  shows "parent (h ! getGlobalEnv h e) = None"
  using assms
proof (induction h e rule: getGlobalEnv.induct)
  case (1 h e)
  show ?case
  proof (cases "parent (h ! e)")
    case None
    then show ?thesis by (simp add: getGlobalEnv.simps [of h e])
  next
    case (Some p)
    then have lt: "p < e" using "1.prems" by auto
    then have "\<forall>i\<le>p. \<forall>q. parent (h ! i) = Some q \<longrightarrow> q < i"
      using "1.prems" by auto
    then have "parent (h ! getGlobalEnv h p) = None"
      using "1.IH" [OF Some lt] by simp
    then show ?thesis using Some lt by (simp add: getGlobalEnv.simps [of h e])
  qed
qed

text \<open>
  C6. Lookup in a scope reads the scope's own map and nothing of its parent: a name that
  is not bound in the scope's own map and is not declared global there is not found by
  \<open>get\<close> nor by \<open>has\<close>, whatever the other scopes of the store bind. An identifier that
  is not found and names no function raises \<open>Undefined variable or function\<close>. The scope
  a function call runs in is a fresh child of the global scope, where only the
  parameters, \<open>nargin\<close>, \<open>nargout\<close> and the return names are bound, whatever the calling
  scope binds. A name declared global in a scope that has a parent, and not bound in the
  scope's own map, resolves in the root scope its parent chain ends in.
\<close>

theorem lookup_never_consults_parent:
  "(variables (h ! e) name = None \<and> name \<notin> globals (h ! e) \<longrightarrow>
      env_get h e name = None \<and> \<not> env_has h e name)
   \<and> (variables (heap st ! currentEnv st) name = None
        \<and> name \<notin> globals (heap st ! currentEnv st) \<and> \<not> isKnownFunction st name \<longrightarrow>
      evalExpr (Suc n) (Identifier name) st
      = (Inl (Err (RuntimeError (''Undefined variable or function '' @ [quote] @ name @ [quote]))),
         st))
   \<and> (enterFunction func args nargout st = (funcEnv, st1)
        \<and> name \<notin> set (params func) \<union> {''nargin'', ''nargout''} \<union> set (returns func) \<longrightarrow>
      parent (heap st1 ! funcEnv) = Some (globalEnv st) \<and> currentEnv st1 = funcEnv
      \<and> lookupVariable st1 name = None)
   \<and> (variables (h ! e) name = None \<and> name \<in> globals (h ! e) \<and> parent (h ! e) \<noteq> None
        \<and> (\<forall>i\<le>e. \<forall>p. parent (h ! i) = Some p \<longrightarrow> p < i) \<longrightarrow>
      env_get h e name = variables (h ! getGlobalEnv h e) name
      \<and> parent (h ! getGlobalEnv h e) = None)"
proof (intro conjI impI)
  assume a: "variables (h ! e) name = None \<and> name \<notin> globals (h ! e)"
  then show "env_get h e name = None" by (simp add: env_get_def)
  from a show "\<not> env_has h e name" by (simp add: env_has_def)
next
  assume "variables (heap st ! currentEnv st) name = None
          \<and> name \<notin> globals (heap st ! currentEnv st) \<and> \<not> isKnownFunction st name"
  then show "evalExpr (Suc n) (Identifier name) st
             = (Inl (Err (RuntimeError (''Undefined variable or function '' @ [quote] @ name @ [quote]))),
                st)"
    by (simp add: evalExpr_eqs lookupVariable_def env_get_def raise_def quoted_def)
next
  assume a: "enterFunction func args nargout st = (funcEnv, st1)
             \<and> name \<notin> set (params func) \<union> {''nargin'', ''nargout''} \<union> set (returns func)"
  then have f: "funcEnv = length (heap st)"
    and s: "st1 = st\<lparr>heap := heap st @ [\<lparr>parent = Some (globalEnv st),
                               variables = functionScope func args nargout,
                               globals = {}\<rparr>],
         currentEnv := length (heap st)\<rparr>"
    by (auto simp add: enterFunction_fresh)
  show "parent (heap st1 ! funcEnv) = Some (globalEnv st)" by (simp add: f s)
  show "currentEnv st1 = funcEnv" by (simp add: f s)
  have "functionScope func args nargout name = None"
    using a by (intro functionScope_None) auto
  then show "lookupVariable st1 name = None"
    by (simp add: s lookupVariable_def env_get_def)
next
  assume a: "variables (h ! e) name = None \<and> name \<in> globals (h ! e) \<and> parent (h ! e) \<noteq> None
             \<and> (\<forall>i\<le>e. \<forall>p. parent (h ! i) = Some p \<longrightarrow> p < i)"
  then show "env_get h e name = variables (h ! getGlobalEnv h e) name"
    by (simp add: env_get_def)
  from a show "parent (h ! getGlobalEnv h e) = None"
    by (intro getGlobalEnv_root) simp
qed

theorem lookup_never_consults_parent_witness:
  "env_get [\<lparr>parent = None, variables = [''x'' \<mapsto> makeScalar 5, ''g'' \<mapsto> makeScalar 7], globals = {}\<rparr>,
            \<lparr>parent = Some 0, variables = Map.empty, globals = {''g''}\<rparr>] 1 ''x'' = None
   \<and> env_get [\<lparr>parent = None, variables = [''x'' \<mapsto> makeScalar 5, ''g'' \<mapsto> makeScalar 7], globals = {}\<rparr>,
              \<lparr>parent = Some 0, variables = Map.empty, globals = {''g''}\<rparr>] 1 ''g''
       = Some (makeScalar 7)
   \<and> evalExpr 1 (Identifier ''boom'') Interpreter_new
       = (Inl (Err (RuntimeError (''Undefined variable or function '' @ [quote] @ ''boom'' @ [quote]))),
          Interpreter_new)
   \<and> lookupVariable (setCurrent ''x'' (makeScalar 5) Interpreter_new) ''x'' = Some (makeScalar 5)
   \<and> lookupVariable
         (snd (enterFunction
                 (FunctionDef ''f'' [] [''y''] [AssignStmt (Identifier ''y'') (Identifier ''x'') False])
                 [] 1 (setCurrent ''x'' (makeScalar 5) Interpreter_new))) ''x'' = None
   \<and> fst (callUserFunction 4
              (FunctionDef ''f'' [] [''y''] [AssignStmt (Identifier ''y'') (Identifier ''x'') False])
              [] 1 (setCurrent ''x'' (makeScalar 5) Interpreter_new))
       = Inl (Err (RuntimeError (''Undefined variable or function '' @ [quote] @ ''x'' @ [quote])))"
proof -
  let ?h = "[\<lparr>parent = None, variables = [''x'' \<mapsto> makeScalar 5, ''g'' \<mapsto> makeScalar 7], globals = {}\<rparr>,
             \<lparr>parent = Some 0, variables = Map.empty, globals = {''g''}\<rparr>]"
  let ?f = "FunctionDef ''f'' [] [''y''] [AssignStmt (Identifier ''y'') (Identifier ''x'') False]"
  let ?st = "setCurrent ''x'' (makeScalar 5) Interpreter_new"
  let ?st1 = "snd (enterFunction ?f [] 1 ?st)"
  have wf: "\<forall>i\<le>1. \<forall>p. parent (?h ! i) = Some p \<longrightarrow> p < i"
    by (auto simp add: le_Suc_eq)
  have root: "getGlobalEnv ?h 1 = 0"
    by (simp add: getGlobalEnv.simps [of _ "Suc 0"] getGlobalEnv.simps [of _ 0])
  have a: "env_get ?h 1 ''x'' = None"
    using lookup_never_consults_parent [where h = ?h and e = 1 and name = "''x''"] by simp
  have b: "env_get ?h 1 ''g'' = Some (makeScalar 7)"
    using lookup_never_consults_parent [where h = ?h and e = 1 and name = "''g''"] wf root by simp
  have c: "evalExpr 1 (Identifier ''boom'') Interpreter_new
           = (Inl (Err (RuntimeError (''Undefined variable or function '' @ [quote] @ ''boom'' @ [quote]))),
              Interpreter_new)"
    using lookup_never_consults_parent [where name = "''boom''" and st = Interpreter_new and n = 0]
    by (simp add: isKnownFunction_new) (simp add: Interpreter_new_def)
  have d: "lookupVariable ?st ''x'' = Some (makeScalar 5)"
    by (simp add: lookupVariable_setCurrent_new)
  obtain fe s1 where ef: "enterFunction ?f [] 1 ?st = (fe, s1)"
    by (cases "enterFunction ?f [] 1 ?st")
  have f: "currentEnv s1 = fe \<and> lookupVariable s1 ''x'' = None"
    using lookup_never_consults_parent [where name = "''x''" and func = ?f and args = "[]"
        and nargout = 1 and st = ?st and funcEnv = fe and ?st1.0 = s1] ef
    by simp
  have k: "\<not> isKnownFunction s1 ''x''"
    using ef
    by (auto simp add: enterFunction_fresh isKnownFunction_def isBuiltinFunction_def
        isUserFunction_def setCurrent_def Interpreter_new_def)
  have v: "variables (heap s1 ! currentEnv s1) ''x'' = None
           \<and> ''x'' \<notin> globals (heap s1 ! currentEnv s1)"
    using ef by (auto simp add: enterFunction_fresh functionScope_def)
  have g: "evalExpr 1 (Identifier ''x'') s1
           = (Inl (Err (RuntimeError (''Undefined variable or function '' @ [quote] @ ''x'' @ [quote]))),
              s1)"
    using lookup_never_consults_parent [where name = "''x''" and st = s1 and n = 0] k v
    by simp
  have body: "execBlock 3 (body ?f) s1
           = (Some (Err (RuntimeError (''Undefined variable or function '' @ [quote] @ ''x'' @ [quote]))),
              s1)"
    using g by (simp add: execBlock_eqs executeStmt_eqs eval_nat_numeral)
  have call: "fst (callUserFunction 4 ?f [] 1 ?st)
       = Inl (Err (RuntimeError (''Undefined variable or function '' @ [quote] @ ''x'' @ [quote])))"
    using body ef by (simp add: callUserFunction_eqs eval_nat_numeral)
  have f': "lookupVariable (snd (enterFunction ?f [] 1 ?st)) ''x'' = None"
    using f ef by simp
  show ?thesis using a b c d f' call by simp
qed

section \<open>Multiple assignment\<close>

lemma set_own_parent: "parent (set_own h e name v ! i) = parent (h ! i)"
proof (cases "e < length h")
  case True
  then show ?thesis by (cases "i = e") (simp_all add: set_own_def)
next
  case False
  then show ?thesis by (simp add: set_own_def list_update_beyond)
qed

lemma set_own_globals: "globals (set_own h e name v ! i) = globals (h ! i)"
proof (cases "e < length h")
  case True
  then show ?thesis by (cases "i = e") (simp_all add: set_own_def)
next
  case False
  then show ?thesis by (simp add: set_own_def list_update_beyond)
qed

lemma set_own_variables_other:
  "x \<noteq> name \<Longrightarrow> variables (set_own h e name v ! i) x = variables (h ! i) x"
proof (cases "e < length h")
  case True
  assume "x \<noteq> name"
  with True show ?thesis by (cases "i = e") (simp_all add: set_own_def)
next
  case False
  then show ?thesis by (simp add: set_own_def list_update_beyond)
qed

lemma set_own_variables_same:
  "e < length h \<Longrightarrow> variables (set_own h e name v ! e) name = Some v"
  by (simp add: set_own_def)

lemma set_own_length: "length (set_own h e name v) = length h"
  by (simp add: set_own_def)

lemma getGlobalEnv_set_own: "getGlobalEnv (set_own h e name v) c = getGlobalEnv h c"
proof (induction h c rule: getGlobalEnv.induct)
  case (1 h c)
  show ?case
  proof (cases "parent (h ! c)")
    case None
    then show ?thesis
      by (simp add: getGlobalEnv.simps [of _ c] set_own_parent)
  next
    case (Some p)
    show ?thesis
    proof (cases "p < c")
      case True
      then show ?thesis
        using Some "1.IH" [OF Some True]
        by (simp add: getGlobalEnv.simps [of _ c] set_own_parent)
    next
      case False
      then show ?thesis
        using Some by (simp add: getGlobalEnv.simps [of _ c] set_own_parent)
    qed
  qed
qed

lemma env_get_set_own_other:
  assumes "x \<noteq> name"
  shows "env_get (set_own h e name v) c x = env_get h c x"
proof -
  have vars: "\<And>i. variables (set_own h e name v ! i) x = variables (h ! i) x"
    using assms by (rule set_own_variables_other)
  show ?thesis
    unfolding env_get_def vars set_own_globals set_own_parent getGlobalEnv_set_own
    by (rule refl)
qed

lemma env_get_env_set_other:
  "x \<noteq> name \<Longrightarrow> env_get (env_set h c name v) c' x = env_get h c' x"
  by (simp add: env_set_def env_get_set_own_other)

lemma env_get_env_set_same:
  "c < length h \<Longrightarrow> name \<notin> globals (h ! c) \<Longrightarrow> env_get (env_set h c name v) c name = Some v"
  by (simp add: env_set_def env_get_def set_own_variables_same)

lemma env_set_globals: "globals (env_set h c name v ! i) = globals (h ! i)"
  by (simp add: env_set_def set_own_globals)

lemma env_set_length: "length (env_set h c name v) = length h"
  by (simp add: env_set_def set_own_length)

lemma setCurrent_fields:
  "currentEnv (setCurrent name v st) = currentEnv st"
  "globalEnv (setCurrent name v st) = globalEnv st"
  "output_log (setCurrent name v st) = output_log st"
  "userFunctions (setCurrent name v st) = userFunctions st"
  "length (heap (setCurrent name v st)) = length (heap st)"
  "globals (heap (setCurrent name v st) ! i) = globals (heap st ! i)"
  by (simp_all add: setCurrent_def env_set_length env_set_globals)

lemma lookupVariable_setCurrent_other:
  "x \<noteq> name \<Longrightarrow> lookupVariable (setCurrent name v st) x = lookupVariable st x"
  by (simp add: lookupVariable_def setCurrent_def env_get_env_set_other)

lemma lookupVariable_setCurrent_same:
  "currentEnv st < length (heap st) \<Longrightarrow> name \<notin> globals (heap st ! currentEnv st)
   \<Longrightarrow> lookupVariable (setCurrent name v st) name = Some v"
  by (simp add: lookupVariable_def setCurrent_def env_get_env_set_same)

lemma bindTargets_fields:
  "currentEnv (bindTargets ts i val st) = currentEnv st
   \<and> output_log (bindTargets ts i val st) = output_log st
   \<and> userFunctions (bindTargets ts i val st) = userFunctions st
   \<and> length (heap (bindTargets ts i val st)) = length (heap st)
   \<and> globals (heap (bindTargets ts i val st) ! e) = globals (heap st ! e)"
  by (induction ts i val st rule: bindTargets.induct) (simp_all add: setCurrent_fields)

lemma bindTargets_other:
  "x \<notin> set ts \<or> x = ''~'' \<Longrightarrow> lookupVariable (bindTargets ts i val st) x = lookupVariable st x"
  by (induction ts i val st rule: bindTargets.induct)
    (auto simp add: lookupVariable_setCurrent_other)

lemma bindTargets_nth:
  assumes "distinct (filter (\<lambda>t. t \<noteq> ''~'') ts)"
    and "currentEnv st < length (heap st)"
    and "\<forall>t\<in>set ts. t \<notin> globals (heap st ! currentEnv st)"
    and "k < length ts" and "ts ! k \<noteq> ''~''"
  shows "lookupVariable (bindTargets ts i val st) (ts ! k) = Some (if i + k = 0 then val else VEmpty)"
  using assms
proof (induction ts arbitrary: i k st)
  case Nil
  then show ?case by simp
next
  case (Cons t ts)
  let ?v = "if i = 0 then val else VEmpty"
  let ?st = "if t = ''~'' then st else setCurrent t ?v st"
  have step: "bindTargets (t # ts) i val st = bindTargets ts (i + 1) val ?st"
    by simp
  have cur: "currentEnv ?st < length (heap ?st)"
    using Cons.prems(2) by (simp add: setCurrent_fields)
  have gl: "\<forall>u\<in>set ts. u \<notin> globals (heap ?st ! currentEnv ?st)"
    using Cons.prems(3) by (simp add: setCurrent_fields)
  have di: "distinct (filter (\<lambda>t. t \<noteq> ''~'') ts)"
    using Cons.prems(1) by (simp split: if_splits)
  show ?case
  proof (cases k)
    case 0
    then have t: "t \<noteq> ''~''" using Cons.prems(5) by simp
    then have "t \<notin> set ts" using Cons.prems(1) by simp
    then have "lookupVariable (bindTargets ts (i + 1) val ?st) t = lookupVariable ?st t"
      by (intro bindTargets_other) simp
    also have "\<dots> = Some ?v"
      using t Cons.prems(2,3) by (simp add: lookupVariable_setCurrent_same)
    finally have "lookupVariable (bindTargets ts (i + 1) val ?st) t = Some ?v" .
    moreover have "(t # ts) ! k = t" "(i + k = 0) = (i = 0)"
      using 0 by simp_all
    ultimately show ?thesis unfolding step by (simp only:)
  next
    case (Suc k')
    then have "k' < length ts" "ts ! k' \<noteq> ''~''"
      using Cons.prems(4,5) by simp_all
    then have "lookupVariable (bindTargets ts (i + 1) val ?st) (ts ! k')
               = Some (if i + 1 + k' = 0 then val else VEmpty)"
      using Cons.IH [OF di cur gl] by blast
    moreover have "(t # ts) ! k = ts ! k'" "(i + 1 + k' = 0) = (i + k = 0)"
      using Suc by simp_all
    ultimately show ?thesis unfolding step by (simp only:)
  qed
qed

lemma displayTargets_fields:
  "heap (displayTargets ts st) = heap st \<and> currentEnv (displayTargets ts st) = currentEnv st"
  by (induction ts st rule: displayTargets.induct) (simp_all add: display_def split: option.splits)

lemma callUserFunction_result:
  assumes "callUserFunction (Suc n) func args nargout st = (Inr v, st')"
  shows "v = functionResult func (length (heap st)) st'"
proof -
  obtain r st2 where b: "execBlock n (body func)
      (st\<lparr>heap := heap st @ [\<lparr>parent = Some (globalEnv st),
                               variables = functionScope func args nargout,
                               globals = {}\<rparr>],
         currentEnv := length (heap st)\<rparr>) = (r, st2)"
    by (cases "execBlock n (body func)
      (st\<lparr>heap := heap st @ [\<lparr>parent = Some (globalEnv st),
                               variables = functionScope func args nargout,
                               globals = {}\<rparr>],
         currentEnv := length (heap st)\<rparr>)")
  have "r = None \<or> r = Some ReturnSignal"
    using assms b
    by (auto simp add: callUserFunction_eqs enterFunction_fresh split: option.splits thrown.splits)
  then have "v = functionResult func (length (heap st)) st2
             \<and> st' = st2\<lparr>currentEnv := currentEnv st\<rparr>"
    using assms b by (auto simp add: callUserFunction_eqs enterFunction_fresh)
  then show ?thesis by (simp add: functionResult_def)
qed

text \<open>
  C7. When the right-hand side of \<open>[t1, t2, ...] = expr\<close> evaluates (once, from \<open>st\<close> to
  \<open>st1\<close>) to a value, the statement completes normally; after it, the first target is
  bound to that value and every later target to the empty value, a target \<open>~\<close> and every
  name that is not a target are bound as they were after the evaluation, and, unless the
  result is printed, nothing is displayed. The targets are taken to be local names of the
  current scope, each written once. A call of a user function yields one value, read from
  the first declared return name of the function's scope; the other return names are not
  read.
\<close>

theorem multi_assign_binds_first_target_only:
  assumes "evalExpr n valueExpr st = (Inr val, st1)"
    and "currentEnv st1 < length (heap st1)"
    and "\<forall>t\<in>set targets. t \<notin> globals (heap st1 ! currentEnv st1)"
    and "distinct (filter (\<lambda>t. t \<noteq> ''~'') targets)"
  shows "\<exists>st2. executeStmt (Suc n) (MultiAssignStmt targets valueExpr printResult) st = (None, st2)
           \<and> (\<forall>k<length targets. targets ! k \<noteq> ''~'' \<longrightarrow>
                 lookupVariable st2 (targets ! k) = Some (if k = 0 then val else VEmpty))
           \<and> (\<forall>x. x \<notin> set targets \<or> x = ''~'' \<longrightarrow> lookupVariable st2 x = lookupVariable st1 x)
           \<and> (\<not> printResult \<longrightarrow> output_log st2 = output_log st1)
           \<and> (callUserFunction (Suc m) func args nargout s = (Inr v, s') \<longrightarrow>
                 v = (if returns func = [] then VEmpty
                      else (case env_get (heap s') (length (heap s)) (hd (returns func)) of
                              Some x \<Rightarrow> x
                            | None \<Rightarrow> VEmpty)))"
proof -
  let ?b = "bindTargets targets 0 val st1"
  let ?st2 = "if printResult \<and> \<not> isEmptyValue val then displayTargets targets ?b else ?b"
  have look: "lookupVariable ?st2 x = lookupVariable ?b x" for x
    by (simp add: lookupVariable_def displayTargets_fields)
  have ex: "executeStmt (Suc n) (MultiAssignStmt targets valueExpr printResult) st = (None, ?st2)"
    using assms(1) by (simp add: executeStmt_eqs Let_def)
  have first: "\<forall>k<length targets. targets ! k \<noteq> ''~'' \<longrightarrow>
                 lookupVariable ?st2 (targets ! k) = Some (if k = 0 then val else VEmpty)"
    using bindTargets_nth [OF assms(4,2,3), of _ 0 val] unfolding look by simp
  have other: "\<forall>x. x \<notin> set targets \<or> x = ''~'' \<longrightarrow> lookupVariable ?st2 x = lookupVariable st1 x"
    unfolding look by (intro allI impI bindTargets_other)
  have quiet: "\<not> printResult \<longrightarrow> output_log ?st2 = output_log st1"
    by (simp add: bindTargets_fields)
  have one: "callUserFunction (Suc m) func args nargout s = (Inr v, s') \<longrightarrow>
                 v = (if returns func = [] then VEmpty
                      else (case env_get (heap s') (length (heap s)) (hd (returns func)) of
                              Some x \<Rightarrow> x
                            | None \<Rightarrow> VEmpty))"
    using callUserFunction_result [of m func args nargout s v s']
    by (simp add: functionResult_def)
  show ?thesis using ex first other quiet one by blast
qed

theorem multi_assign_binds_first_target_only_witness:
  "fst (executeStmt 9
          (MultiAssignStmt [''a'', ''~'', ''b''] (CallExpr (Identifier ''two'') []) False)
          (Interpreter_new\<lparr>userFunctions :=
             [''two'' \<mapsto> FunctionDef ''two'' [] [''p'', ''q'']
                [AssignStmt (Identifier ''p'') (NumberLiteral 1 0 False) False,
                 AssignStmt (Identifier ''q'') (NumberLiteral 2 0 False) False]]\<rparr>)) = None
   \<and> lookupVariable
         (snd (executeStmt 9
            (MultiAssignStmt [''a'', ''~'', ''b''] (CallExpr (Identifier ''two'') []) False)
            (Interpreter_new\<lparr>userFunctions :=
               [''two'' \<mapsto> FunctionDef ''two'' [] [''p'', ''q'']
                  [AssignStmt (Identifier ''p'') (NumberLiteral 1 0 False) False,
                   AssignStmt (Identifier ''q'') (NumberLiteral 2 0 False) False]]\<rparr>))) ''a''
       = Some (makeScalar 1)
   \<and> lookupVariable
         (snd (executeStmt 9
            (MultiAssignStmt [''a'', ''~'', ''b''] (CallExpr (Identifier ''two'') []) False)
            (Interpreter_new\<lparr>userFunctions :=
               [''two'' \<mapsto> FunctionDef ''two'' [] [''p'', ''q'']
                  [AssignStmt (Identifier ''p'') (NumberLiteral 1 0 False) False,
                   AssignStmt (Identifier ''q'') (NumberLiteral 2 0 False) False]]\<rparr>))) ''b''
       = Some VEmpty
   \<and> lookupVariable
         (snd (executeStmt 9
            (MultiAssignStmt [''a'', ''~'', ''b''] (CallExpr (Identifier ''two'') []) False)
            (Interpreter_new\<lparr>userFunctions :=
               [''two'' \<mapsto> FunctionDef ''two'' [] [''p'', ''q'']
                  [AssignStmt (Identifier ''p'') (NumberLiteral 1 0 False) False,
                   AssignStmt (Identifier ''q'') (NumberLiteral 2 0 False) False]]\<rparr>))) ''~''
       = None"
proof -
  let ?two = "FunctionDef ''two'' [] [''p'', ''q'']
                [AssignStmt (Identifier ''p'') (NumberLiteral 1 0 False) False,
                 AssignStmt (Identifier ''q'') (NumberLiteral 2 0 False) False]"
  let ?st = "Interpreter_new\<lparr>userFunctions := [''two'' \<mapsto> ?two]\<rparr>"
  let ?st1 = "?st\<lparr>heap := heap ?st @
                [\<lparr>parent = Some 0,
                  variables = [''nargin'' \<mapsto> makeScalar 0, ''nargout'' \<mapsto> makeScalar 1,
                               ''p'' \<mapsto> makeScalar 1, ''q'' \<mapsto> makeScalar 2],
                  globals = {}\<rparr>]\<rparr>"
  let ?s = "MultiAssignStmt [''a'', ''~'', ''b''] (CallExpr (Identifier ''two'') []) False"
  have call: "callUserFunction 6 ?two [] 1 ?st = (Inr (makeScalar 1), ?st1)"
    by (simp add: callUserFunction_eqs enterFunction_fresh execBlock_eqs executeStmt_eqs
        evalExpr_eqs eval_nat_numeral functionScope_def setCurrent_def env_set_def set_own_def
        functionResult_def env_get_def Interpreter_new_def)
  have lk: "lookupVariable ?st ''two'' = None"
    by (simp add: lookupVariable_def env_get_def Interpreter_new_def)
  have ev: "evalExpr 8 (CallExpr (Identifier ''two'') []) ?st = (Inr (makeScalar 1), ?st1)"
    using call lk
    by (simp add: evalExpr_eqs evalArgs_eqs callFunction_eqs eval_nat_numeral Interpreter_new_def)
  have cur: "currentEnv ?st1 < length (heap ?st1)"
    by (simp add: Interpreter_new_def)
  have gl: "\<forall>t\<in>set [''a'', ''~'', ''b'']. t \<notin> globals (heap ?st1 ! currentEnv ?st1)"
    by (simp add: Interpreter_new_def)
  have di: "distinct (filter (\<lambda>t. t \<noteq> ''~'') [''a'', ''~'', ''b''])"
    by simp
  have old: "lookupVariable ?st1 ''~'' = None"
    by (simp add: lookupVariable_def env_get_def Interpreter_new_def)
  obtain st2 where ex: "executeStmt (Suc 8) ?s ?st = (None, st2)"
    and first: "\<forall>k<length [''a'', ''~'', ''b'']. [''a'', ''~'', ''b''] ! k \<noteq> ''~'' \<longrightarrow>
                  lookupVariable st2 ([''a'', ''~'', ''b''] ! k)
                  = Some (if k = 0 then makeScalar 1 else VEmpty)"
    and other: "\<forall>x. x \<notin> set [''a'', ''~'', ''b''] \<or> x = ''~'' \<longrightarrow>
                  lookupVariable st2 x = lookupVariable ?st1 x"
    using multi_assign_binds_first_target_only [OF ev cur gl di, of False] by blast
  have e9: "executeStmt 9 ?s ?st = (None, st2)"
    using ex by (simp add: eval_nat_numeral)
  have a: "lookupVariable st2 ''a'' = Some (makeScalar 1)"
    using first [rule_format, of 0] by simp
  have b: "lookupVariable st2 ''b'' = Some VEmpty"
    using first [rule_format, of 2] by simp
  have c: "lookupVariable st2 ''~'' = None"
    using other [rule_format, of "''~''"] old by simp
  show ?thesis
    unfolding e9 using a b c by simp
qed

section \<open>The condition of a \<open>while\<close> loop\<close>

lemma toBool_cases:
  "toBool (VCellArray r c d) = Inl (RuntimeError ''Cannot convert value to logical'')"
  "toBool (VStruct fs) = Inl (RuntimeError ''Cannot convert value to logical'')"
  "toBool (VFuncHandle name impl) = Inl (RuntimeError ''Cannot convert value to logical'')"
  "toBool VEmpty = Inl (RuntimeError ''Cannot convert value to logical'')"
  "toBool (VString s) = Inr (s \<noteq> [])"
  "toBool (VMatrix m) = Inr (0 \<notin> set (data m) \<and> data m \<noteq> [])"
  "toBool (VLogical m) = Inr (0 \<notin> set (data m) \<and> data m \<noteq> [])"
  by (simp_all add: numel_def)

text \<open>
  C8, as the code has it. Each round of a \<open>while\<close> loop starts by evaluating the
  condition, in the state the previous round left. A condition that evaluates to a cell
  array, a struct, a function handle or the empty value raises
  \<open>Cannot convert value to logical\<close>. A string raises nothing: it is coerced, the empty
  string to false and any other string to true. A numeric or logical matrix is true when
  it has an element and none of its elements is zero. On false the loop ends normally; on
  true the body runs, and when it completes or signals \<open>continue\<close> the loop starts its
  next round, which evaluates the condition again.
\<close>

theorem while_condition_coercion:
  assumes "evalExpr n condition st = (Inr cond, st1)"
  shows "(cond = VCellArray r c d \<or> cond = VStruct fs \<or> cond = VFuncHandle name impl
            \<or> cond = VEmpty \<longrightarrow>
            execWhile (Suc n) condition whileBody st
            = (Some (Err (RuntimeError ''Cannot convert value to logical'')), st1))
       \<and> (cond = VString s \<longrightarrow> toBool cond = Inr (s \<noteq> []))
       \<and> (cond = VMatrix m \<or> cond = VLogical m \<longrightarrow>
            toBool cond = Inr (0 \<notin> set (data m) \<and> data m \<noteq> []))
       \<and> (toBool cond = Inr False \<longrightarrow>
            execWhile (Suc n) condition whileBody st = (None, st1))
       \<and> (toBool cond = Inr True
            \<and> (execBlock n whileBody st1 = (None, st2)
                \<or> execBlock n whileBody st1 = (Some ContinueSignal, st2)) \<longrightarrow>
            execWhile (Suc n) condition whileBody st = execWhile n condition whileBody st2)
       \<and> (toBool cond = Inr True \<and> execBlock n whileBody st1 = (Some BreakSignal, st2) \<longrightarrow>
            execWhile (Suc n) condition whileBody st = (None, st2))"
proof (intro conjI impI)
  assume "cond = VCellArray r c d \<or> cond = VStruct fs \<or> cond = VFuncHandle name impl
          \<or> cond = VEmpty"
  then have "toBool cond = Inl (RuntimeError ''Cannot convert value to logical'')"
    by (auto simp add: toBool_cases)
  then show "execWhile (Suc n) condition whileBody st
             = (Some (Err (RuntimeError ''Cannot convert value to logical'')), st1)"
    using assms by (simp add: execWhile_eqs)
next
  assume "cond = VString s"
  then show "toBool cond = Inr (s \<noteq> [])" by (simp add: toBool_cases)
next
  assume "cond = VMatrix m \<or> cond = VLogical m"
  then show "toBool cond = Inr (0 \<notin> set (data m) \<and> data m \<noteq> [])"
    by (auto simp add: numel_def)
next
  assume "toBool cond = Inr False"
  then show "execWhile (Suc n) condition whileBody st = (None, st1)"
    using assms by (simp add: execWhile_eqs)
next
  assume "toBool cond = Inr True
          \<and> (execBlock n whileBody st1 = (None, st2)
              \<or> execBlock n whileBody st1 = (Some ContinueSignal, st2))"
  then show "execWhile (Suc n) condition whileBody st = execWhile n condition whileBody st2"
    using assms by (auto simp add: execWhile_eqs)
next
  assume "toBool cond = Inr True \<and> execBlock n whileBody st1 = (Some BreakSignal, st2)"
  then show "execWhile (Suc n) condition whileBody st = (None, st2)"
    using assms by (simp add: execWhile_eqs)
qed

theorem while_condition_coercion_witness:
  "execWhile 2 (CellArrayLiteral []) [BreakStmt] Interpreter_new
     = (Some (Err (RuntimeError ''Cannot convert value to logical'')), Interpreter_new)
   \<and> execWhile 4 (Identifier ''go'')
         [AssignStmt (Identifier ''go'') (BoolLiteral False) False]
         (setCurrent ''go'' (makeBool True) Interpreter_new)
     = (None, setCurrent ''go'' (makeBool False) (setCurrent ''go'' (makeBool True) Interpreter_new))"
proof -
  let ?body = "[AssignStmt (Identifier ''go'') (BoolLiteral False) False]"
  let ?st = "setCurrent ''go'' (makeBool True) Interpreter_new"
  let ?st2 = "setCurrent ''go'' (makeBool False) ?st"
  have cell: "evalExpr 1 (CellArrayLiteral []) Interpreter_new = (Inr (VCellArray 0 0 []), Interpreter_new)"
    by (simp add: evalExpr_eqs)
  have a: "execWhile 2 (CellArrayLiteral []) [BreakStmt] Interpreter_new
           = (Some (Err (RuntimeError ''Cannot convert value to logical'')), Interpreter_new)"
    using while_condition_coercion [OF cell, of 0 0 "[]"] by (simp add: eval_nat_numeral)
  have l1: "lookupVariable ?st ''go'' = Some (makeBool True)"
    by (simp add: lookupVariable_setCurrent_new)
  have l2: "lookupVariable ?st2 ''go'' = Some (makeBool False)"
    by (intro lookupVariable_setCurrent_same)
      (simp_all add: setCurrent_fields Interpreter_new_def)
  have c1: "evalExpr 3 (Identifier ''go'') ?st = (Inr (makeBool True), ?st)"
    using l1 by (simp add: evalExpr_eqs eval_nat_numeral)
  have c2: "evalExpr 2 (Identifier ''go'') ?st2 = (Inr (makeBool False), ?st2)"
    using l2 by (simp add: evalExpr_eqs eval_nat_numeral)
  have t1: "toBool (makeBool True) = Inr True"
    by (simp add: makeBool_def scalar_def numel_def)
  have t2: "toBool (makeBool False) = Inr False"
    by (simp add: makeBool_def scalar_def numel_def)
  have b: "execBlock 3 ?body ?st = (None, ?st2)"
    by (simp add: execBlock_eqs executeStmt_eqs evalExpr_eqs eval_nat_numeral)
  have r1: "execWhile (Suc 3) (Identifier ''go'') ?body ?st = execWhile 3 (Identifier ''go'') ?body ?st2"
    using while_condition_coercion [OF c1, where whileBody = ?body and ?st2.0 = ?st2] t1 b
    by simp
  have r2: "execWhile (Suc 2) (Identifier ''go'') ?body ?st2 = (None, ?st2)"
    using while_condition_coercion [OF c2, where whileBody = ?body] t2
    by simp
  show ?thesis using a r1 r2 by (simp add: eval_nat_numeral)
qed

text \<open>
  A string condition is not an error: \<open>while 'abc', k = 1; break; end\<close> runs its body
  and ends normally, and \<open>while '', k = 1; end\<close> ends at once.
\<close>

theorem while_string_condition_counterexample:
  "execWhile 4 (StringLiteral ''abc'')
     [AssignStmt (Identifier ''k'') (NumberLiteral 1 0 False) False, BreakStmt] Interpreter_new
     = (None, setCurrent ''k'' (makeScalar 1) Interpreter_new)
   \<and> execWhile 4 (StringLiteral [])
       [AssignStmt (Identifier ''k'') (NumberLiteral 1 0 False) False] Interpreter_new
     = (None, Interpreter_new)"
  by (simp add: execWhile_eqs execBlock_eqs executeStmt_eqs evalExpr_eqs eval_nat_numeral)

end
